theory Spec2Isabelle
  imports Complex_Main "HOL-Library.Word"
begin

section \<open>Eidolon RenderTypes: numeric matrix and geometry routines\<close>

text \<open>
  A shallow embedding of the parts of \<^verbatim>\<open>RenderTypes.h\<close> and \<^verbatim>\<open>RenderTypes.cpp\<close> that
  carry the container and geometry logic.

  Conventions of the embedding:
  \<^item> \<^verbatim>\<open>sval\<close> and \<^verbatim>\<open>indexval\<close> (both \<^verbatim>\<open>u32\<close>) are \<open>32 word\<close>: \<open>+\<close> and \<open>*\<close> wrap.
  \<^item> The C++ type \<^verbatim>\<open>real\<close> is \<^verbatim>\<open>double\<close>. In the vector, basis, point-location and ray code
    a \<^verbatim>\<open>double\<close> is a value of the type \<open>double\<close> below (a finite value, the negative
    zero, an infinity or NaN), and every \<^verbatim>\<open>+\<close>, \<^verbatim>\<open>-\<close>, \<^verbatim>\<open>*\<close>, \<^verbatim>\<open>/\<close> and \<^verbatim>\<open>sqrt\<close> gives the
    exact result rounded to the nearest binary64 value, ties to the even significand
    (IEEE 754), each operation rounded on its own.
  \<^item> \<^verbatim>\<open>calculateHexValueIntersects\<close> selects edges by comparing the values it is given;
    there the values are read as real numbers.
  \<^item> In the byte-swapping code a \<^verbatim>\<open>double\<close> is its 64-bit pattern and a \<^verbatim>\<open>float\<close> its
    32-bit pattern, since that code only moves bytes.
  \<^item> A thrown exception is a value: an operation on a matrix returns the exception
    thrown (if any) together with the state of the object at that moment.
\<close>

subsection \<open>Constants and small helpers\<close>

type_synonym sval = "32 word"

text \<open>\<^verbatim>\<open>_min\<close> and \<^verbatim>\<open>_max\<close>: \<^verbatim>\<open>a<b ? a : b\<close> and \<^verbatim>\<open>a>b ? a : b\<close>.\<close>

definition min_T :: "'a::ord \<Rightarrow> 'a \<Rightarrow> 'a" where
  "min_T a b = (if a < b then a else b)"

definition max_T :: "'a::ord \<Rightarrow> 'a \<Rightarrow> 'a" where
  "max_T a b = (if a > b then a else b)"

subsection \<open>Double arithmetic\<close>

text \<open>
  A finite binary64 value is \<open>m * 2 ^ e\<close> with an integer \<open>m\<close>, \<open>\<bar>m\<bar> < 2 ^ 53\<close> and
  \<open>- 1074 \<le> e \<le> 971\<close>. \<open>round_double\<close> rounds a real number to the nearest such value
  with the exponent range unbounded above: the spacing of the values around \<open>x\<close> is
  \<open>2 ^ (e - 52)\<close> for \<open>2 ^ e \<le> \<bar>x\<bar> < 2 ^ (e + 1)\<close>, and \<open>2 ^ - 1074\<close> below \<open>2 ^ - 1022\<close>.
\<close>

definition pow2 :: "int \<Rightarrow> real" where
  "pow2 e = (if 0 \<le> e then 2 ^ nat e else 1 / 2 ^ nat (- e))"

text \<open>The exponent \<open>e\<close> with \<open>2 ^ e \<le> x < 2 ^ (e + 1)\<close> of a positive \<open>x\<close>, found by halving or doubling.\<close>

fun binary_exponent :: "nat \<Rightarrow> real \<Rightarrow> int \<Rightarrow> int" where
  "binary_exponent 0 x e = e"
| "binary_exponent (Suc fuel) x e =
     (if 2 \<le> x then binary_exponent fuel (x / 2) (e + 1)
      else if x < 1 then binary_exponent fuel (x * 2) (e - 1)
      else e)"

definition round_half_even :: "real \<Rightarrow> int" where
  "round_half_even y =
     (let f = \<lfloor>y\<rfloor>; d = y - of_int f
      in if d < 1 / 2 then f else if 1 / 2 < d then f + 1 else if even f then f else f + 1)"

definition round_double :: "real \<Rightarrow> real" where
  "round_double x =
     (if x = 0 then 0
      else
        let e = (if \<bar>x\<bar> < pow2 (- 1022) then - 1022 else binary_exponent 2200 \<bar>x\<bar> 0);
            ulp = pow2 (e - 52)
        in of_int (round_half_even (x / ulp)) * ulp)"

text \<open>
  The values of a \<^verbatim>\<open>double\<close>. \<open>Fin r\<close> is the finite value \<open>r\<close>, with \<open>Fin 0\<close> the positive
  zero; \<open>NegZero\<close> is \<^verbatim>\<open>-0.0\<close>.
\<close>

datatype double = Fin real | NegZero | PInf | NInf | NaN

fun dval :: "double \<Rightarrow> real" where
  "dval (Fin r) = r"
| "dval NegZero = 0"
| "dval PInf = 0"
| "dval NInf = 0"
| "dval NaN = 0"

fun signbit :: "double \<Rightarrow> bool" where
  "signbit (Fin r) = (r < 0)"
| "signbit NegZero = True"
| "signbit PInf = False"
| "signbit NInf = True"
| "signbit NaN = False"

fun isinf :: "double \<Rightarrow> bool" where
  "isinf PInf = True"
| "isinf NInf = True"
| "isinf d = False"

fun isfinite :: "double \<Rightarrow> bool" where
  "isfinite (Fin r) = True"
| "isfinite NegZero = True"
| "isfinite d = False"

definition iszero :: "double \<Rightarrow> bool" where
  "iszero d \<longleftrightarrow> isfinite d \<and> dval d = 0"

definition signed_zero :: "bool \<Rightarrow> double" where
  "signed_zero neg = (if neg then NegZero else Fin 0)"

definition signed_inf :: "bool \<Rightarrow> double" where
  "signed_inf neg = (if neg then NInf else PInf)"

text \<open>
  The result of an operation whose exact value is \<open>x\<close>: rounded, an infinity when the
  rounded value is beyond the largest finite value, a zero with the sign of \<open>x\<close> when it
  rounds to zero. \<open>neg\<close> is the sign of the zero returned when \<open>x\<close> itself is zero.
\<close>

definition fl :: "bool \<Rightarrow> real \<Rightarrow> double" where
  "fl neg x =
     (if x = 0 then signed_zero neg
      else
        let r = round_double x
        in if 2 ^ 1024 \<le> \<bar>r\<bar> then signed_inf (x < 0)
           else if r = 0 then signed_zero (x < 0)
           else Fin r)"

text \<open>
  The operators of \<^verbatim>\<open>double\<close>. A comparison with NaN is false; the two zeros compare equal.
\<close>

instantiation double :: "{zero, one, plus, minus, uminus, times, inverse, ord}"
begin

definition zero_double :: double where
  "zero_double = Fin 0"

definition one_double :: double where
  "one_double = Fin 1"

definition uminus_double :: "double \<Rightarrow> double" where
  "uminus_double a =
     (case a of Fin r \<Rightarrow> if r = 0 then NegZero else Fin (- r) | NegZero \<Rightarrow> Fin 0
      | PInf \<Rightarrow> NInf | NInf \<Rightarrow> PInf | NaN \<Rightarrow> NaN)"

definition plus_double :: "double \<Rightarrow> double \<Rightarrow> double" where
  "plus_double a b =
     (if a = NaN \<or> b = NaN then NaN
      else if isinf a then (if isinf b \<and> a \<noteq> b then NaN else a)
      else if isinf b then b
      else fl (signbit a \<and> signbit b) (dval a + dval b))"

definition minus_double :: "double \<Rightarrow> double \<Rightarrow> double" where
  "minus_double a b = a + (- b)"

definition times_double :: "double \<Rightarrow> double \<Rightarrow> double" where
  "times_double a b =
     (if a = NaN \<or> b = NaN then NaN
      else if isinf a \<or> isinf b then
        (if iszero a \<or> iszero b then NaN else signed_inf (signbit a \<noteq> signbit b))
      else fl (signbit a \<noteq> signbit b) (dval a * dval b))"

definition divide_double :: "double \<Rightarrow> double \<Rightarrow> double" where
  "divide_double a b =
     (if a = NaN \<or> b = NaN then NaN
      else if isinf a then (if isinf b then NaN else signed_inf (signbit a \<noteq> signbit b))
      else if isinf b then signed_zero (signbit a \<noteq> signbit b)
      else if iszero b then (if iszero a then NaN else signed_inf (signbit a \<noteq> signbit b))
      else fl (signbit a \<noteq> signbit b) (dval a / dval b))"

definition inverse_double :: "double \<Rightarrow> double" where
  "inverse_double a = divide (Fin 1) a"

definition less_double :: "double \<Rightarrow> double \<Rightarrow> bool" where
  "less_double a b \<longleftrightarrow>
     a \<noteq> NaN \<and> b \<noteq> NaN \<and> a \<noteq> PInf \<and> b \<noteq> NInf \<and> (a = NInf \<or> b = PInf \<or> dval a < dval b)"

definition less_eq_double :: "double \<Rightarrow> double \<Rightarrow> bool" where
  "less_eq_double a b \<longleftrightarrow>
     a \<noteq> NaN \<and> b \<noteq> NaN
     \<and> (a = b \<or> a = NInf \<or> b = PInf \<or> (isfinite a \<and> isfinite b \<and> dval a \<le> dval b))"

instance ..

end

text \<open>The operator \<^verbatim>\<open>==\<close>, and \<^verbatim>\<open>fabs\<close> and \<^verbatim>\<open>sqrt\<close> of the C library.\<close>

definition deq :: "double \<Rightarrow> double \<Rightarrow> bool" where
  "deq a b \<longleftrightarrow> a \<noteq> NaN \<and> b \<noteq> NaN \<and> (a = b \<or> (isfinite a \<and> isfinite b \<and> dval a = dval b))"

definition fabs :: "double \<Rightarrow> double" where
  "fabs a = (case a of Fin r \<Rightarrow> Fin \<bar>r\<bar> | NegZero \<Rightarrow> Fin 0 | PInf \<Rightarrow> PInf | NInf \<Rightarrow> PInf | NaN \<Rightarrow> NaN)"

definition sqrt_d :: "double \<Rightarrow> double" where
  "sqrt_d a =
     (case a of Fin r \<Rightarrow> if r < 0 then NaN else fl False (sqrt r) | NegZero \<Rightarrow> NegZero
      | PInf \<Rightarrow> PInf | NInf \<Rightarrow> NaN | NaN \<Rightarrow> NaN)"

text \<open>The value of a positive decimal constant of the source text: the nearest \<^verbatim>\<open>double\<close>.\<close>

definition D :: "real \<Rightarrow> double" where
  "D x = fl False x"

text \<open>\<^verbatim>\<open>#define dEPSILON 1.0e-10\<close>\<close>

definition dEPSILON :: double where
  "dEPSILON = D (1 / 10 ^ 10)"

definition equalsEpsilon :: "double \<Rightarrow> double \<Rightarrow> bool" where
  "equalsEpsilon v1 v2 \<longleftrightarrow> fabs (v1 - v2) \<le> dEPSILON"

subsection \<open>The vector type\<close>

datatype vec3 = Vec3 (vx: double) (vy: double) (vz: double)

text \<open>\<^verbatim>\<open>vec3(real val)\<close> sets all three components to \<^verbatim>\<open>val\<close>.\<close>

definition vec3_all :: "double \<Rightarrow> vec3" where
  "vec3_all v = Vec3 v v v"

definition vadd :: "vec3 \<Rightarrow> vec3 \<Rightarrow> vec3" where
  "vadd a b = Vec3 (vx a + vx b) (vy a + vy b) (vz a + vz b)"

definition vsub :: "vec3 \<Rightarrow> vec3 \<Rightarrow> vec3" where
  "vsub a b = Vec3 (vx a - vx b) (vy a - vy b) (vz a - vz b)"

definition vscale :: "vec3 \<Rightarrow> double \<Rightarrow> vec3" where
  "vscale a v = Vec3 (vx a * v) (vy a * v) (vz a * v)"

definition cross :: "vec3 \<Rightarrow> vec3 \<Rightarrow> vec3" where
  "cross a v = Vec3 (vy a * vz v - vz a * vy v) (vz a * vx v - vx a * vz v)
                    (vx a * vy v - vy a * vx v)"

definition dot :: "vec3 \<Rightarrow> vec3 \<Rightarrow> double" where
  "dot a v = vx a * vx v + vy a * vy v + vz a * vz v"

definition len :: "vec3 \<Rightarrow> double" where
  "len a = sqrt_d (vx a * vx a + vy a * vy a + vz a * vz a)"

text \<open>\<^verbatim>\<open>norm\<close>: the zero vector when the length is zero, else \<^verbatim>\<open>(*this)*(1.0/l)\<close>.\<close>

definition norm_v :: "vec3 \<Rightarrow> vec3" where
  "norm_v a = (let l = len a in if deq l 0 then Vec3 0 0 0 else vscale a (1 / l))"

definition setMinVals :: "vec3 \<Rightarrow> vec3 \<Rightarrow> vec3" where
  "setMinVals a v = Vec3 (min_T (vx a) (vx v)) (min_T (vy a) (vy v)) (min_T (vz a) (vz v))"

definition setMaxVals :: "vec3 \<Rightarrow> vec3 \<Rightarrow> vec3" where
  "setMaxVals a v = Vec3 (max_T (vx a) (vx v)) (max_T (vy a) (vy v)) (max_T (vz a) (vz v))"

text \<open>\<^verbatim>\<open>isZero\<close> tests the sum of the components, as the source does.\<close>

definition isZero :: "vec3 \<Rightarrow> bool" where
  "isZero a \<longleftrightarrow> equalsEpsilon (vx a + vy a + vz a) 0"

text \<open>The epsilon-tolerant \<^verbatim>\<open>operator <\<close> and \<^verbatim>\<open>operator >\<close> of \<^verbatim>\<open>vec3\<close>.\<close>

definition vless :: "vec3 \<Rightarrow> vec3 \<Rightarrow> bool" where
  "vless a v \<longleftrightarrow> vx a - dEPSILON < vx v \<and> vy a - dEPSILON < vy v \<and> vz a - dEPSILON < vz v"

definition vgreater :: "vec3 \<Rightarrow> vec3 \<Rightarrow> bool" where
  "vgreater a v \<longleftrightarrow> vx a + dEPSILON > vx v \<and> vy a + dEPSILON > vy v \<and> vz a + dEPSILON > vz v"

definition inAABB :: "vec3 \<Rightarrow> vec3 \<Rightarrow> vec3 \<Rightarrow> bool" where
  "inAABB a minv maxv \<longleftrightarrow> vgreater a minv \<and> vless a maxv"

definition isInUnitCube :: "vec3 \<Rightarrow> double \<Rightarrow> bool" where
  "isInUnitCube a margin \<longleftrightarrow>
     vx a \<ge> - margin \<and> vx a \<le> 1 + margin \<and> vy a \<ge> - margin \<and> vy a \<le> 1 + margin \<and>
     vz a \<ge> - margin \<and> vz a \<le> 1 + margin"

subsection \<open>Basis functions\<close>

text \<open>
  \<^verbatim>\<open>basis_Tet1NL\<close> and \<^verbatim>\<open>basis_Hex1NL\<close> write 4 and 8 coefficients into the caller's
  buffer; the model returns the buffer's new contents.
\<close>

definition basis_Tet1NL :: "double \<Rightarrow> double \<Rightarrow> double \<Rightarrow> double list" where
  "basis_Tet1NL xi0 xi1 xi2 = [1 - xi0 - xi1 - xi2, xi0, xi1, xi2]"

definition basis_Hex1NL :: "double \<Rightarrow> double \<Rightarrow> double \<Rightarrow> double list" where
  "basis_Hex1NL xi0 xi1 xi2 =
     (let xi012 = xi0 * xi1 * xi2;
          xi12 = xi1 * xi2;
          xi01 = xi0 * xi1;
          xi02 = xi0 * xi2
      in [1 - xi0 - xi1 - xi2 + xi01 + xi02 + xi12 - xi012,
          xi0 - xi01 - xi02 + xi012,
          xi1 - xi01 - xi12 + xi012,
          xi01 - xi012,
          xi2 - xi02 - xi12 + xi012,
          xi02 - xi012,
          xi12 - xi012,
          xi012])"

subsection \<open>Point location\<close>

text \<open>
  \<^verbatim>\<open>pointSearchLinTet\<close>. After the bounding-box test the source computes \<^verbatim>\<open>invdet\<close> as
  \<^verbatim>\<open>1.0/(...)\<close> without testing the determinant; for a zero determinant the quotient is
  an infinity and every component of the result is infinite or NaN.
\<close>

definition pointSearchLinTet :: "vec3 \<Rightarrow> vec3 \<Rightarrow> vec3 \<Rightarrow> vec3 \<Rightarrow> vec3 \<Rightarrow> vec3" where
  "pointSearchLinTet pt n1 n2 n3 n4 =
     (let minv = setMinVals (setMinVals (setMinVals n1 n2) n3) n4;
          maxv = setMaxVals (setMaxVals (setMaxVals n1 n2) n3) n4
      in if \<not> inAABB pt minv maxv then vec3_all (- 1)
         else
           let x1 = vx n1; y1 = vy n1; z1 = vz n1;
               dx = vx pt - x1; dy = vy pt - y1; dz = vz pt - z1;
               dx2 = vx n2 - x1; dy2 = vy n2 - y1; dz2 = vz n2 - z1;
               dx3 = vx n3 - x1; dy3 = vy n3 - y1; dz3 = vz n3 - z1;
               dx4 = vx n4 - x1; dy4 = vy n4 - y1; dz4 = vz n4 - z1;
               invdet = 1 / (dx2 * (dz4 * dy3 - dz3 * dy4) - dy2 * (dz4 * dx3 - dz3 * dx4)
                             + dz2 * (dy4 * dx3 - dy3 * dx4));
               xi1 = invdet * ((dx * (dz4 * dy3 - dz3 * dy4)) + (dy * (dz3 * dx4 - dz4 * dx3))
                               + (dz * (dy4 * dx3 - dy3 * dx4)));
               xi2 = invdet * ((dx * (dz2 * dy4 - dz4 * dy2)) + (dy * (dz4 * dx2 - dz2 * dx4))
                               + (dz * (dy2 * dx4 - dy4 * dx2)));
               xi3 = invdet * ((dx * (dz3 * dy2 - dz2 * dy3)) + (dy * (dz2 * dx3 - dz3 * dx2))
                               + (dz * (dy3 * dx2 - dy2 * dx3)))
           in Vec3 xi1 xi2 xi3)"

text \<open>The table \<^verbatim>\<open>divtets[5][4]\<close>: xi values dividing a hexahedron into 5 tetrahedra.\<close>

definition divtets :: "vec3 list list" where
  "divtets =
     [[Vec3 0 0 0, Vec3 1 0 1, Vec3 1 1 0, Vec3 0 1 1],
      [Vec3 0 0 0, Vec3 1 1 0, Vec3 0 1 0, Vec3 0 1 1],
      [Vec3 0 0 0, Vec3 1 0 1, Vec3 0 1 1, Vec3 0 0 1],
      [Vec3 1 0 1, Vec3 1 1 0, Vec3 0 1 1, Vec3 1 1 1],
      [Vec3 0 0 0, Vec3 1 0 0, Vec3 1 1 0, Vec3 1 0 1]]"

text \<open>
  The inner loop of \<^verbatim>\<open>pointSearchLinHex\<close>: one vertex of a tetrahedron, interpolated
  within the hexahedron \<open>ns = [n1, ..., n8]\<close> at the xi value \<open>tt\<close>.
\<close>

definition hexVertex :: "vec3 list \<Rightarrow> vec3 \<Rightarrow> vec3" where
  "hexVertex ns tt =
     (let coeffs = basis_Hex1NL (vx tt) (vy tt) (vz tt)
      in vadd (vadd (vadd (vadd (vadd (vadd (vadd
           (vscale (ns ! 0) (coeffs ! 0)) (vscale (ns ! 1) (coeffs ! 1)))
           (vscale (ns ! 2) (coeffs ! 2))) (vscale (ns ! 3) (coeffs ! 3)))
           (vscale (ns ! 4) (coeffs ! 4))) (vscale (ns ! 5) (coeffs ! 5)))
           (vscale (ns ! 6) (coeffs ! 6))) (vscale (ns ! 7) (coeffs ! 7)))"

text \<open>The test \<^verbatim>\<open>xi.isInUnitCube() && (xi.x()+xi.y()+xi.z())<=(1.0+dEPSILON)\<close>.\<close>

definition inSimplexEps :: "vec3 \<Rightarrow> bool" where
  "inSimplexEps xi \<longleftrightarrow> isInUnitCube xi 0 \<and> vx xi + vy xi + vz xi \<le> 1 + dEPSILON"

text \<open>The value returned from inside the loop: the row's xi triples blended by Tet1NL.\<close>

definition tetBlend :: "vec3 list \<Rightarrow> vec3 \<Rightarrow> vec3" where
  "tetBlend row xi =
     (let coeffs = basis_Tet1NL (vx xi) (vy xi) (vz xi)
      in vadd (vadd (vadd (vscale (row ! 0) (coeffs ! 0)) (vscale (row ! 1) (coeffs ! 1)))
           (vscale (row ! 2) (coeffs ! 2))) (vscale (row ! 3) (coeffs ! 3)))"

text \<open>The loop \<^verbatim>\<open>for(int t=0;t<5;t++)\<close> over the rows of the table still to be tried.\<close>

fun searchTets :: "vec3 \<Rightarrow> vec3 list \<Rightarrow> vec3 list list \<Rightarrow> vec3" where
  "searchTets pt ns [] = vec3_all (- 1)"
| "searchTets pt ns (row # rows) =
     (let tet = map (hexVertex ns) row;
          xi = pointSearchLinTet pt (tet ! 0) (tet ! 1) (tet ! 2) (tet ! 3)
      in if inSimplexEps xi then tetBlend row xi
         else searchTets pt ns rows)"

definition pointSearchLinHex ::
  "vec3 \<Rightarrow> vec3 \<Rightarrow> vec3 \<Rightarrow> vec3 \<Rightarrow> vec3 \<Rightarrow> vec3 \<Rightarrow> vec3 \<Rightarrow> vec3 \<Rightarrow> vec3 \<Rightarrow> vec3" where
  "pointSearchLinHex pt n1 n2 n3 n4 n5 n6 n7 n8 =
     (let minv = setMinVals (setMinVals (setMinVals (setMinVals (setMinVals (setMinVals
                   (setMinVals n1 n2) n3) n4) n5) n6) n7) n8;
          maxv = setMaxVals (setMaxVals (setMaxVals (setMaxVals (setMaxVals (setMaxVals
                   (setMaxVals n1 n2) n3) n4) n5) n6) n7) n8
      in if \<not> inAABB pt minv maxv then vec3_all (- 1)
         else searchTets pt [n1, n2, n3, n4, n5, n6, n7, n8] divtets)"

definition pointInTet :: "vec3 \<Rightarrow> vec3 \<Rightarrow> vec3 \<Rightarrow> vec3 \<Rightarrow> vec3 \<Rightarrow> bool" where
  "pointInTet pt n1 n2 n3 n4 =
     (let xi = pointSearchLinTet pt n1 n2 n3 n4
      in isInUnitCube xi 0 \<and> vx xi + vy xi + vz xi \<le> 1)"

definition pointInHex ::
  "vec3 \<Rightarrow> vec3 \<Rightarrow> vec3 \<Rightarrow> vec3 \<Rightarrow> vec3 \<Rightarrow> vec3 \<Rightarrow> vec3 \<Rightarrow> vec3 \<Rightarrow> vec3 \<Rightarrow> bool" where
  "pointInHex pt n1 n2 n3 n4 n5 n6 n7 n8 =
     isInUnitCube (pointSearchLinHex pt n1 n2 n3 n4 n5 n6 n7 n8) 0"

subsection \<open>Hexahedron edge intersections\<close>





subsection \<open>Rays\<close>

datatype exn = MemException string | IndexException string nat nat | InvalidArgument string

record Ray =
  pos :: vec3
  dir :: vec3
  invdir :: vec3
  signx :: bool
  signy :: bool
  signz :: bool

text \<open>\<^verbatim>\<open>vec3::inv\<close>: each component inverted, or 0 if already 0.\<close>

definition inv_v :: "vec3 \<Rightarrow> vec3" where
  "inv_v a = Vec3 (if \<not> deq (vx a) 0 then 1 / vx a else 0) (if \<not> deq (vy a) 0 then 1 / vy a else 0)
                  (if \<not> deq (vz a) 0 then 1 / vz a else 0)"

definition setDirection :: "vec3 \<Rightarrow> Ray \<Rightarrow> exn + Ray" where
  "setDirection v r =
     (if isZero v then Inl (InvalidArgument ''Direction vector is zero length.'')
      else
        let d = norm_v v; i = inv_v d
        in Inr (r\<lparr>dir := d, invdir := i, signx := vx i < 0, signy := vy i < 0, signz := vz i < 0\<rparr>))"

text \<open>The constructor \<^verbatim>\<open>Ray(pos, dir)\<close>.\<close>

definition mkRay :: "vec3 \<Rightarrow> vec3 \<Rightarrow> exn + Ray" where
  "mkRay p d =
     setDirection d \<lparr>pos = p, dir = Vec3 0 0 0, invdir = Vec3 0 0 0,
                      signx = False, signy = False, signz = False\<rparr>"

definition getPosition :: "Ray \<Rightarrow> double \<Rightarrow> vec3" where
  "getPosition r t = vadd (pos r) (vscale (dir r) t)"

type_synonym realtriple = "double \<times> double \<times> double"

definition intersectsTri :: "Ray \<Rightarrow> vec3 \<Rightarrow> vec3 \<Rightarrow> vec3 \<Rightarrow> realtriple" where
  "intersectsTri r v0 v1 v2 =
     (let e1 = vsub v1 v0;
          e2 = vsub v2 v0;
          p = cross (dir r) e2;
          det = dot e1 p
      in if equalsEpsilon det 0 then (- 1, - 1, - 1)
         else
           let invdet = 1 / det;
               t = vsub (pos r) v0;
               u = dot p t * invdet
           in if u < 0 \<or> u > 1 then (- 1, - 1, - 1)
              else
                let q = cross t e1;
                    v = dot (dir r) q * invdet
                in if v < 0 \<or> u + v > 1 then (- 1, - 1, - 1)
                   else
                     let len = dot e2 q * invdet
                     in if len > dEPSILON then (len, u, v) else (- 1, - 1, - 1))"

subsection \<open>Endian swapping of matrix elements\<close>

text \<open>
  \<^verbatim>\<open>swapEndian32\<close> and \<^verbatim>\<open>swapEndian64\<close> copy the bytes of the value in reverse order
  through a union. Byte \<open>k\<close> of a little-endian value is bits \<open>8k .. 8k+7\<close>; the
  reversal is the same permutation of the value's bytes on a big-endian host.
\<close>

definition byte_at :: "'a::len word \<Rightarrow> nat \<Rightarrow> 'a word" where
  "byte_at w k = take_bit 8 (drop_bit (8 * k) w)"

definition swapEndian32 :: "32 word \<Rightarrow> 32 word" where
  "swapEndian32 t =
     or (or (or (byte_at t 3) (push_bit 8 (byte_at t 2))) (push_bit 16 (byte_at t 1)))
        (push_bit 24 (byte_at t 0))"

definition swapEndian64 :: "64 word \<Rightarrow> 64 word" where
  "swapEndian64 t =
     or (or (or (or (or (or (or (byte_at t 7) (push_bit 8 (byte_at t 6)))
        (push_bit 16 (byte_at t 5))) (push_bit 24 (byte_at t 4))) (push_bit 32 (byte_at t 3)))
        (push_bit 40 (byte_at t 2))) (push_bit 48 (byte_at t 1))) (push_bit 56 (byte_at t 0))"

text \<open>
  The element types of the four matrix typedefs, as bit patterns: \<^verbatim>\<open>real\<close> is one
  64-bit pattern, \<^verbatim>\<open>indexval\<close> a 32-bit one, \<^verbatim>\<open>vec3\<close> three doubles and \<^verbatim>\<open>color\<close> four
  floats.
\<close>

type_synonym real_bits = "64 word"
type_synonym indexval = "32 word"

datatype vec3_bits = Vec3Bits (wx: "64 word") (wy: "64 word") (wz: "64 word")

datatype color_bits = ColorBits (cr: "32 word") (cg: "32 word") (cb: "32 word") (ca: "32 word")

instantiation vec3_bits :: zero
begin
definition zero_vec3_bits :: vec3_bits where
  "zero_vec3_bits = Vec3Bits 0 0 0"
instance ..
end

instantiation color_bits :: zero
begin
definition zero_color_bits :: color_bits where
  "zero_color_bits = ColorBits 0 0 0 0"
instance ..
end

text \<open>The specialisations \<^verbatim>\<open>SwapEndian<T>::swap\<close>.\<close>

definition SwapEndian_real :: "real_bits \<Rightarrow> real_bits" where
  "SwapEndian_real t = swapEndian64 t"

definition SwapEndian_indexval :: "indexval \<Rightarrow> indexval" where
  "SwapEndian_indexval t = swapEndian32 t"

definition SwapEndian_vec3 :: "vec3_bits \<Rightarrow> vec3_bits" where
  "SwapEndian_vec3 t = Vec3Bits (swapEndian64 (wx t)) (swapEndian64 (wy t)) (swapEndian64 (wz t))"

definition SwapEndian_color :: "color_bits \<Rightarrow> color_bits" where
  "SwapEndian_color t =
     ColorBits (swapEndian32 (cr t)) (swapEndian32 (cg t)) (swapEndian32 (cb t))
       (swapEndian32 (ca t))"

subsection \<open>The matrix\<close>

text \<open>
  The fields of \<^verbatim>\<open>Matrix<T>\<close>: \<^verbatim>\<open>_name\<close>, \<^verbatim>\<open>_type\<close>, \<^verbatim>\<open>_sharedname\<close>, \<^verbatim>\<open>data\<close>, \<^verbatim>\<open>_n_actual\<close>,
  \<^verbatim>\<open>_n\<close>, \<^verbatim>\<open>_m\<close> and \<^verbatim>\<open>_isShared\<close>. The buffer \<^verbatim>\<open>data\<close> is \<open>None\<close> for the null pointer and
  otherwise the list of the elements of the allocated (or mapped) block.
\<close>

record 'a Matrix =
  mat_name :: string
  mat_type :: string
  mat_sharedname :: string
  mat_data :: "'a list option"
  mat_n_actual :: sval
  mat_n :: sval
  mat_m :: sval
  mat_isShared :: bool

text \<open>
  \<^verbatim>\<open>memcpy(dst, src, k)\<close> on element buffers: the first \<open>k\<close> elements of \<open>dst\<close> are
  replaced by those of \<open>src\<close>. (Copying more than either buffer holds is undefined in
  C++; the model then just uses what the lists have.)
\<close>

definition memcpy :: "'a list \<Rightarrow> 'a list \<Rightarrow> nat \<Rightarrow> 'a list" where
  "memcpy dst src k = take k src @ drop k dst"

text \<open>
  \<^verbatim>\<open>memSize\<close>: \<^verbatim>\<open>sval(sizeof(T)*_n*_m)\<close>. The product is taken in \<^verbatim>\<open>size_t\<close> and cut to 32
  bits; \<open>szT\<close> is \<^verbatim>\<open>sizeof(T)\<close>.
\<close>

definition memSize :: "nat \<Rightarrow> 'a Matrix \<Rightarrow> sval" where
  "memSize szT M = of_nat (szT * unat (mat_n M) * unat (mat_m M))"

definition checkIndex :: "string \<Rightarrow> sval \<Rightarrow> sval \<Rightarrow> exn option" where
  "checkIndex name val maxval =
     (if val \<ge> maxval then Some (IndexException name (unat val) (unat maxval)) else None)"

definition checkNotShared :: "'a Matrix \<Rightarrow> exn option" where
  "checkNotShared M =
     (if mat_isShared M
      then Some (MemException ''Operation may only be performed on non-shared matrices'')
      else None)"

text \<open>
  \<^verbatim>\<open>resize(reserveNum)\<close>. \<^verbatim>\<open>new T[new_n_actual*_m]\<close> followed by the \<^verbatim>\<open>memset\<close> is a fresh
  list of zero elements; the element count is the 32-bit product.
\<close>

definition resize :: "sval \<Rightarrow> 'a::zero Matrix \<Rightarrow> 'a Matrix" where
  "resize reserveNum M =
     (if mat_n M + reserveNum \<le> mat_n_actual M \<and> \<not> mat_isShared M then M
      else
        let new_n_actual =
              (if mat_data M = None then mat_n M
               else max_T 1000 ((mat_n M * 3) div 2 + reserveNum))
        in if new_n_actual < mat_n_actual M \<and> \<not> mat_isShared M then M
           else
             let fresh = replicate (unat (new_n_actual * mat_m M)) 0;
                 newdata =
                   (case mat_data M of
                      None \<Rightarrow> fresh
                    | Some olddata \<Rightarrow> memcpy fresh olddata (unat (mat_n_actual M * mat_m M)))
             in M\<lparr>mat_data := Some newdata, mat_n_actual := new_n_actual\<rparr>)"

text \<open>
  An operation that can throw returns the exception (or \<open>None\<close>) and the matrix as it
  is when the operation ends or the exception leaves it.
\<close>

definition setN :: "sval \<Rightarrow> 'a::zero Matrix \<Rightarrow> exn option \<times> 'a Matrix" where
  "setN newn M =
     (case checkNotShared M of
        Some e \<Rightarrow> (Some e, M)
      | None \<Rightarrow> (None, resize 0 (M\<lparr>mat_n := newn\<rparr>)))"

definition addRows :: "sval \<Rightarrow> 'a::zero Matrix \<Rightarrow> exn option \<times> 'a Matrix" where
  "addRows num M = setN (mat_n M + num) M"

definition reserveRows :: "sval \<Rightarrow> 'a::zero Matrix \<Rightarrow> exn option \<times> 'a Matrix" where
  "reserveRows num M =
     (case checkNotShared M of
        Some e \<Rightarrow> (Some e, M)
      | None \<Rightarrow> (None, resize num M))"

text \<open>\<^verbatim>\<open>setM(_newm)\<close>: the same elements in rows of \<^verbatim>\<open>_newm\<close> columns.\<close>

definition setM :: "sval \<Rightarrow> 'a Matrix \<Rightarrow> exn option \<times> 'a Matrix" where
  "setM newm0 M =
     (case checkNotShared M of
        Some e \<Rightarrow> (Some e, M)
      | None \<Rightarrow>
          let newm = max_T 1 newm0
          in if newm > mat_m M * mat_n M
             then (Some (MemException ''New m value larger than matrix size''), M)
             else (None, M\<lparr>mat_n := (mat_n M * mat_m M) div newm, mat_m := newm\<rparr>))"

text \<open>
  \<^verbatim>\<open>removeRow(n)\<close>: the rows below row \<open>n\<close> are moved up by \<^verbatim>\<open>memmove\<close>, then
  \<^verbatim>\<open>setN(_n-1)\<close>.
\<close>

definition removeRow :: "sval \<Rightarrow> 'a::zero Matrix \<Rightarrow> exn option \<times> 'a Matrix" where
  "removeRow n M =
     (case checkNotShared M of
        Some e \<Rightarrow> (Some e, M)
      | None \<Rightarrow>
          (case checkIndex ''n'' n (mat_n M) of
             Some e \<Rightarrow> (Some e, M)
           | None \<Rightarrow>
               let M1 =
                 (if n < mat_n M - 1 then
                    M\<lparr>mat_data := map_option
                        (\<lambda>d. let dst = unat (n * mat_m M);
                                 src = unat ((n + 1) * mat_m M);
                                 cnt = unat ((mat_n M - n - 1) * mat_m M)
                             in take dst d @ memcpy (drop dst d) (drop src d) cnt)
                        (mat_data M)\<rparr>
                  else M)
               in setN (mat_n M1 - 1) M1))"

text \<open>
  \<^verbatim>\<open>at(n,m)\<close> is \<^verbatim>\<open>data[m+(_m*n)]\<close> with no bounds check; the index is computed in
  \<^verbatim>\<open>sval\<close>.
\<close>

definition at_index :: "'a Matrix \<Rightarrow> sval \<Rightarrow> sval \<Rightarrow> nat" where
  "at_index M n m = unat (m + mat_m M * n)"

definition at_mat :: "'a Matrix \<Rightarrow> sval \<Rightarrow> sval \<Rightarrow> 'a" where
  "at_mat M n m = the (mat_data M) ! at_index M n m"

definition set_data :: "'a Matrix \<Rightarrow> nat \<Rightarrow> 'a \<Rightarrow> 'a Matrix" where
  "set_data M i t = M\<lparr>mat_data := map_option (\<lambda>d. d[i := t]) (mat_data M)\<rparr>"

text \<open>\<^verbatim>\<open>append(const T& t, sval m)\<close>: a new row with \<open>t\<close> in column \<open>m\<close>.\<close>

definition append_value :: "'a \<Rightarrow> sval \<Rightarrow> 'a::zero Matrix \<Rightarrow> exn option \<times> 'a Matrix" where
  "append_value t m M =
     (case addRows 1 M of
        (Some e, M') \<Rightarrow> (Some e, M')
      | (None, M') \<Rightarrow> (None, set_data M' (at_index M' (mat_n M' - 1) m) t))"

text \<open>
  \<^verbatim>\<open>append(const Matrix<T>& t)\<close>: the rows of \<open>t\<close> are copied below the old rows with
  \<^verbatim>\<open>memcpy(data+(_m*oldn), t.data, t.memSize())\<close>.
\<close>

definition append_matrix :: "nat \<Rightarrow> 'a Matrix \<Rightarrow> 'a::zero Matrix \<Rightarrow> exn option \<times> 'a Matrix" where
  "append_matrix szT t M =
     (if mat_m t \<noteq> mat_m M
      then (Some (MemException ''Column dimensions of `this' and `t' do not match''), M)
      else
        let oldn = mat_n M
        in case addRows (mat_n t) M of
             (Some e, M') \<Rightarrow> (Some e, M')
           | (None, M') \<Rightarrow>
               let off = unat (mat_m M' * oldn);
                   cnt = unat (memSize szT t) div szT
               in (None, M'\<lparr>mat_data :=
                     map_option (\<lambda>d. take off d @ memcpy (drop off d) (the (mat_data t)) cnt)
                       (mat_data M')\<rparr>))"

text \<open>\<^verbatim>\<open>Matrix::swapEndian\<close>, with \<open>swap\<close> the specialisation \<^verbatim>\<open>SwapEndian<T>::swap\<close>.\<close>

definition swapEndian :: "('a \<Rightarrow> 'a) \<Rightarrow> 'a Matrix \<Rightarrow> 'a Matrix" where
  "swapEndian swap M =
     (let len = unat (mat_n M * mat_m M)
      in M\<lparr>mat_data := map_option (\<lambda>d. map swap (take len d) @ drop len d) (mat_data M)\<rparr>)"

text \<open>
  \<^verbatim>\<open>reorderColumns(orderinds)\<close>. The first loop checks \<^verbatim>\<open>orderinds[j]\<close> for \<open>j < _m\<close>; the
  second, for each row, copies the row to \<^verbatim>\<open>buff\<close> and writes \<^verbatim>\<open>buff[orderinds[j]]\<close> to
  column \<open>j\<close>.
\<close>

fun checkOrder :: "sval list \<Rightarrow> sval \<Rightarrow> nat list \<Rightarrow> exn option" where
  "checkOrder orderinds m [] = None"
| "checkOrder orderinds m (j # js) =
     (case checkIndex ''sortinds'' (orderinds ! j) m of
        Some e \<Rightarrow> Some e
      | None \<Rightarrow> checkOrder orderinds m js)"

definition reorderRow :: "sval list \<Rightarrow> sval \<Rightarrow> 'a list \<Rightarrow> nat \<Rightarrow> 'a list" where
  "reorderRow orderinds m d i =
     (let buff = map (\<lambda>j. d ! unat (of_nat j + m * of_nat i)) [0..<unat m]
      in fold (\<lambda>j d'. d'[unat (of_nat j + m * of_nat i) := buff ! unat (orderinds ! j)])
           [0..<unat m] d)"

definition reorderColumns :: "sval list \<Rightarrow> 'a Matrix \<Rightarrow> exn option \<times> 'a Matrix" where
  "reorderColumns orderinds M =
     (case checkOrder orderinds (mat_m M) [0..<unat (mat_m M)] of
        Some e \<Rightarrow> (Some e, M)
      | None \<Rightarrow>
          (None, M\<lparr>mat_data :=
             map_option (\<lambda>d. fold (\<lambda>i d'. reorderRow orderinds (mat_m M) d' i) [0..<unat (mat_n M)] d)
               (mat_data M)\<rparr>))"

subsection \<open>Shared memory segments\<close>

text \<open>
  The part of the operating system that \<^verbatim>\<open>createShared\<close> and \<^verbatim>\<open>closeShared\<close> talk to
  (the POSIX branch of the source): the process ids, the names of the shared memory
  objects that exist, and which system calls fail. \<open>os_strerror\<close> is the text of
  \<^verbatim>\<open>strerror(errno)\<close> that \<^verbatim>\<open>MemException(m, errno)\<close> appends.
\<close>

record os =
  os_pid :: nat
  os_ppid :: nat
  shm_objects :: "string list"
  shm_open_fails :: "string \<Rightarrow> bool"
  ftruncate_fails :: "sval \<Rightarrow> bool"
  mmap_fails :: "sval \<Rightarrow> bool"
  munmap_fails :: bool
  os_strerror :: string

datatype shm_fd = Fd | EEXIST | EOTHER

text \<open>
  \<^verbatim>\<open>shm_open(name, O_CREAT | O_RDWR | (excl ? O_EXCL : 0))\<close>: with \<^verbatim>\<open>O_EXCL\<close> an
  existing name is the error \<^verbatim>\<open>EEXIST\<close>; otherwise the object is opened, or created.
\<close>

definition shm_open :: "os \<Rightarrow> string \<Rightarrow> bool \<Rightarrow> shm_fd \<times> os" where
  "shm_open s name excl =
     (if shm_open_fails s name then (EOTHER, s)
      else if name \<in> set (shm_objects s) then (if excl then (EEXIST, s) else (Fd, s))
      else (Fd, s\<lparr>shm_objects := name # shm_objects s\<rparr>))"

definition shm_unlink :: "os \<Rightarrow> string \<Rightarrow> os" where
  "shm_unlink s name = s\<lparr>shm_objects := removeAll name (shm_objects s)\<rparr>"

text \<open>\<^verbatim>\<open>c_str()\<close> of a string that may hold a NUL byte ends at that byte.\<close>

definition c_str :: "string \<Rightarrow> string" where
  "c_str s = takeWhile (\<lambda>c. c \<noteq> CHR 0x00) s"

text \<open>Printing a number to the stream, in decimal and (\<^verbatim>\<open>std::hex\<close>) in hexadecimal.\<close>

definition digit_char :: "nat \<Rightarrow> char" where
  "digit_char d = ''0123456789abcdef'' ! d"

function show_nat :: "nat \<Rightarrow> nat \<Rightarrow> string" where
  "show_nat base n =
     (if base < 2 \<or> n < base then [digit_char n]
      else show_nat base (n div base) @ [digit_char (n mod base)])"
  by pat_completeness auto
termination
  by (relation "measure (\<lambda>(base, n). n)") auto

declare show_nat.simps [simp del]

text \<open>\<^verbatim>\<open>MAXSHMNAMLEN\<close> is \<^verbatim>\<open>NAME_MAX\<close> on Linux.\<close>

definition MAXSHMNAMLEN :: nat where
  "MAXSHMNAMLEN = 255"

definition chooseSharedName :: "os \<Rightarrow> nat \<Rightarrow> 'a Matrix \<Rightarrow> 'a Matrix" where
  "chooseSharedName s counter M =
     (let out = ''__viz__'' @ show_nat 10 (os_ppid s) @ ''_'' @ show_nat 10 (os_pid s)
                @ (if counter > 0 then ''_'' @ show_nat 16 counter else [])
                @ ''_'' @ mat_name M;
          name1 = map (\<lambda>c. if c = CHR ''/'' then CHR ''_'' else c) out;
          name2 = (if length name1 \<ge> MAXSHMNAMLEN then name1[MAXSHMNAMLEN - 1 := CHR 0x00]
                   else name1)
      in M\<lparr>mat_sharedname := name2\<rparr>)"

text \<open>
  The retry loop of \<^verbatim>\<open>createShared\<close>:
  \<^verbatim>\<open>for(int c=1;c<100000 && isCreator && shm_fd==-1 && errno==EEXIST;c++)\<close>.
\<close>

function openLoop :: "nat \<Rightarrow> bool \<Rightarrow> shm_fd \<Rightarrow> os \<Rightarrow> 'a Matrix \<Rightarrow> shm_fd \<times> os \<times> 'a Matrix" where
  "openLoop c isCreator fd s M =
     (if c < 100000 \<and> isCreator \<and> fd = EEXIST then
        (let M' = chooseSharedName s c M;
             r = shm_open s (c_str (mat_sharedname M')) True
         in openLoop (c + 1) isCreator (fst r) (snd r) M')
      else (fd, s, M))"
  by pat_completeness auto
termination
  by (relation "measure (\<lambda>(c, isCreator, fd, s, M). 100000 - c)") auto

declare openLoop.simps [simp del]

definition errno_msg :: "os \<Rightarrow> string \<Rightarrow> string" where
  "errno_msg s m = m @ '': errno: '' @ os_strerror s"

text \<open>
  \<^verbatim>\<open>createShared\<close> returns the mapped pointer or throws. The model returns the
  exception, if any; the contents of the mapping are written by the caller. \<^verbatim>\<open>mmap\<close>
  fails for a length of 0 (POSIX: \<^verbatim>\<open>EINVAL\<close>) and otherwise when the system says so.
\<close>

definition createShared :: "nat \<Rightarrow> os \<Rightarrow> 'a Matrix \<Rightarrow> exn option \<times> os \<times> 'a Matrix" where
  "createShared szT s M =
     (let size = memSize szT M;
          isCreator = (mat_sharedname M = []);
          M1 = (if isCreator then chooseSharedName s 0 M else M);
          r = shm_open s (c_str (mat_sharedname M1)) isCreator;
          l = openLoop 1 isCreator (fst r) (snd r) M1;
          shm_fd = fst l; s2 = fst (snd l); M2 = snd (snd l)
      in if shm_fd \<noteq> Fd then
           (Some (MemException (errno_msg s2
              (''Unable to open shared memory descriptor, filename:'' @ mat_sharedname M2))),
            s2, M2)
         else if isCreator \<and> ftruncate_fails s2 size then
           (Some (MemException (errno_msg s2
              (''Unable to extend shared memory section, filename:'' @ mat_sharedname M2))),
            s2, M2)
         else if size = 0 \<or> mmap_fails s2 size then
           (Some (MemException (errno_msg s2 ''Unable to mmap shared memory'')),
            (if isCreator then shm_unlink s2 (c_str (mat_sharedname M2)) else s2), M2)
         else (None, s2, M2))"

text \<open>\<^verbatim>\<open>closeShared(ptr)\<close>; \<open>ptr\<close> is the buffer passed, \<open>None\<close> for a null pointer.\<close>

definition closeShared :: "os \<Rightarrow> 'a Matrix \<Rightarrow> 'a list option \<Rightarrow> exn option \<times> os \<times> 'a Matrix" where
  "closeShared s M ptr =
     (if ptr = None then (None, s, M)
      else if munmap_fails s then (Some (MemException ''Failed to unmap memory section''), s, M)
      else (None, s, M\<lparr>mat_sharedname := []\<rparr>))"

text \<open>
  \<^verbatim>\<open>setShared(val)\<close>. The new segment holds \<^verbatim>\<open>size\<close> bytes, that is \<open>size div szT\<close>
  elements; it is filled by the \<^verbatim>\<open>memcpy\<close> from the old buffer, or zeroed.
\<close>

definition setShared :: "nat \<Rightarrow> bool \<Rightarrow> os \<Rightarrow> 'a::zero Matrix \<Rightarrow> exn option \<times> os \<times> 'a Matrix" where
  "setShared szT val s M =
     (if mat_data M \<noteq> None \<and> val = mat_isShared M then (None, s, M)
      else if val then
        (let size = memSize szT M
         in if size = 0 then (Some (MemException ''Cannot make empty matrix shared''), s, M)
            else
              (case createShared szT s (M\<lparr>mat_n_actual := mat_n M\<rparr>) of
                 (Some e, s', M') \<Rightarrow> (Some e, s', M')
               | (None, s', M') \<Rightarrow>
                   let k = unat size div szT;
                       shared = (case mat_data M' of
                                   Some d \<Rightarrow> memcpy (replicate k 0) d k
                                 | None \<Rightarrow> replicate k 0)
                   in (None, s', M'\<lparr>mat_data := Some shared, mat_isShared := True\<rparr>)))
      else
        (let olddata = mat_data M
         in case closeShared s (resize 0 M) olddata of
              (Some e, s', M') \<Rightarrow> (Some e, s', M')
            | (None, s', M') \<Rightarrow> (None, s', M'\<lparr>mat_isShared := False\<rparr>)))"

text \<open>The constructor \<^verbatim>\<open>Matrix(name, type, n, m, isShared)\<close>.\<close>

definition newMatrix ::
  "nat \<Rightarrow> os \<Rightarrow> string \<Rightarrow> string \<Rightarrow> sval \<Rightarrow> sval \<Rightarrow> bool \<Rightarrow> exn option \<times> os \<times> 'a::zero Matrix" where
  "newMatrix szT s name type n m isShared =
     setShared szT isShared s
       \<lparr>mat_name = name, mat_type = type, mat_sharedname = [], mat_data = None,
        mat_n_actual = 0, mat_n = n, mat_m = m, mat_isShared = False\<rparr>"

text \<open>
  The constructor for unpickling, \<^verbatim>\<open>Matrix(name, type, sharedname, serialmeta, n, m)\<close>: it
  maps the existing segment \<open>sharedname\<close>, whose contents \<open>contents\<close> become the data.
\<close>

definition unpickleMatrix ::
  "nat \<Rightarrow> os \<Rightarrow> string \<Rightarrow> string \<Rightarrow> string \<Rightarrow> 'a list \<Rightarrow> sval \<Rightarrow> sval \<Rightarrow> exn option \<times> os \<times> 'a Matrix" where
  "unpickleMatrix szT s name type sharedname contents n m =
     (case createShared szT s
             \<lparr>mat_name = name, mat_type = type, mat_sharedname = sharedname, mat_data = None,
              mat_n_actual = n, mat_n = n, mat_m = m, mat_isShared = True\<rparr> of
        (Some e, s', M') \<Rightarrow> (Some e, s', M')
      | (None, s', M') \<Rightarrow> (None, s', M'\<lparr>mat_data := Some contents\<rparr>))"

text \<open>\<^verbatim>\<open>clear()\<close>.\<close>

definition clear :: "os \<Rightarrow> 'a Matrix \<Rightarrow> exn option \<times> os \<times> 'a Matrix" where
  "clear s M =
     (let finish = (\<lambda>s' M'. (None, s',
            M'\<lparr>mat_n_actual := 0, mat_n := 0, mat_isShared := False, mat_data := None\<rparr>))
      in if mat_data M \<noteq> None \<and> mat_isShared M then
           (case closeShared s M (mat_data M) of
              (Some e, s', M') \<Rightarrow> (Some e, s', M')
            | (None, s', M') \<Rightarrow> finish (shm_unlink s' (c_str (mat_sharedname M'))) M')
         else finish s M)"

subsection \<open>Specification of the basis sums\<close>

text \<open>
  A valid xi coordinate is a finite value between 0 and 1. The sum of the coefficients
  written is the sum of their values as real numbers.
\<close>

definition inUnitInterval :: "double \<Rightarrow> bool" where
  "inUnitInterval x \<longleftrightarrow> isfinite x \<and> 0 \<le> dval x \<and> dval x \<le> 1"

definition coeffSum :: "double list \<Rightarrow> real" where
  "coeffSum cs = sum_list (map dval cs)"

text \<open>
  \<open>near d x k\<close>: the \<^verbatim>\<open>double\<close> \<open>d\<close> is finite and within \<open>k / 2 ^ 50\<close> of the real number \<open>x\<close>.
  Rounding a result of size at most 8 moves it by at most \<open>1 / 2 ^ 50\<close>.
\<close>

definition near :: "double \<Rightarrow> real \<Rightarrow> nat \<Rightarrow> bool" where
  "near d x k \<longleftrightarrow> isfinite d \<and> \<bar>dval d - x\<bar> \<le> real k / 2 ^ 50"

subsection \<open>Specification of the hexahedron search\<close>

text \<open>
  The search as the specification words it: the bounding box of the eight corners, the
  tetrahedra of the table with the corners of the hexahedron as their vertices (the
  corner with xi triple \<open>(i, j, k)\<close>, each 0 or 1, is node \<open>i + 2j + 4k\<close>), the xi of the
  point in one of them, the acceptance test, the blend of a row's four xi triples, and
  the result of trying the rows in order.

  A corner coordinate is plain when it is a finite \<^verbatim>\<open>double\<close> other than the negative zero.
\<close>

definition plainDouble :: "double \<Rightarrow> bool" where
  "plainDouble d = (case d of Fin r \<Rightarrow> round_double r = r \<and> \<bar>r\<bar> < 2 ^ 1024 | _ \<Rightarrow> False)"

definition plainVec :: "vec3 \<Rightarrow> bool" where
  "plainVec a \<longleftrightarrow> plainDouble (vx a) \<and> plainDouble (vy a) \<and> plainDouble (vz a)"

definition hexCorners_min :: "vec3 list \<Rightarrow> vec3" where
  "hexCorners_min ns =
     Vec3 (Fin (Min ((\<lambda>n. dval (vx n)) ` set ns))) (Fin (Min ((\<lambda>n. dval (vy n)) ` set ns)))
          (Fin (Min ((\<lambda>n. dval (vz n)) ` set ns)))"

definition hexCorners_max :: "vec3 list \<Rightarrow> vec3" where
  "hexCorners_max ns =
     Vec3 (Fin (Max ((\<lambda>n. dval (vx n)) ` set ns))) (Fin (Max ((\<lambda>n. dval (vy n)) ` set ns)))
          (Fin (Max ((\<lambda>n. dval (vz n)) ` set ns)))"

definition cornerIndex :: "vec3 \<Rightarrow> nat" where
  "cornerIndex tt = nat \<lfloor>dval (vx tt) + 2 * dval (vy tt) + 4 * dval (vz tt)\<rfloor>"

definition tetXi :: "vec3 \<Rightarrow> vec3 list \<Rightarrow> vec3 list \<Rightarrow> vec3" where
  "tetXi pt ns row =
     pointSearchLinTet pt (ns ! cornerIndex (row ! 0)) (ns ! cornerIndex (row ! 1))
       (ns ! cornerIndex (row ! 2)) (ns ! cornerIndex (row ! 3))"

definition xiAccepted :: "vec3 \<Rightarrow> bool" where
  "xiAccepted xi \<longleftrightarrow>
     0 \<le> vx xi \<and> vx xi \<le> 1 \<and> 0 \<le> vy xi \<and> vy xi \<le> 1 \<and> 0 \<le> vz xi \<and> vz xi \<le> 1
     \<and> vx xi + vy xi + vz xi \<le> 1 + dEPSILON"

definition blend4 :: "vec3 list \<Rightarrow> double list \<Rightarrow> vec3" where
  "blend4 row c =
     vadd (vadd (vadd (vscale (row ! 0) (c ! 0)) (vscale (row ! 1) (c ! 1)))
       (vscale (row ! 2) (c ! 2))) (vscale (row ! 3) (c ! 3))"

definition pointSearchLinHex_spec :: "vec3 \<Rightarrow> vec3 list \<Rightarrow> vec3" where
  "pointSearchLinHex_spec pt ns =
     (if \<not> inAABB pt (hexCorners_min ns) (hexCorners_max ns) then Vec3 (- 1) (- 1) (- 1)
      else case find (\<lambda>row. xiAccepted (tetXi pt ns row)) divtets of
             None \<Rightarrow> Vec3 (- 1) (- 1) (- 1)
           | Some row \<Rightarrow>
               let xi = tetXi pt ns row
               in blend4 row (basis_Tet1NL (vx xi) (vy xi) (vz xi)))"

text \<open>
  A hexahedral cell with integer corner coordinates (a sheared unit cube with one corner
  moved outward) and a point next to its corner \<open>(0, 1, 0)\<close>.
\<close>

definition example_cell :: "vec3 list" where
  "example_cell =
     [Vec3 (Fin 1) (Fin 1) (Fin (- 2)), Vec3 (Fin 1) (Fin 0) (Fin (- 1)),
      Vec3 (Fin 2) (Fin 1) (Fin (- 2)), Vec3 (Fin 1) (Fin 0) (Fin 0),
      Vec3 (Fin 0) (Fin 1) (Fin (- 1)), Vec3 (Fin 0) (Fin 0) (Fin 0),
      Vec3 (Fin 0) (Fin 1) (Fin 0), Vec3 (Fin 0) (Fin 0) (Fin 1)]"

definition example_point :: vec3 where
  "example_point = Vec3 (Fin (7 / 2 ^ 55)) (Fin 1) (Fin (1 / 2 ^ 40))"

subsection \<open>Specification of the edge intersections\<close>




subsection \<open>Specification of the ray and triangle intersection\<close>

text \<open>
  The ray passes through the triangle at distance \<open>t\<close> when its point at \<open>t\<close> is the point
  \<^verbatim>\<open>p=(1-u-v)*v0+u*v1+v*v2\<close> of the triangle for some \<open>u\<close>, \<open>v\<close> with \<open>u, v \<ge> 0\<close> and
  \<open>u + v \<le> 1\<close>. This is a statement about the positions the \<^verbatim>\<open>double\<close> values denote, so it
  is written in real numbers.
\<close>

definition rayPoint :: "Ray \<Rightarrow> real \<Rightarrow> real \<times> real \<times> real" where
  "rayPoint r t =
     (dval (vx (pos r)) + t * dval (vx (dir r)), dval (vy (pos r)) + t * dval (vy (dir r)),
      dval (vz (pos r)) + t * dval (vz (dir r)))"

definition triPoint :: "vec3 \<Rightarrow> vec3 \<Rightarrow> vec3 \<Rightarrow> real \<Rightarrow> real \<Rightarrow> real \<times> real \<times> real" where
  "triPoint v0 v1 v2 u v =
     ((1 - u - v) * dval (vx v0) + u * dval (vx v1) + v * dval (vx v2),
      (1 - u - v) * dval (vy v0) + u * dval (vy v1) + v * dval (vy v2),
      (1 - u - v) * dval (vz v0) + u * dval (vz v1) + v * dval (vz v2))"

definition passesThrough :: "Ray \<Rightarrow> vec3 \<Rightarrow> vec3 \<Rightarrow> vec3 \<Rightarrow> real \<Rightarrow> real \<Rightarrow> real \<Rightarrow> bool" where
  "passesThrough r v0 v1 v2 t u v \<longleftrightarrow>
     0 < t \<and> 0 \<le> u \<and> 0 \<le> v \<and> u + v \<le> 1 \<and> rayPoint r t = triPoint v0 v1 v2 u v"

text \<open>
  The ray from \<open>(2 ^ - 22, 2 ^ - 22, 1)\<close> toward \<open>(0, 0, - 1)\<close>, as the constructor stores it,
  and the triangle \<open>(0,0,0), (2 ^ - 20, 0, 0), (0, 2 ^ - 20, 0)\<close>.
\<close>

definition example_ray :: Ray where
  "example_ray =
     \<lparr>pos = Vec3 (Fin (1 / 2 ^ 22)) (Fin (1 / 2 ^ 22)) (Fin 1), dir = Vec3 (Fin 0) (Fin 0) (Fin (- 1)),
      invdir = Vec3 (Fin 0) (Fin 0) (Fin (- 1)), signx = False, signy = False, signz = True\<rparr>"

subsection \<open>Reachable matrices\<close>

text \<open>
  The matrices that the public operations can produce: built by a constructor and then
  changed by any sequence of operations. An operation that throws leaves the object in
  the state it had at the throw, and later operations continue from there.
\<close>

inductive reachable :: "nat \<Rightarrow> 'a::zero Matrix \<Rightarrow> bool" for szT :: nat where
  r_new: "newMatrix szT s name type n m sh = (None, s', M) \<Longrightarrow> reachable szT M"
| r_unpickle: "unpickleMatrix szT s name type sharedname contents n m = (None, s', M)
     \<Longrightarrow> reachable szT M"
| r_setShared: "reachable szT M \<Longrightarrow> setShared szT val s M = (e, s', M') \<Longrightarrow> reachable szT M'"
| r_clear: "reachable szT M \<Longrightarrow> clear s M = (e, s', M') \<Longrightarrow> reachable szT M'"
| r_setN: "reachable szT M \<Longrightarrow> setN newn M = (e, M') \<Longrightarrow> reachable szT M'"
| r_setM: "reachable szT M \<Longrightarrow> setM newm M = (e, M') \<Longrightarrow> reachable szT M'"
| r_addRows: "reachable szT M \<Longrightarrow> addRows num M = (e, M') \<Longrightarrow> reachable szT M'"
| r_reserveRows: "reachable szT M \<Longrightarrow> reserveRows num M = (e, M') \<Longrightarrow> reachable szT M'"
| r_removeRow: "reachable szT M \<Longrightarrow> removeRow k M = (e, M') \<Longrightarrow> reachable szT M'"
| r_append_value: "reachable szT M \<Longrightarrow> append_value t c M = (e, M') \<Longrightarrow> reachable szT M'"
| r_append_matrix: "reachable szT M \<Longrightarrow> append_matrix szT T M = (e, M') \<Longrightarrow> reachable szT M'"
| r_swapEndian: "reachable szT M \<Longrightarrow> reachable szT (swapEndian swap M)"
| r_reorderColumns: "reachable szT M \<Longrightarrow> reorderColumns orderinds M = (e, M') \<Longrightarrow> reachable szT M'"
| r_set_data: "reachable szT M \<Longrightarrow> reachable szT (set_data M i t)"

definition shared_inv :: "'a Matrix \<Rightarrow> bool" where
  "shared_inv M \<longleftrightarrow> (mat_isShared M \<longrightarrow> mat_data M \<noteq> None \<and> mat_n M \<noteq> 0 \<and> mat_m M \<noteq> 0)"

text \<open>
  A concrete system state and two concrete matrices of doubles (given as bit patterns),
  used to run the operations.
\<close>

definition example_os :: os where
  "example_os = \<lparr>os_pid = 42, os_ppid = 7, shm_objects = [], shm_open_fails = (\<lambda>name. False),
     ftruncate_fails = (\<lambda>size. False), mmap_fails = (\<lambda>size. False), munmap_fails = False,
     os_strerror = []\<rparr>"

definition example_local :: "real_bits Matrix" where
  "example_local = \<lparr>mat_name = ''m/x'', mat_type = [], mat_sharedname = [], mat_data = Some [5, 6],
      mat_n_actual = 2, mat_n = 2, mat_m = 1, mat_isShared = False\<rparr>"

definition example_empty :: "real_bits Matrix" where
  "example_empty = \<lparr>mat_name = ''e'', mat_type = [], mat_sharedname = [], mat_data = None,
      mat_n_actual = 0, mat_n = 0, mat_m = 1, mat_isShared = False\<rparr>"

subsection \<open>Specification of the growth policy\<close>

text \<open>
  The capacity the specification states for a matrix that must grow:
  \<open>max(1000, ceil(rows * 1.5) + requested)\<close>.
\<close>

definition claimed_capacity :: "nat \<Rightarrow> nat \<Rightarrow> nat" where
  "claimed_capacity rows requested = max 1000 (nat \<lceil>real rows * 1.5\<rceil> + requested)"

text \<open>A local matrix of 1000 rows of one column whose buffer is exactly full.\<close>

definition example_full :: "real_bits Matrix" where
  "example_full = \<lparr>mat_name = ''f'', mat_type = [], mat_sharedname = [],
      mat_data = Some (replicate 1000 0), mat_n_actual = 1000, mat_n = 1000, mat_m = 1,
      mat_isShared = False\<rparr>"

subsection \<open>Example for column reordering\<close>

text \<open>A matrix of indices with one row \<open>[10, 20]\<close>.\<close>

definition example_row :: "indexval Matrix" where
  "example_row = \<lparr>mat_name = ''r'', mat_type = [], mat_sharedname = [],
      mat_data = Some [10, 20], mat_n_actual = 1, mat_n = 1, mat_m = 2, mat_isShared = False\<rparr>"

section \<open>Properties\<close>

subsection \<open>Rounding to the nearest double\<close>

lemma pow2_powr: "pow2 k = 2 powr (real_of_int k)"
proof (cases "0 \<le> k")
  case True
  then have "real_of_int k = real (nat k)" by simp
  then have "2 powr (real_of_int k) = (2::real) ^ nat k"
    by (simp only: powr_realpow zero_less_numeral)
  with True show ?thesis by (simp add: pow2_def)
next
  case False
  then have "real_of_int k = - real (nat (- k))" by simp
  then have "2 powr (real_of_int k) = 1 / (2::real) ^ nat (- k)"
    by (simp only: powr_minus_divide powr_realpow zero_less_numeral)
  with False show ?thesis by (simp add: pow2_def)
qed

lemma pow2_pos: "0 < pow2 k"
  by (simp add: pow2_def)

lemma pow2_add: "pow2 (a + b) = pow2 a * pow2 b"
  by (simp add: pow2_powr powr_add)

lemma pow2_step: "pow2 (k + 1) = 2 * pow2 k"
  using pow2_add [of k 1] by (simp add: pow2_def)

lemma pow2_mono: "a \<le> b \<Longrightarrow> pow2 a \<le> pow2 b"
  by (simp add: pow2_powr)

lemma pow2_exponent_ex:
  assumes "0 < x"
  shows "\<exists>k. pow2 k \<le> x \<and> x < pow2 (k + 1)"
proof -
  let ?k = "\<lfloor>log 2 x\<rfloor>"
  have "2 powr (real_of_int ?k) \<le> 2 powr (log 2 x)"
    by (rule powr_mono) simp_all
  then have a: "pow2 ?k \<le> x" using assms by (simp add: pow2_powr)
  have "2 powr (log 2 x) < 2 powr (real_of_int (?k + 1))"
  proof (rule powr_less_mono)
    show "log 2 x < real_of_int (?k + 1)" by simp
  qed simp
  then have b: "x < pow2 (?k + 1)" using assms by (simp add: pow2_powr)
  from a b show ?thesis by blast
qed

lemma binary_exponent_correct:
  "pow2 k \<le> x \<Longrightarrow> x < pow2 (k + 1) \<Longrightarrow> nat \<bar>k\<bar> \<le> fuel \<Longrightarrow> binary_exponent fuel x e = e + k"
proof (induction fuel arbitrary: x e k)
  case 0
  then show ?case by simp
next
  case (Suc fuel)
  consider "0 < k" | "k < 0" | "k = 0" by linarith
  then show ?case
  proof cases
    case 1
    have "pow2 k = 2 * pow2 (k - 1)" using pow2_step [of "k - 1"] by simp
    moreover have "1 \<le> pow2 (k - 1)" using 1 by (simp add: pow2_def)
    ultimately have x2: "2 \<le> x" using Suc.prems(1) by linarith
    have "binary_exponent fuel (x / 2) (e + 1) = (e + 1) + (k - 1)"
    proof (rule Suc.IH)
      show "pow2 (k - 1) \<le> x / 2"
        using Suc.prems(1) pow2_step [of "k - 1"] by simp
      show "x / 2 < pow2 (k - 1 + 1)"
        using Suc.prems(2) pow2_step [of k] by simp
      show "nat \<bar>k - 1\<bar> \<le> fuel" using 1 Suc.prems(3) by simp
    qed
    with x2 show ?thesis by simp
  next
    case 2
    have "pow2 (k + 1) \<le> 1" using 2 by (simp add: pow2_def)
    with Suc.prems(2) have x1: "x < 1" by linarith
    then have n2: "\<not> 2 \<le> x" by simp
    have "binary_exponent fuel (x * 2) (e - 1) = (e - 1) + (k + 1)"
    proof (rule Suc.IH)
      show "pow2 (k + 1) \<le> x * 2"
        using Suc.prems(1) pow2_step [of k] by simp
      show "x * 2 < pow2 (k + 1 + 1)"
        using Suc.prems(2) pow2_step [of "k + 1"] by simp
      show "nat \<bar>k + 1\<bar> \<le> fuel" using 2 Suc.prems(3) by simp
    qed
    with x1 n2 show ?thesis by simp
  next
    case 3
    with Suc.prems show ?thesis by (simp add: pow2_def)
  qed
qed

lemma round_double_normal:
  assumes "pow2 k \<le> \<bar>x\<bar>" "\<bar>x\<bar> < pow2 (k + 1)" "- 1022 \<le> k" "k \<le> 2200"
  shows "round_double x = of_int (round_half_even (x / pow2 (k - 52))) * pow2 (k - 52)"
proof -
  have "pow2 (- 1022) \<le> pow2 k" using assms(3) by (rule pow2_mono)
  with assms(1) have n: "\<not> \<bar>x\<bar> < pow2 (- 1022)" by linarith
  have x0: "x \<noteq> 0" using assms(1) pow2_pos [of k] by auto
  have "nat \<bar>k\<bar> \<le> 2200" using assms(3,4) by simp
  from binary_exponent_correct [OF assms(1,2) this, of 0] n x0 show ?thesis
    by (simp add: round_double_def Let_def)
qed

lemma round_double_subnormal:
  assumes "\<bar>x\<bar> < pow2 (- 1022)"
  shows "round_double x = of_int (round_half_even (x / pow2 (- 1074))) * pow2 (- 1074)"
  using assms by (simp add: round_double_def Let_def round_half_even_def)

lemma round_half_even_error: "\<bar>of_int (round_half_even y) - y\<bar> \<le> 1 / 2"
proof -
  have "of_int \<lfloor>y\<rfloor> \<le> y" "y < of_int \<lfloor>y\<rfloor> + 1" by linarith+
  then show ?thesis
    by (auto simp: round_half_even_def Let_def)
qed

lemma round_half_even_eqI:
  assumes "\<bar>y - of_int m\<bar> < 1 / 2 \<or> (\<bar>y - of_int m\<bar> = 1 / 2 \<and> even m)"
  shows "round_half_even y = m"
proof (cases "of_int m \<le> y")
  case True
  with assms have "y < of_int m + 1" by auto
  with True have f: "\<lfloor>y\<rfloor> = m" by linarith
  with assms True show ?thesis
    by (auto simp: round_half_even_def Let_def)
next
  case False
  with assms have "of_int m - 1 \<le> y" by auto
  with False have f: "\<lfloor>y\<rfloor> = m - 1" by linarith
  with assms False show ?thesis
    by (auto simp: round_half_even_def Let_def)
qed


lemma pow2_less_cancel: "pow2 a < pow2 b \<Longrightarrow> a < b"
  using pow2_mono [of b a] by (cases "a < b") auto

lemma round_double_quantum:
  fixes x u :: real
  assumes "\<bar>of_int n - x / u\<bar> \<le> 1 / 2" "0 < u"
  shows "\<bar>of_int n * u - x\<bar> \<le> u / 2"
proof -
  from assms(2) have "u \<noteq> 0" by simp
  then have "of_int n * u - x = (of_int n - x / u) * u"
    by (simp add: left_diff_distrib)
  then have "\<bar>of_int n * u - x\<bar> = \<bar>of_int n - x / u\<bar> * u"
    using assms(2) by (simp add: abs_mult)
  also have "\<dots> \<le> (1 / 2) * u"
    using assms by (intro mult_right_mono) simp_all
  finally show ?thesis by simp
qed

lemma round_double_error_small:
  assumes "\<bar>x\<bar> \<le> 8"
  shows "\<bar>round_double x - x\<bar> \<le> 1 / 2 ^ 50"
proof (cases "x = 0")
  case True
  then show ?thesis by (simp add: round_double_def)
next
  case x0: False
  show ?thesis
  proof (cases "\<bar>x\<bar> < pow2 (- 1022)")
    case True
    let ?u = "pow2 (- 1074)"
    have "\<bar>round_double x - x\<bar> \<le> ?u / 2"
      unfolding round_double_subnormal [OF True]
      by (rule round_double_quantum [OF round_half_even_error pow2_pos])
    also have "?u / 2 \<le> 1 / 2 ^ 50"
      by (simp add: pow2_def)
    finally show ?thesis .
  next
    case False
    from x0 have "0 < \<bar>x\<bar>" by simp
    from pow2_exponent_ex [OF this] obtain k where k: "pow2 k \<le> \<bar>x\<bar>" "\<bar>x\<bar> < pow2 (k + 1)"
      by blast
    have "pow2 (- 1022) < pow2 (k + 1)" using False k(2) by linarith
    then have k1: "- 1022 \<le> k" using pow2_less_cancel [of "- 1022" "k + 1"] by simp
    have "pow2 k < pow2 4" using k(1) assms by (simp add: pow2_def)
    then have k2: "k \<le> 3" using pow2_less_cancel [of k 4] by simp
    let ?u = "pow2 (k - 52)"
    have k3: "k \<le> 2200" using k2 by simp
    have rd: "round_double x = of_int (round_half_even (x / ?u)) * ?u"
      using k k1 k3 by (rule round_double_normal)
    have "\<bar>round_double x - x\<bar> \<le> ?u / 2"
      unfolding rd
      by (rule round_double_quantum [OF round_half_even_error pow2_pos])
    also have "?u \<le> pow2 (- 49)" using k2 by (intro pow2_mono) simp
    then have "?u / 2 \<le> 1 / 2 ^ 50" by (simp add: pow2_def)
    finally show ?thesis .
  qed
qed

lemma fl_error:
  assumes "\<bar>x\<bar> \<le> 8"
  shows "isfinite (fl s x) \<and> \<bar>dval (fl s x) - x\<bar> \<le> 1 / 2 ^ 50"
proof -
  have e: "\<bar>round_double x - x\<bar> \<le> 1 / 2 ^ 50"
    using assms by (rule round_double_error_small)
  have "(1::real) / 2 ^ 50 \<le> 1" by simp
  with e assms have "\<bar>round_double x\<bar> \<le> 9" by linarith
  also have "(9::real) < 2 ^ 1024" by simp
  finally have b: "\<not> 2 ^ 1024 \<le> \<bar>round_double x\<bar>" by simp
  show ?thesis
    using e b by (auto simp: fl_def Let_def signed_zero_def)
qed

lemma round_double_eqI:
  assumes r: "(pow2 (q + 52) \<le> \<bar>x\<bar> \<and> \<bar>x\<bar> < pow2 (q + 53) \<and> - 1074 \<le> q \<and> q \<le> 2000)
              \<or> (q = - 1074 \<and> \<bar>x\<bar> < pow2 (- 1022))"
    and n: "\<bar>x / pow2 q - of_int m\<bar> < 1 / 2 \<or> (\<bar>x / pow2 q - of_int m\<bar> = 1 / 2 \<and> even m)"
    and x0: "x \<noteq> 0"
  shows "round_double x = of_int m * pow2 q"
proof -
  have m: "round_half_even (x / pow2 q) = m"
    using n by (rule round_half_even_eqI)
  from r show ?thesis
  proof
    assume a: "pow2 (q + 52) \<le> \<bar>x\<bar> \<and> \<bar>x\<bar> < pow2 (q + 53) \<and> - 1074 \<le> q \<and> q \<le> 2000"
    have a1: "pow2 (q + 52) \<le> \<bar>x\<bar>" and a2: "\<bar>x\<bar> < pow2 (q + 52 + 1)"
      and a3: "- 1022 \<le> q + 52" and a4: "q + 52 \<le> 2200"
      using a by (simp_all add: add.commute)
    have "round_double x
        = of_int (round_half_even (x / pow2 (q + 52 - 52))) * pow2 (q + 52 - 52)"
      using a1 a2 a3 a4 by (rule round_double_normal)
    with m show ?thesis by simp
  next
    assume a: "q = - 1074 \<and> \<bar>x\<bar> < pow2 (- 1022)"
    then have "round_double x = of_int (round_half_even (x / pow2 (- 1074))) * pow2 (- 1074)"
      by (intro round_double_subnormal) simp
    with m a show ?thesis by simp
  qed
qed

lemma fl_eqI:
  assumes c: "c = of_int m * pow2 q"
    and m0: "m \<noteq> 0"
    and b: "\<bar>c\<bar> < 2 ^ 1024"
    and r: "(pow2 (q + 52) \<le> \<bar>x\<bar> \<and> \<bar>x\<bar> < pow2 (q + 53) \<and> - 1074 \<le> q \<and> q \<le> 2000)
              \<or> (q = - 1074 \<and> \<bar>x\<bar> < pow2 (- 1022))"
    and n: "\<bar>x / pow2 q - of_int m\<bar> < 1 / 2 \<or> (\<bar>x / pow2 q - of_int m\<bar> = 1 / 2 \<and> even m)"
  shows "fl s x = Fin c"
proof -
  have x0: "x \<noteq> 0"
  proof
    assume "x = 0"
    with n have "\<bar>real_of_int m\<bar> \<le> 1 / 2" by auto
    then have "m = 0" by linarith
    with m0 show False by simp
  qed
  have e: "round_double x = c"
    unfolding c using r n x0 by (rule round_double_eqI)
  have "c \<noteq> 0" using c m0 pow2_pos [of q] by simp
  with e b x0 show ?thesis by (simp add: fl_def Let_def)
qed


lemma fl_zero: "fl s 0 = signed_zero s"
  by (simp add: fl_def)

lemma double_arith:
  "Fin a + Fin b = fl False (a + b)"
  "Fin a + NegZero = fl False a"
  "NegZero + Fin b = fl False b"
  "NegZero + NegZero = NegZero"
  "Fin a - Fin b = fl False (a - b)"
  "Fin a - NegZero = fl False a"
  "NegZero - Fin b = fl True (- b)"
  "NegZero - NegZero = Fin 0"
  "Fin a * Fin b = fl ((a < 0) \<noteq> (b < 0)) (a * b)"
  "Fin a * NegZero = signed_zero (\<not> a < 0)"
  "NegZero * Fin b = signed_zero (\<not> b < 0)"
  "NegZero * NegZero = Fin 0"
  "Fin a / Fin b = (if b = 0 then (if a = 0 then NaN else signed_inf (a < 0))
                    else fl ((a < 0) \<noteq> (b < 0)) (a / b))"
  "NegZero / Fin b = (if b = 0 then NaN else signed_zero (\<not> b < 0))"
  "Fin a / NegZero = (if a = 0 then NaN else signed_inf (\<not> a < 0))"
  "- Fin a = (if a = 0 then NegZero else Fin (- a))"
  "- NegZero = Fin 0"
  by (auto simp: plus_double_def minus_double_def uminus_double_def times_double_def
      divide_double_def iszero_def fl_def signed_zero_def signed_inf_def Let_def)

lemma fl_one: "fl s 1 = Fin 1"
  by (rule fl_eqI [where m = 4503599627370496 and q = "- 52"]; simp add: pow2_def)

text \<open>The value of \<^verbatim>\<open>dEPSILON\<close>: the nearest \<^verbatim>\<open>double\<close> to \<open>1e-10\<close> is \<open>7737125245533627 / 2 ^ 86\<close>.\<close>

lemma dEPSILON_val: "dEPSILON = Fin (7737125245533627 / 77371252455336267181195264)"
  unfolding dEPSILON_def D_def
  by (rule fl_eqI [where m = 7737125245533627 and q = "- 86"]; simp add: pow2_def)

subsection \<open>Basis functions sum to one\<close>

lemma isfinite_cases: "isfinite d \<Longrightarrow> d = Fin (dval d) \<or> d = NegZero"
  by (cases d) simp_all

lemma plus_finite:
  assumes "isfinite a" "isfinite b"
  shows "a + b = fl (signbit a \<and> signbit b) (dval a + dval b)"
  using assms by (cases a; cases b) (simp_all add: plus_double_def)

lemma minus_finite:
  assumes "isfinite a" "isfinite b"
  shows "\<exists>s. a - b = fl s (dval a - dval b)"
  using assms by (cases a; cases b) (auto simp: minus_double_def plus_double_def uminus_double_def)

lemma times_finite:
  assumes "isfinite a" "isfinite b"
  shows "a * b = fl (signbit a \<noteq> signbit b) (dval a * dval b)"
  using assms by (cases a; cases b) (simp_all add: times_double_def)

lemma near_input: "isfinite d \<Longrightarrow> near d (dval d) 0"
  by (simp add: near_def)

lemma near_one: "near 1 1 0"
  by (simp add: near_def one_double_def)

lemma near_small: "near d x k \<Longrightarrow> k \<le> 1000 \<Longrightarrow> \<bar>dval d - x\<bar> \<le> 1 / 2 ^ 40"
proof -
  assume n: "near d x k" and k: "k \<le> 1000"
  have "real k / 2 ^ 50 \<le> 1024 / 2 ^ 50"
    using k by (intro divide_right_mono) simp_all
  also have "\<dots> = (1::real) / 2 ^ 40" by simp
  finally show ?thesis using n by (simp add: near_def)
qed

lemma near_addI:
  assumes a: "near a A j" and b: "near b B k" and m: "\<bar>A + B\<bar> \<le> 7"
    and j: "j \<le> 1000" and k: "k \<le> 1000" and n: "j + k + 1 = n"
  shows "near (a + b) (A + B) n"
proof -
  from a b have fa: "isfinite a" and fb: "isfinite b"
    and ea: "\<bar>dval a - A\<bar> \<le> real j / 2 ^ 50" and eb: "\<bar>dval b - B\<bar> \<le> real k / 2 ^ 50"
    by (simp_all add: near_def)
  have sa: "\<bar>dval a - A\<bar> \<le> 1 / 2 ^ 40" and sb: "\<bar>dval b - B\<bar> \<le> 1 / 2 ^ 40"
    using near_small [OF a j] near_small [OF b k] by simp_all
  have "(1::real) / 2 ^ 40 \<le> 1 / 2" by simp
  with sa sb m have "\<bar>dval a + dval b\<bar> \<le> 8" by linarith
  from fl_error [OF this, of "signbit a \<and> signbit b"]
  have f: "isfinite (a + b)" and e: "\<bar>dval (a + b) - (dval a + dval b)\<bar> \<le> 1 / 2 ^ 50"
    by (simp_all add: plus_finite [OF fa fb])
  have "\<bar>dval (a + b) - (A + B)\<bar> \<le> 1 / 2 ^ 50 + real j / 2 ^ 50 + real k / 2 ^ 50"
    using e ea eb by linarith
  also have "\<dots> = real n / 2 ^ 50"
    using n by (simp add: add_divide_distrib)
  finally show ?thesis using f by (simp add: near_def)
qed

lemma near_subI:
  assumes a: "near a A j" and b: "near b B k" and m: "\<bar>A - B\<bar> \<le> 7"
    and j: "j \<le> 1000" and k: "k \<le> 1000" and n: "j + k + 1 = n"
  shows "near (a - b) (A - B) n"
proof -
  from a b have fa: "isfinite a" and fb: "isfinite b"
    and ea: "\<bar>dval a - A\<bar> \<le> real j / 2 ^ 50" and eb: "\<bar>dval b - B\<bar> \<le> real k / 2 ^ 50"
    by (simp_all add: near_def)
  have sa: "\<bar>dval a - A\<bar> \<le> 1 / 2 ^ 40" and sb: "\<bar>dval b - B\<bar> \<le> 1 / 2 ^ 40"
    using near_small [OF a j] near_small [OF b k] by simp_all
  have "(1::real) / 2 ^ 40 \<le> 1 / 2" by simp
  with sa sb m have 8: "\<bar>dval a - dval b\<bar> \<le> 8" by linarith
  from minus_finite [OF fa fb] obtain s where s: "a - b = fl s (dval a - dval b)" by blast
  from fl_error [OF 8, of s]
  have f: "isfinite (a - b)" and e: "\<bar>dval (a - b) - (dval a - dval b)\<bar> \<le> 1 / 2 ^ 50"
    by (simp_all add: s)
  have "\<bar>dval (a - b) - (A - B)\<bar> \<le> 1 / 2 ^ 50 + real j / 2 ^ 50 + real k / 2 ^ 50"
    using e ea eb by linarith
  also have "\<dots> = real n / 2 ^ 50"
    using n by (simp add: add_divide_distrib)
  finally show ?thesis using f by (simp add: near_def)
qed

lemma near_mulI:
  assumes a: "near a A j" and b: "near b B k" and mA: "\<bar>A\<bar> \<le> 1" and mB: "\<bar>B\<bar> \<le> 1"
    and j: "j \<le> 1000" and k: "k \<le> 1000" and n: "j + k + 2 = n"
  shows "near (a * b) (A * B) n"
proof -
  from a b have fa: "isfinite a" and fb: "isfinite b"
    and ea: "\<bar>dval a - A\<bar> \<le> real j / 2 ^ 50" and eb: "\<bar>dval b - B\<bar> \<le> real k / 2 ^ 50"
    by (simp_all add: near_def)
  have sa: "\<bar>dval a - A\<bar> \<le> 1 / 2 ^ 40" and sb: "\<bar>dval b - B\<bar> \<le> 1 / 2 ^ 40"
    using near_small [OF a j] near_small [OF b k] by simp_all
  have h: "(1::real) / 2 ^ 40 \<le> 1" by simp
  have ba: "\<bar>dval a\<bar> \<le> 2" using sa mA h by linarith
  have bb: "\<bar>dval b\<bar> \<le> 2" using sb mB h by linarith
  have "\<bar>dval a * dval b\<bar> = \<bar>dval a\<bar> * \<bar>dval b\<bar>" by (rule abs_mult)
  also have "\<dots> \<le> 2 * 2" using ba bb by (intro mult_mono) simp_all
  finally have 8: "\<bar>dval a * dval b\<bar> \<le> 8" by simp
  from fl_error [OF 8, of "signbit a \<noteq> signbit b"]
  have f: "isfinite (a * b)" and e: "\<bar>dval (a * b) - dval a * dval b\<bar> \<le> 1 / 2 ^ 50"
    by (simp_all add: times_finite [OF fa fb])
  have split: "dval a * dval b - A * B = (dval a - A) * B + A * (dval b - B) + (dval a - A) * (dval b - B)"
    by (simp add: algebra_simps)
  have t1: "\<bar>(dval a - A) * B\<bar> \<le> real j / 2 ^ 50"
  proof -
    have "\<bar>(dval a - A) * B\<bar> = \<bar>dval a - A\<bar> * \<bar>B\<bar>" by (rule abs_mult)
    also have "\<dots> \<le> (real j / 2 ^ 50) * 1" using ea mB by (intro mult_mono) simp_all
    finally show ?thesis by simp
  qed
  have t2: "\<bar>A * (dval b - B)\<bar> \<le> real k / 2 ^ 50"
  proof -
    have "\<bar>A * (dval b - B)\<bar> = \<bar>A\<bar> * \<bar>dval b - B\<bar>" by (rule abs_mult)
    also have "\<dots> \<le> 1 * (real k / 2 ^ 50)" using eb mA by (intro mult_mono) simp_all
    finally show ?thesis by simp
  qed
  have t3: "\<bar>(dval a - A) * (dval b - B)\<bar> \<le> 1 / 2 ^ 50"
  proof -
    have "\<bar>(dval a - A) * (dval b - B)\<bar> = \<bar>dval a - A\<bar> * \<bar>dval b - B\<bar>" by (rule abs_mult)
    also have "\<dots> \<le> (1 / 2 ^ 40) * (1 / 2 ^ 40)" using sa sb by (intro mult_mono) simp_all
    also have "\<dots> \<le> (1::real) / 2 ^ 50" by simp
    finally show ?thesis .
  qed
  have "\<bar>dval a * dval b - A * B\<bar> \<le> real j / 2 ^ 50 + real k / 2 ^ 50 + 1 / 2 ^ 50"
    unfolding split using t1 t2 t3 by linarith
  with e have "\<bar>dval (a * b) - A * B\<bar> \<le> real j / 2 ^ 50 + real k / 2 ^ 50 + 1 / 2 ^ 50 + 1 / 2 ^ 50"
    by linarith
  also have "\<dots> = real n / 2 ^ 50"
    using n by (simp add: add_divide_distrib)
  finally show ?thesis using f by (simp add: near_def)
qed


lemma unit_product: "0 \<le> a \<Longrightarrow> a \<le> 1 \<Longrightarrow> 0 \<le> b \<Longrightarrow> b \<le> 1 \<Longrightarrow> 0 \<le> a * b \<and> a * b \<le> (1::real)"
  by (simp add: mult_le_one)

text \<open>
  Claim C2 (as amended). For xi coordinates in the unit cube, the 4 coefficients written
  by \<open>basis_Tet1NL\<close> and the 8 written by \<open>basis_Hex1NL\<close> are finite and their sums are within
  \<open>1e-9\<close> of 1 (the proof bounds the two sums by \<open>3 / 2 ^ 50\<close> and \<open>75 / 2 ^ 50\<close>).
\<close>

theorem basis_sums_in_unit_cube:
  assumes "inUnitInterval xi0" "inUnitInterval xi1" "inUnitInterval xi2"
  shows "list_all isfinite (basis_Tet1NL xi0 xi1 xi2)
     \<and> \<bar>coeffSum (basis_Tet1NL xi0 xi1 xi2) - 1\<bar> \<le> 1 / 10 ^ 9
     \<and> list_all isfinite (basis_Hex1NL xi0 xi1 xi2)
     \<and> \<bar>coeffSum (basis_Hex1NL xi0 xi1 xi2) - 1\<bar> \<le> 1 / 10 ^ 9"
proof -
  define x y z where "x = dval xi0" and "y = dval xi1" and "z = dval xi2"
  have fin: "isfinite xi0" "isfinite xi1" "isfinite xi2"
    and ux: "0 \<le> x" "x \<le> 1" and uy: "0 \<le> y" "y \<le> 1" and uz: "0 \<le> z" "z \<le> 1"
    using assms by (simp_all add: inUnitInterval_def x_def y_def z_def)
  have nx: "near xi0 x 0" and ny: "near xi1 y 0" and nz: "near xi2 z 0"
    using fin by (simp_all add: near_input x_def y_def z_def)
  have pxy: "0 \<le> x * y" "x * y \<le> 1" using unit_product [OF ux uy] by simp_all
  have pxz: "0 \<le> x * z" "x * z \<le> 1" using unit_product [OF ux uz] by simp_all
  have pyz: "0 \<le> y * z" "y * z \<le> 1" using unit_product [OF uy uz] by simp_all
  have pxyz: "0 \<le> x * y * z" "x * y * z \<le> 1" using unit_product [OF pxy uz] by simp_all
  note bnd = ux uy uz pxy pxz pyz pxyz
  have n01: "near (xi0 * xi1) (x * y) 2"
    using nx ny by (rule near_mulI) (use bnd in \<open>simp_all\<close>)
  have n02: "near (xi0 * xi2) (x * z) 2"
    using nx nz by (rule near_mulI) (use bnd in \<open>simp_all\<close>)
  have n12: "near (xi1 * xi2) (y * z) 2"
    using ny nz by (rule near_mulI) (use bnd in \<open>simp_all\<close>)
  have n012: "near (xi0 * xi1 * xi2) (x * y * z) 4"
    using n01 nz by (rule near_mulI) (use bnd in \<open>simp_all\<close>)
  have a1: "near (1 - xi0) (1 - x) 1"
    using near_one nx by (rule near_subI) ((use bnd in linarith), simp_all)
  have a2: "near (1 - xi0 - xi1) (1 - x - y) 2"
    using a1 ny by (rule near_subI) ((use bnd in linarith), simp_all)
  have a3: "near (1 - xi0 - xi1 - xi2) (1 - x - y - z) 3"
    using a2 nz by (rule near_subI) ((use bnd in linarith), simp_all)
  have a4: "near (1 - xi0 - xi1 - xi2 + xi0 * xi1) (1 - x - y - z + x * y) 6"
    using a3 n01 by (rule near_addI) ((use bnd in linarith), simp_all)
  have a5: "near (1 - xi0 - xi1 - xi2 + xi0 * xi1 + xi0 * xi2) (1 - x - y - z + x * y + x * z) 9"
    using a4 n02 by (rule near_addI) ((use bnd in linarith), simp_all)
  have a6: "near (1 - xi0 - xi1 - xi2 + xi0 * xi1 + xi0 * xi2 + xi1 * xi2)
      (1 - x - y - z + x * y + x * z + y * z) 12"
    using a5 n12 by (rule near_addI) ((use bnd in linarith), simp_all)
  have c0: "near (1 - xi0 - xi1 - xi2 + xi0 * xi1 + xi0 * xi2 + xi1 * xi2 - xi0 * xi1 * xi2)
      (1 - x - y - z + x * y + x * z + y * z - x * y * z) 17"
    using a6 n012 by (rule near_subI) ((use bnd in linarith), simp_all)
  have b1: "near (xi0 - xi0 * xi1) (x - x * y) 3"
    using nx n01 by (rule near_subI) ((use bnd in linarith), simp_all)
  have b2: "near (xi0 - xi0 * xi1 - xi0 * xi2) (x - x * y - x * z) 6"
    using b1 n02 by (rule near_subI) ((use bnd in linarith), simp_all)
  have c1: "near (xi0 - xi0 * xi1 - xi0 * xi2 + xi0 * xi1 * xi2) (x - x * y - x * z + x * y * z) 11"
    using b2 n012 by (rule near_addI) ((use bnd in linarith), simp_all)
  have d1: "near (xi1 - xi0 * xi1) (y - x * y) 3"
    using ny n01 by (rule near_subI) ((use bnd in linarith), simp_all)
  have d2: "near (xi1 - xi0 * xi1 - xi1 * xi2) (y - x * y - y * z) 6"
    using d1 n12 by (rule near_subI) ((use bnd in linarith), simp_all)
  have c2: "near (xi1 - xi0 * xi1 - xi1 * xi2 + xi0 * xi1 * xi2) (y - x * y - y * z + x * y * z) 11"
    using d2 n012 by (rule near_addI) ((use bnd in linarith), simp_all)
  have c3: "near (xi0 * xi1 - xi0 * xi1 * xi2) (x * y - x * y * z) 7"
    using n01 n012 by (rule near_subI) ((use bnd in linarith), simp_all)
  have e1: "near (xi2 - xi0 * xi2) (z - x * z) 3"
    using nz n02 by (rule near_subI) ((use bnd in linarith), simp_all)
  have e2: "near (xi2 - xi0 * xi2 - xi1 * xi2) (z - x * z - y * z) 6"
    using e1 n12 by (rule near_subI) ((use bnd in linarith), simp_all)
  have c4: "near (xi2 - xi0 * xi2 - xi1 * xi2 + xi0 * xi1 * xi2) (z - x * z - y * z + x * y * z) 11"
    using e2 n012 by (rule near_addI) ((use bnd in linarith), simp_all)
  have c5: "near (xi0 * xi2 - xi0 * xi1 * xi2) (x * z - x * y * z) 7"
    using n02 n012 by (rule near_subI) ((use bnd in linarith), simp_all)
  have c6: "near (xi1 * xi2 - xi0 * xi1 * xi2) (y * z - x * y * z) 7"
    using n12 n012 by (rule near_subI) ((use bnd in linarith), simp_all)
  have tet_fin: "list_all isfinite (basis_Tet1NL xi0 xi1 xi2)"
    using a3 fin by (simp add: basis_Tet1NL_def near_def)
  have tet_sum: "\<bar>coeffSum (basis_Tet1NL xi0 xi1 xi2) - 1\<bar> \<le> 1 / 10 ^ 9"
  proof -
    have eq: "coeffSum (basis_Tet1NL xi0 xi1 xi2) - 1 = dval (1 - xi0 - xi1 - xi2) - (1 - x - y - z)"
      by (simp add: coeffSum_def basis_Tet1NL_def x_def y_def z_def)
    have g: "\<bar>dval (1 - xi0 - xi1 - xi2) - (1 - x - y - z)\<bar> \<le> 3 / 2 ^ 50"
      using a3 by (simp add: near_def)
    have k: "(3::real) / 2 ^ 50 \<le> 1 / 10 ^ 9" by simp
    from g k show ?thesis unfolding eq by (rule order_trans)
  qed
  have hex_fin: "list_all isfinite (basis_Hex1NL xi0 xi1 xi2)"
    using c0 c1 c2 c3 c4 c5 c6 n012 by (simp add: basis_Hex1NL_def near_def Let_def)
  have hex_sum: "\<bar>coeffSum (basis_Hex1NL xi0 xi1 xi2) - 1\<bar> \<le> 1 / 10 ^ 9"
  proof -
    have eq: "coeffSum (basis_Hex1NL xi0 xi1 xi2)
        = dval (1 - xi0 - xi1 - xi2 + xi0 * xi1 + xi0 * xi2 + xi1 * xi2 - xi0 * xi1 * xi2)
          + dval (xi0 - xi0 * xi1 - xi0 * xi2 + xi0 * xi1 * xi2)
          + dval (xi1 - xi0 * xi1 - xi1 * xi2 + xi0 * xi1 * xi2)
          + dval (xi0 * xi1 - xi0 * xi1 * xi2)
          + dval (xi2 - xi0 * xi2 - xi1 * xi2 + xi0 * xi1 * xi2)
          + dval (xi0 * xi2 - xi0 * xi1 * xi2)
          + dval (xi1 * xi2 - xi0 * xi1 * xi2)
          + dval (xi0 * xi1 * xi2)"
      by (simp add: coeffSum_def basis_Hex1NL_def Let_def)
    have g0: "\<bar>dval (1 - xi0 - xi1 - xi2 + xi0 * xi1 + xi0 * xi2 + xi1 * xi2 - xi0 * xi1 * xi2) - (1 - x - y - z + x * y + x * z + y * z - x * y * z)\<bar> \<le> 17 / 2 ^ 50"
      using c0 by (simp add: near_def)
    have g1: "\<bar>dval (xi0 - xi0 * xi1 - xi0 * xi2 + xi0 * xi1 * xi2) - (x - x * y - x * z + x * y * z)\<bar> \<le> 11 / 2 ^ 50"
      using c1 by (simp add: near_def)
    have g2: "\<bar>dval (xi1 - xi0 * xi1 - xi1 * xi2 + xi0 * xi1 * xi2) - (y - x * y - y * z + x * y * z)\<bar> \<le> 11 / 2 ^ 50"
      using c2 by (simp add: near_def)
    have g3: "\<bar>dval (xi0 * xi1 - xi0 * xi1 * xi2) - (x * y - x * y * z)\<bar> \<le> 7 / 2 ^ 50"
      using c3 by (simp add: near_def)
    have g4: "\<bar>dval (xi2 - xi0 * xi2 - xi1 * xi2 + xi0 * xi1 * xi2) - (z - x * z - y * z + x * y * z)\<bar> \<le> 11 / 2 ^ 50"
      using c4 by (simp add: near_def)
    have g5: "\<bar>dval (xi0 * xi2 - xi0 * xi1 * xi2) - (x * z - x * y * z)\<bar> \<le> 7 / 2 ^ 50"
      using c5 by (simp add: near_def)
    have g6: "\<bar>dval (xi1 * xi2 - xi0 * xi1 * xi2) - (y * z - x * y * z)\<bar> \<le> 7 / 2 ^ 50"
      using c6 by (simp add: near_def)
    have g7: "\<bar>dval (xi0 * xi1 * xi2) - (x * y * z)\<bar> \<le> 4 / 2 ^ 50"
      using n012 by (simp add: near_def)
    have k: "(75::real) / 2 ^ 50 \<le> 1 / 10 ^ 9" by simp
    have "\<bar>coeffSum (basis_Hex1NL xi0 xi1 xi2) - 1\<bar> \<le> 75 / 2 ^ 50"
      unfolding eq abs_le_iff
      using g0 [unfolded abs_le_iff] g1 [unfolded abs_le_iff] g2 [unfolded abs_le_iff]
        g3 [unfolded abs_le_iff] g4 [unfolded abs_le_iff] g5 [unfolded abs_le_iff]
        g6 [unfolded abs_le_iff] g7 [unfolded abs_le_iff]
      by linarith
    from this k show ?thesis by (rule order_trans)
  qed
  from tet_fin tet_sum hex_fin hex_sum show ?thesis by simp
qed

theorem basis_sums_in_unit_cube_witness:
  "inUnitInterval (Fin (1 / 2)) \<and> inUnitInterval (Fin (1 / 3)) \<and> inUnitInterval 1
   \<and> list_all isfinite (basis_Tet1NL (Fin (1 / 2)) (Fin (1 / 3)) 1)
   \<and> \<bar>coeffSum (basis_Tet1NL (Fin (1 / 2)) (Fin (1 / 3)) 1) - 1\<bar> \<le> 1 / 10 ^ 9
   \<and> list_all isfinite (basis_Hex1NL (Fin (1 / 2)) (Fin (1 / 3)) 1)
   \<and> \<bar>coeffSum (basis_Hex1NL (Fin (1 / 2)) (Fin (1 / 3)) 1) - 1\<bar> \<le> 1 / 10 ^ 9"
  using basis_sums_in_unit_cube [of "Fin (1 / 2)" "Fin (1 / 3)" 1]
  by (simp add: inUnitInterval_def one_double_def)

lemma basis_examples_arith:
  "Fin 1 - Fin 1180591620717411303424 = Fin (- 1180591620717411303424)"
  "Fin (- 1180591620717411303424) - Fin 0 = Fin (- 1180591620717411303424)"
  "Fin 1180591620717411303424 * Fin 0 = Fin 0"
  "Fin 0 * Fin 0 = Fin 0"
  "Fin (- 1180591620717411303424) + Fin 0 = Fin (- 1180591620717411303424)"
  "Fin 1180591620717411303424 - Fin 0 = Fin 1180591620717411303424"
  "Fin 1180591620717411303424 + Fin 0 = Fin 1180591620717411303424"
  "Fin 0 - Fin 0 = Fin 0"
  "Fin 0 + Fin 0 = Fin 0"
  "Fin 1 - Fin 1 = Fin 0"
  "Fin 0 - Fin 1 = Fin (- 1)"
  "Fin (- 1) - Fin (9007199254740991 / 9007199254740992) = Fin (- 2)"
proof -
  show "Fin 1 - Fin 1180591620717411303424 = Fin (- 1180591620717411303424)"
    by (simp add: double_arith) (rule fl_eqI [where m = "- 9007199254740992" and q = "17"]; simp add: pow2_def)
  show "Fin (- 1180591620717411303424) - Fin 0 = Fin (- 1180591620717411303424)"
    by (simp add: double_arith) (rule fl_eqI [where m = "- 4503599627370496" and q = "18"]; simp add: pow2_def)
  show "Fin 1180591620717411303424 * Fin 0 = Fin 0"
    by (simp add: double_arith fl_def signed_zero_def signed_inf_def)
  show "Fin 0 * Fin 0 = Fin 0"
    by (simp add: double_arith fl_def signed_zero_def signed_inf_def)
  show "Fin (- 1180591620717411303424) + Fin 0 = Fin (- 1180591620717411303424)"
    by (simp add: double_arith) (rule fl_eqI [where m = "- 4503599627370496" and q = "18"]; simp add: pow2_def)
  show "Fin 1180591620717411303424 - Fin 0 = Fin 1180591620717411303424"
    by (simp add: double_arith) (rule fl_eqI [where m = "4503599627370496" and q = "18"]; simp add: pow2_def)
  show "Fin 1180591620717411303424 + Fin 0 = Fin 1180591620717411303424"
    by (simp add: double_arith) (rule fl_eqI [where m = "4503599627370496" and q = "18"]; simp add: pow2_def)
  show "Fin 0 - Fin 0 = Fin 0"
    by (simp add: double_arith fl_def signed_zero_def signed_inf_def)
  show "Fin 0 + Fin 0 = Fin 0"
    by (simp add: double_arith fl_def signed_zero_def signed_inf_def)
  show "Fin 1 - Fin 1 = Fin 0"
    by (simp add: double_arith fl_def signed_zero_def signed_inf_def)
  show "Fin 0 - Fin 1 = Fin (- 1)"
    by (simp add: double_arith) (rule fl_eqI [where m = "- 4503599627370496" and q = "- 52"]; simp add: pow2_def)
  show "Fin (- 1) - Fin (9007199254740991 / 9007199254740992) = Fin (- 2)"
    by (simp add: double_arith) (rule fl_eqI [where m = "- 9007199254740992" and q = "- 52"]; simp add: pow2_def)
qed

text \<open>
  The claim as first stated fails on the values the functions write. For
  \<open>xi = (2 ^ 70, 0, 0)\<close> the first coefficient \<^verbatim>\<open>1.0-xi0\<close> is rounded to \<open>- 2 ^ 70\<close>, so the 4
  coefficients of \<open>basis_Tet1NL\<close> and the 8 of \<open>basis_Hex1NL\<close> both sum to 0, not to 1.
  Inside the unit cube the sum of the coefficients of \<open>basis_Tet1NL\<close> need not be exactly 1
  either: at \<open>xi = (1, 1, 1 - 2 ^ - 53)\<close> it is \<open>1 - 2 ^ - 53\<close>.
\<close>

theorem basis_sum_counterexample:
  "basis_Tet1NL (Fin (2 ^ 70)) 0 0 = [Fin (- (2 ^ 70)), Fin (2 ^ 70), Fin 0, Fin 0]
   \<and> coeffSum (basis_Tet1NL (Fin (2 ^ 70)) 0 0) = 0
   \<and> basis_Hex1NL (Fin (2 ^ 70)) 0 0
       = [Fin (- (2 ^ 70)), Fin (2 ^ 70), Fin 0, Fin 0, Fin 0, Fin 0, Fin 0, Fin 0]
   \<and> coeffSum (basis_Hex1NL (Fin (2 ^ 70)) 0 0) = 0
   \<and> inUnitInterval 1 \<and> inUnitInterval (Fin (1 - 1 / 2 ^ 53))
   \<and> basis_Tet1NL 1 1 (Fin (1 - 1 / 2 ^ 53)) = [Fin (- 2), Fin 1, Fin 1, Fin (1 - 1 / 2 ^ 53)]
   \<and> coeffSum (basis_Tet1NL 1 1 (Fin (1 - 1 / 2 ^ 53))) = 1 - 1 / 2 ^ 53"
  by (simp add: basis_Tet1NL_def basis_Hex1NL_def coeffSum_def inUnitInterval_def Let_def
      zero_double_def one_double_def basis_examples_arith)

subsection \<open>Point location in a hexahedron\<close>

lemma plainDoubleE:
  assumes "plainDouble d"
  obtains r where "d = Fin r" "round_double r = r" "\<bar>r\<bar> < 2 ^ 1024"
  using assms by (cases d) (auto simp: plainDouble_def)

lemma fl_plain: "round_double r = r \<Longrightarrow> \<bar>r\<bar> < 2 ^ 1024 \<Longrightarrow> fl False r = Fin r"
  by (simp add: fl_def Let_def signed_zero_def)

lemma plain_times_one: "plainDouble a \<Longrightarrow> a * Fin 1 = a"
  by (erule plainDoubleE) (auto simp: double_arith fl_def Let_def signed_zero_def)

lemma plain_times_zero: "plainDouble a \<Longrightarrow> iszero (a * Fin 0)"
  by (erule plainDoubleE) (auto simp: double_arith fl_def signed_zero_def iszero_def)

lemma iszero_cases: "iszero a \<longleftrightarrow> a = Fin 0 \<or> a = NegZero"
  by (cases a) (auto simp: iszero_def)

lemma iszero_plus: "iszero a \<Longrightarrow> iszero b \<Longrightarrow> iszero (a + b)"
  by (auto simp: iszero_cases double_arith fl_def signed_zero_def)

lemma iszero_plus_plain: "iszero a \<Longrightarrow> plainDouble b \<Longrightarrow> a + b = b"
  by (erule plainDoubleE) (auto simp: iszero_cases double_arith fl_def Let_def signed_zero_def)

lemma plain_plus_iszero: "plainDouble a \<Longrightarrow> iszero b \<Longrightarrow> a + b = a"
  by (erule plainDoubleE) (auto simp: iszero_cases double_arith fl_def Let_def signed_zero_def)

lemmas pick_simps = plain_times_one plain_times_zero iszero_plus iszero_plus_plain plain_plus_iszero

lemma corner_arith:
  "Fin 0 * Fin 0 = Fin 0"
  "Fin 1 - Fin 0 = Fin 1"
  "Fin 1 + Fin 0 = Fin 1"
  "Fin 0 - Fin 0 = Fin 0"
  "Fin 0 + Fin 0 = Fin 0"
  "Fin 1 * Fin 0 = Fin 0"
  "Fin 1 - Fin 1 = Fin 0"
  "Fin 0 * Fin 1 = Fin 0"
  "Fin 1 * Fin 1 = Fin 1"
  "Fin 0 - Fin 1 = Fin (- 1)"
  "Fin (- 1) - Fin 0 = Fin (- 1)"
  "Fin (- 1) + Fin 1 = Fin 0"
  "Fin (- 1) + Fin 0 = Fin (- 1)"
  "Fin (- 1) - Fin 1 = Fin (- 2)"
  "Fin (- 2) + Fin 1 = Fin (- 1)"
  "Fin 0 + Fin 1 = Fin 1"
proof -
  show "Fin 0 * Fin 0 = Fin 0"
    by (simp add: double_arith fl_def signed_zero_def signed_inf_def)
  show "Fin 1 - Fin 0 = Fin 1"
    by (simp add: double_arith) (rule fl_eqI [where m = "4503599627370496" and q = "- 52"]; simp add: pow2_def)
  show "Fin 1 + Fin 0 = Fin 1"
    by (simp add: double_arith) (rule fl_eqI [where m = "4503599627370496" and q = "- 52"]; simp add: pow2_def)
  show "Fin 0 - Fin 0 = Fin 0"
    by (simp add: double_arith fl_def signed_zero_def signed_inf_def)
  show "Fin 0 + Fin 0 = Fin 0"
    by (simp add: double_arith fl_def signed_zero_def signed_inf_def)
  show "Fin 1 * Fin 0 = Fin 0"
    by (simp add: double_arith fl_def signed_zero_def signed_inf_def)
  show "Fin 1 - Fin 1 = Fin 0"
    by (simp add: double_arith fl_def signed_zero_def signed_inf_def)
  show "Fin 0 * Fin 1 = Fin 0"
    by (simp add: double_arith fl_def signed_zero_def signed_inf_def)
  show "Fin 1 * Fin 1 = Fin 1"
    by (simp add: double_arith) (rule fl_eqI [where m = "4503599627370496" and q = "- 52"]; simp add: pow2_def)
  show "Fin 0 - Fin 1 = Fin (- 1)"
    by (simp add: double_arith) (rule fl_eqI [where m = "- 4503599627370496" and q = "- 52"]; simp add: pow2_def)
  show "Fin (- 1) - Fin 0 = Fin (- 1)"
    by (simp add: double_arith) (rule fl_eqI [where m = "- 4503599627370496" and q = "- 52"]; simp add: pow2_def)
  show "Fin (- 1) + Fin 1 = Fin 0"
    by (simp add: double_arith fl_def signed_zero_def signed_inf_def)
  show "Fin (- 1) + Fin 0 = Fin (- 1)"
    by (simp add: double_arith) (rule fl_eqI [where m = "- 4503599627370496" and q = "- 52"]; simp add: pow2_def)
  show "Fin (- 1) - Fin 1 = Fin (- 2)"
    by (simp add: double_arith) (rule fl_eqI [where m = "- 4503599627370496" and q = "- 51"]; simp add: pow2_def)
  show "Fin (- 2) + Fin 1 = Fin (- 1)"
    by (simp add: double_arith) (rule fl_eqI [where m = "- 4503599627370496" and q = "- 52"]; simp add: pow2_def)
  show "Fin 0 + Fin 1 = Fin 1"
    by (simp add: double_arith) (rule fl_eqI [where m = "4503599627370496" and q = "- 52"]; simp add: pow2_def)
qed

lemma basis_Hex1NL_corners:
  "basis_Hex1NL (Fin 0) (Fin 0) (Fin 0) = [Fin 1, Fin 0, Fin 0, Fin 0, Fin 0, Fin 0, Fin 0, Fin 0]"
  "basis_Hex1NL (Fin 1) (Fin 0) (Fin 0) = [Fin 0, Fin 1, Fin 0, Fin 0, Fin 0, Fin 0, Fin 0, Fin 0]"
  "basis_Hex1NL (Fin 0) (Fin 1) (Fin 0) = [Fin 0, Fin 0, Fin 1, Fin 0, Fin 0, Fin 0, Fin 0, Fin 0]"
  "basis_Hex1NL (Fin 1) (Fin 1) (Fin 0) = [Fin 0, Fin 0, Fin 0, Fin 1, Fin 0, Fin 0, Fin 0, Fin 0]"
  "basis_Hex1NL (Fin 0) (Fin 0) (Fin 1) = [Fin 0, Fin 0, Fin 0, Fin 0, Fin 1, Fin 0, Fin 0, Fin 0]"
  "basis_Hex1NL (Fin 1) (Fin 0) (Fin 1) = [Fin 0, Fin 0, Fin 0, Fin 0, Fin 0, Fin 1, Fin 0, Fin 0]"
  "basis_Hex1NL (Fin 0) (Fin 1) (Fin 1) = [Fin 0, Fin 0, Fin 0, Fin 0, Fin 0, Fin 0, Fin 1, Fin 0]"
  "basis_Hex1NL (Fin 1) (Fin 1) (Fin 1) = [Fin 0, Fin 0, Fin 0, Fin 0, Fin 0, Fin 0, Fin 0, Fin 1]"
  by (simp_all add: basis_Hex1NL_def Let_def one_double_def corner_arith)

lemma hexVertex_corners:
  assumes "plainVec n1" "plainVec n2" "plainVec n3" "plainVec n4"
    "plainVec n5" "plainVec n6" "plainVec n7" "plainVec n8"
  shows "hexVertex [n1, n2, n3, n4, n5, n6, n7, n8] (Vec3 (Fin 0) (Fin 0) (Fin 0)) = n1"
    and "hexVertex [n1, n2, n3, n4, n5, n6, n7, n8] (Vec3 (Fin 1) (Fin 0) (Fin 0)) = n2"
    and "hexVertex [n1, n2, n3, n4, n5, n6, n7, n8] (Vec3 (Fin 0) (Fin 1) (Fin 0)) = n3"
    and "hexVertex [n1, n2, n3, n4, n5, n6, n7, n8] (Vec3 (Fin 1) (Fin 1) (Fin 0)) = n4"
    and "hexVertex [n1, n2, n3, n4, n5, n6, n7, n8] (Vec3 (Fin 0) (Fin 0) (Fin 1)) = n5"
    and "hexVertex [n1, n2, n3, n4, n5, n6, n7, n8] (Vec3 (Fin 1) (Fin 0) (Fin 1)) = n6"
    and "hexVertex [n1, n2, n3, n4, n5, n6, n7, n8] (Vec3 (Fin 0) (Fin 1) (Fin 1)) = n7"
    and "hexVertex [n1, n2, n3, n4, n5, n6, n7, n8] (Vec3 (Fin 1) (Fin 1) (Fin 1)) = n8"
  using assms
  by (simp_all add: hexVertex_def basis_Hex1NL_corners plainVec_def vadd_def vscale_def pick_simps
      vec3.expand)


lemma min_T_Fin: "min_T (Fin a) (Fin b) = Fin (min a b)"
  by (auto simp: min_T_def less_double_def min_def)

lemma max_T_Fin: "max_T (Fin a) (Fin b) = Fin (max a b)"
  by (auto simp: max_T_def less_double_def max_def)

lemma plainVecE:
  assumes "plainVec n"
  obtains a b c where "n = Vec3 (Fin a) (Fin b) (Fin c)"
  using assms by (cases n) (auto simp: plainVec_def elim!: plainDoubleE)

lemma Min_image_8:
  fixes f :: "vec3 \<Rightarrow> real"
  shows "Min (f ` set [a, b, c, d, e, g, h, i])
    = min (min (min (min (min (min (min (f a) (f b)) (f c)) (f d)) (f e)) (f g)) (f h)) (f i)"
proof -
  have "f ` set [a, b, c, d, e, g, h, i] = set (map f [a, b, c, d, e, g, h, i])"
    by (simp only: set_map)
  then have "Min (f ` set [a, b, c, d, e, g, h, i]) = fold min (map f [b, c, d, e, g, h, i]) (f a)"
    by (simp only: list.map Min.set_eq_fold)
  also have "\<dots> = min (f i) (min (f h) (min (f g) (min (f e) (min (f d) (min (f c) (min (f b) (f a)))))))"
    by (simp only: list.map fold_simps)
  also have "\<dots> = min (min (min (min (min (min (min (f a) (f b)) (f c)) (f d)) (f e)) (f g)) (f h)) (f i)"
    by (simp only: min.assoc min.commute min.left_commute)
  finally show ?thesis .
qed

lemma Max_image_8:
  fixes f :: "vec3 \<Rightarrow> real"
  shows "Max (f ` set [a, b, c, d, e, g, h, i])
    = max (max (max (max (max (max (max (f a) (f b)) (f c)) (f d)) (f e)) (f g)) (f h)) (f i)"
proof -
  have "f ` set [a, b, c, d, e, g, h, i] = set (map f [a, b, c, d, e, g, h, i])"
    by (simp only: set_map)
  then have "Max (f ` set [a, b, c, d, e, g, h, i]) = fold max (map f [b, c, d, e, g, h, i]) (f a)"
    by (simp only: list.map Max.set_eq_fold)
  also have "\<dots> = max (f i) (max (f h) (max (f g) (max (f e) (max (f d) (max (f c) (max (f b) (f a)))))))"
    by (simp only: list.map fold_simps)
  also have "\<dots> = max (max (max (max (max (max (max (f a) (f b)) (f c)) (f d)) (f e)) (f g)) (f h)) (f i)"
    by (simp only: max.assoc max.commute max.left_commute)
  finally show ?thesis .
qed

lemma hex_box_chain:
  assumes "plainVec n1" "plainVec n2" "plainVec n3" "plainVec n4"
    "plainVec n5" "plainVec n6" "plainVec n7" "plainVec n8"
  shows "setMinVals (setMinVals (setMinVals (setMinVals (setMinVals (setMinVals
     (setMinVals n1 n2) n3) n4) n5) n6) n7) n8 = hexCorners_min [n1, n2, n3, n4, n5, n6, n7, n8]"
    and "setMaxVals (setMaxVals (setMaxVals (setMaxVals (setMaxVals (setMaxVals
     (setMaxVals n1 n2) n3) n4) n5) n6) n7) n8 = hexCorners_max [n1, n2, n3, n4, n5, n6, n7, n8]"
proof -
  from assms(1) obtain a1 b1 c1 where n1: "n1 = Vec3 (Fin a1) (Fin b1) (Fin c1)"
    by (rule plainVecE)
  from assms(2) obtain a2 b2 c2 where n2: "n2 = Vec3 (Fin a2) (Fin b2) (Fin c2)"
    by (rule plainVecE)
  from assms(3) obtain a3 b3 c3 where n3: "n3 = Vec3 (Fin a3) (Fin b3) (Fin c3)"
    by (rule plainVecE)
  from assms(4) obtain a4 b4 c4 where n4: "n4 = Vec3 (Fin a4) (Fin b4) (Fin c4)"
    by (rule plainVecE)
  from assms(5) obtain a5 b5 c5 where n5: "n5 = Vec3 (Fin a5) (Fin b5) (Fin c5)"
    by (rule plainVecE)
  from assms(6) obtain a6 b6 c6 where n6: "n6 = Vec3 (Fin a6) (Fin b6) (Fin c6)"
    by (rule plainVecE)
  from assms(7) obtain a7 b7 c7 where n7: "n7 = Vec3 (Fin a7) (Fin b7) (Fin c7)"
    by (rule plainVecE)
  from assms(8) obtain a8 b8 c8 where n8: "n8 = Vec3 (Fin a8) (Fin b8) (Fin c8)"
    by (rule plainVecE)
  note n = n1 n2 n3 n4 n5 n6 n7 n8
  show "setMinVals (setMinVals (setMinVals (setMinVals (setMinVals (setMinVals
     (setMinVals n1 n2) n3) n4) n5) n6) n7) n8 = hexCorners_min [n1, n2, n3, n4, n5, n6, n7, n8]"
    unfolding hexCorners_min_def Min_image_8 n
    by (simp only: setMinVals_def min_T_Fin vec3.sel dval.simps)
  show "setMaxVals (setMaxVals (setMaxVals (setMaxVals (setMaxVals (setMaxVals
     (setMaxVals n1 n2) n3) n4) n5) n6) n7) n8 = hexCorners_max [n1, n2, n3, n4, n5, n6, n7, n8]"
    unfolding hexCorners_max_def Max_image_8 n
    by (simp only: setMaxVals_def max_T_Fin vec3.sel dval.simps)
qed

lemma NegZero_le: "NegZero \<le> x \<longleftrightarrow> Fin 0 \<le> x"
  by (cases x) (auto simp: less_eq_double_def)

lemma one_plus_zero: "Fin 1 + Fin 0 = Fin 1"
  by (simp add: double_arith fl_one)

lemma xiAccepted_eq: "xiAccepted xi = inSimplexEps xi"
  by (simp add: xiAccepted_def inSimplexEps_def isInUnitCube_def zero_double_def one_double_def
      double_arith NegZero_le fl_one)

lemma blend4_eq: "blend4 row (basis_Tet1NL a b c) = tetBlend row (Vec3 a b c)"
  by (simp add: blend4_def tetBlend_def Let_def)

lemma searchTets_divtets:
  assumes "plainVec n1" "plainVec n2" "plainVec n3" "plainVec n4"
    "plainVec n5" "plainVec n6" "plainVec n7" "plainVec n8"
  shows "searchTets pt [n1, n2, n3, n4, n5, n6, n7, n8] divtets =
     (case find (\<lambda>row. inSimplexEps (tetXi pt [n1, n2, n3, n4, n5, n6, n7, n8] row)) divtets of
        None \<Rightarrow> vec3_all (- 1)
      | Some row \<Rightarrow> tetBlend row (tetXi pt [n1, n2, n3, n4, n5, n6, n7, n8] row))"
  unfolding divtets_def zero_double_def one_double_def
  by (simp add: Let_def hexVertex_corners [OF assms] tetXi_def cornerIndex_def one_double_def)

text \<open>
  Claim C1 (as amended). For every point and every eight corners with finite coordinates
  (none the negative zero), \<open>pointSearchLinHex\<close> returns the sentinel \<open>(-1,-1,-1)\<close> when the
  point fails the bounding-box test of the corners; otherwise it takes the first row of
  the 5-tetrahedron table for which \<open>pointSearchLinTet\<close>, on the tetrahedron with the row's
  corners of the hexahedron as vertices, gives an xi in the unit cube with component sum
  at most \<open>1 + 1e-10\<close>, and returns the blend of that row's four xi triples weighted by
  the Tet1NL coefficients of this xi; when no row qualifies it returns the sentinel.
\<close>

theorem pointSearchLinHex_first_tet:
  assumes "plainVec n1" "plainVec n2" "plainVec n3" "plainVec n4"
    "plainVec n5" "plainVec n6" "plainVec n7" "plainVec n8"
  shows "pointSearchLinHex pt n1 n2 n3 n4 n5 n6 n7 n8
     = pointSearchLinHex_spec pt [n1, n2, n3, n4, n5, n6, n7, n8]"
proof -
  have b: "blend4 row (basis_Tet1NL (vx xi) (vy xi) (vz xi)) = tetBlend row xi" for row xi
    using blend4_eq [of row "vx xi" "vy xi" "vz xi"] by simp
  have m: "- (1::double) = Fin (- 1)"
    by (simp add: one_double_def double_arith)
  show ?thesis
    unfolding pointSearchLinHex_def pointSearchLinHex_spec_def hex_box_chain [OF assms]
      searchTets_divtets [OF assms]
    by (simp add: b xiAccepted_eq vec3_all_def Let_def m split: option.split)
qed


lemma round_double_small_ints:
  "round_double 0 = 0" "round_double 1 = 1" "round_double 2 = 2"
  "round_double (- 1) = - 1" "round_double (- 2) = - 2"
proof -
  show "round_double 0 = 0" by (simp add: round_double_def)
  have "round_double 1 = of_int 4503599627370496 * pow2 (- 52)"
    by (rule round_double_eqI) (simp_all add: pow2_def)
  then show "round_double 1 = 1" by (simp add: pow2_def)
  have "round_double 2 = of_int 4503599627370496 * pow2 (- 51)"
    by (rule round_double_eqI) (simp_all add: pow2_def)
  then show "round_double 2 = 2" by (simp add: pow2_def)
  have "round_double (- 1) = of_int (- 4503599627370496) * pow2 (- 52)"
    by (rule round_double_eqI) (simp_all add: pow2_def)
  then show "round_double (- 1) = - 1" by (simp add: pow2_def)
  have "round_double (- 2) = of_int (- 4503599627370496) * pow2 (- 51)"
    by (rule round_double_eqI) (simp_all add: pow2_def)
  then show "round_double (- 2) = - 2" by (simp add: pow2_def)
qed

lemma example_cell_plain: "list_all plainVec example_cell"
  by (simp add: example_cell_def plainVec_def plainDouble_def round_double_small_ints)

theorem pointSearchLinHex_first_tet_witness:
  "list_all plainVec example_cell
   \<and> pointSearchLinHex example_point
      (Vec3 (Fin 1) (Fin 1) (Fin (- 2)))
      (Vec3 (Fin 1) (Fin 0) (Fin (- 1)))
      (Vec3 (Fin 2) (Fin 1) (Fin (- 2)))
      (Vec3 (Fin 1) (Fin 0) (Fin 0))
      (Vec3 (Fin 0) (Fin 1) (Fin (- 1)))
      (Vec3 (Fin 0) (Fin 0) (Fin 0))
      (Vec3 (Fin 0) (Fin 1) (Fin 0))
      (Vec3 (Fin 0) (Fin 0) (Fin 1))
     = pointSearchLinHex_spec example_point example_cell"
  using pointSearchLinHex_first_tet [of "Vec3 (Fin 1) (Fin 1) (Fin (- 2))"
      "Vec3 (Fin 1) (Fin 0) (Fin (- 1))" "Vec3 (Fin 2) (Fin 1) (Fin (- 2))"
      "Vec3 (Fin 1) (Fin 0) (Fin 0)" "Vec3 (Fin 0) (Fin 1) (Fin (- 1))" "Vec3 (Fin 0) (Fin 0) (Fin 0)"
      "Vec3 (Fin 0) (Fin 1) (Fin 0)" "Vec3 (Fin 0) (Fin 0) (Fin 1)" example_point]
  by (simp add: example_cell_def plainVec_def plainDouble_def round_double_small_ints)

lemma example_cell_arith:
  "Fin (7 / 36028797018963968) + Fin (7737125245533627 / 77371252455336267181195264) = Fin (7737140277919163 / 77371252455336267181195264)"
  "Fin 1 + Fin (7737125245533627 / 77371252455336267181195264) = Fin (562949953477607 / 562949953421312)"
  "Fin (1 / 1099511627776) + Fin (7737125245533627 / 77371252455336267181195264) = Fin (7807493989711291 / 77371252455336267181195264)"
  "Fin (7 / 36028797018963968) - Fin (7737125245533627 / 77371252455336267181195264) = Fin (- (7737110213148091 / 77371252455336267181195264))"
  "Fin 1 - Fin (7737125245533627 / 77371252455336267181195264) = Fin (562949953365017 / 562949953421312)"
  "Fin (1 / 1099511627776) - Fin (7737125245533627 / 77371252455336267181195264) = Fin (- (7666756501355963 / 77371252455336267181195264))"
  "Fin (7 / 36028797018963968) - Fin 1 = Fin (- (4503599627370495 / 4503599627370496))"
  "Fin 1 - Fin 1 = Fin 0"
  "Fin (1 / 1099511627776) - Fin (- 2) = Fin (2199023255553 / 1099511627776)"
  "Fin 0 - Fin 1 = Fin (- 1)"
  "Fin 0 - Fin (- 2) = Fin 2"
  "Fin 2 * Fin (- 1) = Fin (- 2)"
  "Fin 2 * Fin 0 = Fin 0"
  "Fin (- 2) - Fin 0 = Fin (- 2)"
  "Fin (- 1) * Fin (- 2) = Fin 2"
  "Fin (- 1) * Fin 2 = Fin (- 2)"
  "Fin 2 - Fin (- 2) = Fin 4"
  "Fin 0 * Fin 0 = Fin 0"
  "Fin (- 1) * Fin (- 1) = Fin 1"
  "Fin 4 + Fin (- 2) = Fin 2"
  "Fin 1 / Fin 2 = Fin (1 / 2)"
  "Fin (- (4503599627370495 / 4503599627370496)) * Fin (- 2) = Fin (4503599627370495 / 2251799813685248)"
  "Fin 0 * Fin (- 2) = NegZero"
  "Fin (4503599627370495 / 2251799813685248) + NegZero = Fin (4503599627370495 / 2251799813685248)"
  "Fin (2199023255553 / 1099511627776) * Fin (- 1) = Fin (- (2199023255553 / 1099511627776))"
  "Fin (4503599627370495 / 2251799813685248) + Fin (- (2199023255553 / 1099511627776)) = Fin (- (2049 / 2251799813685248))"
  "Fin (1 / 2) * Fin (- (2049 / 2251799813685248)) = Fin (- (2049 / 4503599627370496))"
  "Fin (- (4503599627370495 / 4503599627370496)) * Fin 2 = Fin (- (4503599627370495 / 2251799813685248))"
  "Fin (- 2) - Fin (- 2) = Fin 0"
  "Fin (- (4503599627370495 / 2251799813685248)) + Fin 0 = Fin (- (4503599627370495 / 2251799813685248))"
  "Fin 0 * Fin (- 1) = NegZero"
  "Fin 1 - NegZero = Fin 1"
  "Fin (2199023255553 / 1099511627776) * Fin 1 = Fin (2199023255553 / 1099511627776)"
  "Fin (- (4503599627370495 / 2251799813685248)) + Fin (2199023255553 / 1099511627776) = Fin (2049 / 2251799813685248)"
  "Fin (1 / 2) * Fin (2049 / 2251799813685248) = Fin (2049 / 4503599627370496)"
  "Fin (- (4503599627370495 / 4503599627370496)) * Fin 0 = NegZero"
  "Fin 0 * Fin 2 = Fin 0"
  "NegZero + Fin 0 = Fin 0"
  "Fin (- 1) * Fin 0 = NegZero"
  "Fin 0 + Fin (2199023255553 / 1099511627776) = Fin (2199023255553 / 1099511627776)"
  "Fin (1 / 2) * Fin (2199023255553 / 1099511627776) = Fin (2199023255553 / 2199023255552)"
  "Fin 1 + Fin 0 = Fin 1"
  "Fin (- (2049 / 4503599627370496)) + Fin (2049 / 4503599627370496) = Fin 0"
  "Fin 0 + Fin (2199023255553 / 2199023255552) = Fin (2199023255553 / 2199023255552)"
  "Fin 2 - Fin 1 = Fin 1"
  "Fin 0 - Fin 0 = Fin 0"
  "Fin 2 * Fin 1 = Fin 2"
  "Fin 2 - NegZero = Fin 2"
  "Fin 0 * Fin 1 = Fin 0"
  "Fin 0 - NegZero = Fin 0"
  "Fin 2 + Fin 0 = Fin 2"
  "NegZero - Fin 2 = Fin (- 2)"
  "NegZero + NegZero = NegZero"
  "Fin (2199023255553 / 1099511627776) * Fin 0 = Fin 0"
  "Fin (1 / 2) * Fin 0 = Fin 0"
  "Fin 1 - Fin 0 = Fin 1"
  "NegZero - Fin 0 = NegZero"
  "Fin (- (4503599627370495 / 4503599627370496)) * NegZero = Fin 0"
  "Fin 2 - Fin 0 = Fin 2"
  "Fin 0 + Fin 0 = Fin 0"
  "Fin (- 1) * Fin 1 = Fin (- 1)"
  "Fin 0 - Fin (- 1) = Fin 1"
  "Fin 0 + Fin (2049 / 4503599627370496) = Fin (2049 / 4503599627370496)"
  "Fin (2049 / 4503599627370496) + Fin (2199023255553 / 2199023255552) = Fin (4503599627374593 / 4503599627370496)"
  "Fin (- 1) - Fin (- 2) = Fin 1"
  "Fin 1 * Fin 0 = Fin 0"
  "Fin 1 * Fin (- 1) = Fin (- 1)"
  "NegZero - Fin (- 1) = Fin 1"
  "NegZero - NegZero = Fin 0"
  "Fin 1 / Fin 1 = Fin 1"
  "Fin (- 2) - Fin (- 1) = Fin (- 1)"
  "Fin (- (4503599627370495 / 4503599627370496)) * Fin 1 = Fin (- (4503599627370495 / 4503599627370496))"
  "Fin (- (4503599627370495 / 4503599627370496)) + Fin 0 = Fin (- (4503599627370495 / 4503599627370496))"
  "Fin (- (4503599627370495 / 4503599627370496)) + Fin (2199023255553 / 1099511627776) = Fin (4503599627374593 / 4503599627370496)"
  "Fin 1 * Fin (4503599627374593 / 4503599627370496) = Fin (4503599627374593 / 4503599627370496)"
  "Fin (4503599627370495 / 2251799813685248) + Fin 0 = Fin (4503599627370495 / 2251799813685248)"
  "NegZero - Fin 1 = Fin (- 1)"
  "Fin 1 * Fin (- (2049 / 2251799813685248)) = Fin (- (2049 / 2251799813685248))"
  "Fin 0 + Fin (4503599627374593 / 4503599627370496) = Fin (4503599627374593 / 4503599627370496)"
  "Fin (4503599627374593 / 4503599627370496) + Fin (- (2049 / 2251799813685248)) = Fin (4503599627370495 / 4503599627370496)"
  "Fin (7 / 36028797018963968) - Fin 0 = Fin (7 / 36028797018963968)"
  "Fin (1 / 1099511627776) - Fin 0 = Fin (1 / 1099511627776)"
  "Fin 1 * Fin 1 = Fin 1"
  "Fin (7 / 36028797018963968) * Fin 1 = Fin (7 / 36028797018963968)"
  "Fin (7 / 36028797018963968) + Fin 0 = Fin (7 / 36028797018963968)"
  "Fin (1 / 1099511627776) * Fin 0 = Fin 0"
  "Fin 1 * Fin (7 / 36028797018963968) = Fin (7 / 36028797018963968)"
  "Fin (7 / 36028797018963968) * Fin 0 = Fin 0"
  "Fin 0 + Fin 1 = Fin 1"
  "Fin (1 / 1099511627776) * Fin 1 = Fin (1 / 1099511627776)"
  "Fin 0 + Fin (1 / 1099511627776) = Fin (1 / 1099511627776)"
  "Fin 1 * Fin (1 / 1099511627776) = Fin (1 / 1099511627776)"
  "Fin (7 / 36028797018963968) + Fin 1 = Fin (4503599627370497 / 4503599627370496)"
  "Fin (4503599627370497 / 4503599627370496) + Fin (1 / 1099511627776) = Fin (4503599627374593 / 4503599627370496)"
  "Fin 1 - Fin (7 / 36028797018963968) = Fin (4503599627370495 / 4503599627370496)"
  "Fin (4503599627370495 / 4503599627370496) - Fin 1 = Fin (- (1 / 4503599627370496))"
  "Fin (- (1 / 4503599627370496)) - Fin (1 / 1099511627776) = Fin (- (4097 / 4503599627370496))"
  "Fin 1 * Fin (- (4097 / 4503599627370496)) = Fin (- (4097 / 4503599627370496))"
  "Fin 0 * Fin (- (4097 / 4503599627370496)) = NegZero"
  "Fin 0 * Fin (7 / 36028797018963968) = Fin 0"
  "Fin (- (4097 / 4503599627370496)) + Fin (7 / 36028797018963968) = Fin (- (32769 / 36028797018963968))"
  "NegZero + Fin (7 / 36028797018963968) = Fin (7 / 36028797018963968)"
  "Fin (- (4097 / 4503599627370496)) + Fin 0 = Fin (- (4097 / 4503599627370496))"
  "Fin (- (32769 / 36028797018963968)) + Fin 0 = Fin (- (32769 / 36028797018963968))"
  "Fin (- (4097 / 4503599627370496)) + Fin 1 = Fin (4503599627366399 / 4503599627370496)"
  "Fin (- (32769 / 36028797018963968)) + Fin (1 / 1099511627776) = Fin (- (1 / 36028797018963968))"
  "Fin (4503599627366399 / 4503599627370496) + Fin (1 / 1099511627776) = Fin (4503599627370495 / 4503599627370496)"
proof -
  show "Fin (7 / 36028797018963968) + Fin (7737125245533627 / 77371252455336267181195264) = Fin (7737140277919163 / 77371252455336267181195264)"
    by (simp add: double_arith) (rule fl_eqI [where m = "7737140277919163" and q = "- 86"]; simp add: pow2_def)
  show "Fin 1 + Fin (7737125245533627 / 77371252455336267181195264) = Fin (562949953477607 / 562949953421312)"
    by (simp add: double_arith) (rule fl_eqI [where m = "4503599627820856" and q = "- 52"]; simp add: pow2_def)
  show "Fin (1 / 1099511627776) + Fin (7737125245533627 / 77371252455336267181195264) = Fin (7807493989711291 / 77371252455336267181195264)"
    by (simp add: double_arith) (rule fl_eqI [where m = "7807493989711291" and q = "- 86"]; simp add: pow2_def)
  show "Fin (7 / 36028797018963968) - Fin (7737125245533627 / 77371252455336267181195264) = Fin (- (7737110213148091 / 77371252455336267181195264))"
    by (simp add: double_arith) (rule fl_eqI [where m = "- 7737110213148091" and q = "- 86"]; simp add: pow2_def)
  show "Fin 1 - Fin (7737125245533627 / 77371252455336267181195264) = Fin (562949953365017 / 562949953421312)"
    by (simp add: double_arith) (rule fl_eqI [where m = "9007199253840272" and q = "- 53"]; simp add: pow2_def)
  show "Fin (1 / 1099511627776) - Fin (7737125245533627 / 77371252455336267181195264) = Fin (- (7666756501355963 / 77371252455336267181195264))"
    by (simp add: double_arith) (rule fl_eqI [where m = "- 7666756501355963" and q = "- 86"]; simp add: pow2_def)
  show "Fin (7 / 36028797018963968) - Fin 1 = Fin (- (4503599627370495 / 4503599627370496))"
    by (simp add: double_arith) (rule fl_eqI [where m = "- 9007199254740990" and q = "- 53"]; simp add: pow2_def)
  show "Fin 1 - Fin 1 = Fin 0"
    by (simp add: double_arith fl_def signed_zero_def signed_inf_def)
  show "Fin (1 / 1099511627776) - Fin (- 2) = Fin (2199023255553 / 1099511627776)"
    by (simp add: double_arith) (rule fl_eqI [where m = "4503599627372544" and q = "- 51"]; simp add: pow2_def)
  show "Fin 0 - Fin 1 = Fin (- 1)"
    by (simp add: double_arith) (rule fl_eqI [where m = "- 4503599627370496" and q = "- 52"]; simp add: pow2_def)
  show "Fin 0 - Fin (- 2) = Fin 2"
    by (simp add: double_arith) (rule fl_eqI [where m = "4503599627370496" and q = "- 51"]; simp add: pow2_def)
  show "Fin 2 * Fin (- 1) = Fin (- 2)"
    by (simp add: double_arith) (rule fl_eqI [where m = "- 4503599627370496" and q = "- 51"]; simp add: pow2_def)
  show "Fin 2 * Fin 0 = Fin 0"
    by (simp add: double_arith fl_def signed_zero_def signed_inf_def)
  show "Fin (- 2) - Fin 0 = Fin (- 2)"
    by (simp add: double_arith) (rule fl_eqI [where m = "- 4503599627370496" and q = "- 51"]; simp add: pow2_def)
  show "Fin (- 1) * Fin (- 2) = Fin 2"
    by (simp add: double_arith) (rule fl_eqI [where m = "4503599627370496" and q = "- 51"]; simp add: pow2_def)
  show "Fin (- 1) * Fin 2 = Fin (- 2)"
    by (simp add: double_arith) (rule fl_eqI [where m = "- 4503599627370496" and q = "- 51"]; simp add: pow2_def)
  show "Fin 2 - Fin (- 2) = Fin 4"
    by (simp add: double_arith) (rule fl_eqI [where m = "4503599627370496" and q = "- 50"]; simp add: pow2_def)
  show "Fin 0 * Fin 0 = Fin 0"
    by (simp add: double_arith fl_def signed_zero_def signed_inf_def)
  show "Fin (- 1) * Fin (- 1) = Fin 1"
    by (simp add: double_arith) (rule fl_eqI [where m = "4503599627370496" and q = "- 52"]; simp add: pow2_def)
  show "Fin 4 + Fin (- 2) = Fin 2"
    by (simp add: double_arith) (rule fl_eqI [where m = "4503599627370496" and q = "- 51"]; simp add: pow2_def)
  show "Fin 1 / Fin 2 = Fin (1 / 2)"
    by (simp add: double_arith) (rule fl_eqI [where m = "4503599627370496" and q = "- 53"]; simp add: pow2_def)
  show "Fin (- (4503599627370495 / 4503599627370496)) * Fin (- 2) = Fin (4503599627370495 / 2251799813685248)"
    by (simp add: double_arith) (rule fl_eqI [where m = "9007199254740990" and q = "- 52"]; simp add: pow2_def)
  show "Fin 0 * Fin (- 2) = NegZero"
    by (simp add: double_arith fl_def signed_zero_def signed_inf_def)
  show "Fin (4503599627370495 / 2251799813685248) + NegZero = Fin (4503599627370495 / 2251799813685248)"
    by (simp add: double_arith) (rule fl_eqI [where m = "9007199254740990" and q = "- 52"]; simp add: pow2_def)
  show "Fin (2199023255553 / 1099511627776) * Fin (- 1) = Fin (- (2199023255553 / 1099511627776))"
    by (simp add: double_arith) (rule fl_eqI [where m = "- 4503599627372544" and q = "- 51"]; simp add: pow2_def)
  show "Fin (4503599627370495 / 2251799813685248) + Fin (- (2199023255553 / 1099511627776)) = Fin (- (2049 / 2251799813685248))"
    by (simp add: double_arith) (rule fl_eqI [where m = "- 4505798650626048" and q = "- 92"]; simp add: pow2_def)
  show "Fin (1 / 2) * Fin (- (2049 / 2251799813685248)) = Fin (- (2049 / 4503599627370496))"
    by (simp add: double_arith) (rule fl_eqI [where m = "- 4505798650626048" and q = "- 93"]; simp add: pow2_def)
  show "Fin (- (4503599627370495 / 4503599627370496)) * Fin 2 = Fin (- (4503599627370495 / 2251799813685248))"
    by (simp add: double_arith) (rule fl_eqI [where m = "- 9007199254740990" and q = "- 52"]; simp add: pow2_def)
  show "Fin (- 2) - Fin (- 2) = Fin 0"
    by (simp add: double_arith fl_def signed_zero_def signed_inf_def)
  show "Fin (- (4503599627370495 / 2251799813685248)) + Fin 0 = Fin (- (4503599627370495 / 2251799813685248))"
    by (simp add: double_arith) (rule fl_eqI [where m = "- 9007199254740990" and q = "- 52"]; simp add: pow2_def)
  show "Fin 0 * Fin (- 1) = NegZero"
    by (simp add: double_arith fl_def signed_zero_def signed_inf_def)
  show "Fin 1 - NegZero = Fin 1"
    by (simp add: double_arith) (rule fl_eqI [where m = "4503599627370496" and q = "- 52"]; simp add: pow2_def)
  show "Fin (2199023255553 / 1099511627776) * Fin 1 = Fin (2199023255553 / 1099511627776)"
    by (simp add: double_arith) (rule fl_eqI [where m = "4503599627372544" and q = "- 51"]; simp add: pow2_def)
  show "Fin (- (4503599627370495 / 2251799813685248)) + Fin (2199023255553 / 1099511627776) = Fin (2049 / 2251799813685248)"
    by (simp add: double_arith) (rule fl_eqI [where m = "4505798650626048" and q = "- 92"]; simp add: pow2_def)
  show "Fin (1 / 2) * Fin (2049 / 2251799813685248) = Fin (2049 / 4503599627370496)"
    by (simp add: double_arith) (rule fl_eqI [where m = "4505798650626048" and q = "- 93"]; simp add: pow2_def)
  show "Fin (- (4503599627370495 / 4503599627370496)) * Fin 0 = NegZero"
    by (simp add: double_arith fl_def signed_zero_def signed_inf_def)
  show "Fin 0 * Fin 2 = Fin 0"
    by (simp add: double_arith fl_def signed_zero_def signed_inf_def)
  show "NegZero + Fin 0 = Fin 0"
    by (simp add: double_arith fl_def signed_zero_def signed_inf_def)
  show "Fin (- 1) * Fin 0 = NegZero"
    by (simp add: double_arith fl_def signed_zero_def signed_inf_def)
  show "Fin 0 + Fin (2199023255553 / 1099511627776) = Fin (2199023255553 / 1099511627776)"
    by (simp add: double_arith) (rule fl_eqI [where m = "4503599627372544" and q = "- 51"]; simp add: pow2_def)
  show "Fin (1 / 2) * Fin (2199023255553 / 1099511627776) = Fin (2199023255553 / 2199023255552)"
    by (simp add: double_arith) (rule fl_eqI [where m = "4503599627372544" and q = "- 52"]; simp add: pow2_def)
  show "Fin 1 + Fin 0 = Fin 1"
    by (simp add: double_arith) (rule fl_eqI [where m = "4503599627370496" and q = "- 52"]; simp add: pow2_def)
  show "Fin (- (2049 / 4503599627370496)) + Fin (2049 / 4503599627370496) = Fin 0"
    by (simp add: double_arith fl_def signed_zero_def signed_inf_def)
  show "Fin 0 + Fin (2199023255553 / 2199023255552) = Fin (2199023255553 / 2199023255552)"
    by (simp add: double_arith) (rule fl_eqI [where m = "4503599627372544" and q = "- 52"]; simp add: pow2_def)
  show "Fin 2 - Fin 1 = Fin 1"
    by (simp add: double_arith) (rule fl_eqI [where m = "4503599627370496" and q = "- 52"]; simp add: pow2_def)
  show "Fin 0 - Fin 0 = Fin 0"
    by (simp add: double_arith fl_def signed_zero_def signed_inf_def)
  show "Fin 2 * Fin 1 = Fin 2"
    by (simp add: double_arith) (rule fl_eqI [where m = "4503599627370496" and q = "- 51"]; simp add: pow2_def)
  show "Fin 2 - NegZero = Fin 2"
    by (simp add: double_arith) (rule fl_eqI [where m = "4503599627370496" and q = "- 51"]; simp add: pow2_def)
  show "Fin 0 * Fin 1 = Fin 0"
    by (simp add: double_arith fl_def signed_zero_def signed_inf_def)
  show "Fin 0 - NegZero = Fin 0"
    by (simp add: double_arith fl_def signed_zero_def signed_inf_def)
  show "Fin 2 + Fin 0 = Fin 2"
    by (simp add: double_arith) (rule fl_eqI [where m = "4503599627370496" and q = "- 51"]; simp add: pow2_def)
  show "NegZero - Fin 2 = Fin (- 2)"
    by (simp add: double_arith) (rule fl_eqI [where m = "- 4503599627370496" and q = "- 51"]; simp add: pow2_def)
  show "NegZero + NegZero = NegZero"
    by (simp add: double_arith fl_def signed_zero_def signed_inf_def)
  show "Fin (2199023255553 / 1099511627776) * Fin 0 = Fin 0"
    by (simp add: double_arith fl_def signed_zero_def signed_inf_def)
  show "Fin (1 / 2) * Fin 0 = Fin 0"
    by (simp add: double_arith fl_def signed_zero_def signed_inf_def)
  show "Fin 1 - Fin 0 = Fin 1"
    by (simp add: double_arith) (rule fl_eqI [where m = "4503599627370496" and q = "- 52"]; simp add: pow2_def)
  show "NegZero - Fin 0 = NegZero"
    by (simp add: double_arith fl_def signed_zero_def signed_inf_def)
  show "Fin (- (4503599627370495 / 4503599627370496)) * NegZero = Fin 0"
    by (simp add: double_arith fl_def signed_zero_def signed_inf_def)
  show "Fin 2 - Fin 0 = Fin 2"
    by (simp add: double_arith) (rule fl_eqI [where m = "4503599627370496" and q = "- 51"]; simp add: pow2_def)
  show "Fin 0 + Fin 0 = Fin 0"
    by (simp add: double_arith fl_def signed_zero_def signed_inf_def)
  show "Fin (- 1) * Fin 1 = Fin (- 1)"
    by (simp add: double_arith) (rule fl_eqI [where m = "- 4503599627370496" and q = "- 52"]; simp add: pow2_def)
  show "Fin 0 - Fin (- 1) = Fin 1"
    by (simp add: double_arith) (rule fl_eqI [where m = "4503599627370496" and q = "- 52"]; simp add: pow2_def)
  show "Fin 0 + Fin (2049 / 4503599627370496) = Fin (2049 / 4503599627370496)"
    by (simp add: double_arith) (rule fl_eqI [where m = "4505798650626048" and q = "- 93"]; simp add: pow2_def)
  show "Fin (2049 / 4503599627370496) + Fin (2199023255553 / 2199023255552) = Fin (4503599627374593 / 4503599627370496)"
    by (simp add: double_arith) (rule fl_eqI [where m = "4503599627374593" and q = "- 52"]; simp add: pow2_def)
  show "Fin (- 1) - Fin (- 2) = Fin 1"
    by (simp add: double_arith) (rule fl_eqI [where m = "4503599627370496" and q = "- 52"]; simp add: pow2_def)
  show "Fin 1 * Fin 0 = Fin 0"
    by (simp add: double_arith fl_def signed_zero_def signed_inf_def)
  show "Fin 1 * Fin (- 1) = Fin (- 1)"
    by (simp add: double_arith) (rule fl_eqI [where m = "- 4503599627370496" and q = "- 52"]; simp add: pow2_def)
  show "NegZero - Fin (- 1) = Fin 1"
    by (simp add: double_arith) (rule fl_eqI [where m = "4503599627370496" and q = "- 52"]; simp add: pow2_def)
  show "NegZero - NegZero = Fin 0"
    by (simp add: double_arith fl_def signed_zero_def signed_inf_def)
  show "Fin 1 / Fin 1 = Fin 1"
    by (simp add: double_arith) (rule fl_eqI [where m = "4503599627370496" and q = "- 52"]; simp add: pow2_def)
  show "Fin (- 2) - Fin (- 1) = Fin (- 1)"
    by (simp add: double_arith) (rule fl_eqI [where m = "- 4503599627370496" and q = "- 52"]; simp add: pow2_def)
  show "Fin (- (4503599627370495 / 4503599627370496)) * Fin 1 = Fin (- (4503599627370495 / 4503599627370496))"
    by (simp add: double_arith) (rule fl_eqI [where m = "- 9007199254740990" and q = "- 53"]; simp add: pow2_def)
  show "Fin (- (4503599627370495 / 4503599627370496)) + Fin 0 = Fin (- (4503599627370495 / 4503599627370496))"
    by (simp add: double_arith) (rule fl_eqI [where m = "- 9007199254740990" and q = "- 53"]; simp add: pow2_def)
  show "Fin (- (4503599627370495 / 4503599627370496)) + Fin (2199023255553 / 1099511627776) = Fin (4503599627374593 / 4503599627370496)"
    by (simp add: double_arith) (rule fl_eqI [where m = "4503599627374593" and q = "- 52"]; simp add: pow2_def)
  show "Fin 1 * Fin (4503599627374593 / 4503599627370496) = Fin (4503599627374593 / 4503599627370496)"
    by (simp add: double_arith) (rule fl_eqI [where m = "4503599627374593" and q = "- 52"]; simp add: pow2_def)
  show "Fin (4503599627370495 / 2251799813685248) + Fin 0 = Fin (4503599627370495 / 2251799813685248)"
    by (simp add: double_arith) (rule fl_eqI [where m = "9007199254740990" and q = "- 52"]; simp add: pow2_def)
  show "NegZero - Fin 1 = Fin (- 1)"
    by (simp add: double_arith) (rule fl_eqI [where m = "- 4503599627370496" and q = "- 52"]; simp add: pow2_def)
  show "Fin 1 * Fin (- (2049 / 2251799813685248)) = Fin (- (2049 / 2251799813685248))"
    by (simp add: double_arith) (rule fl_eqI [where m = "- 4505798650626048" and q = "- 92"]; simp add: pow2_def)
  show "Fin 0 + Fin (4503599627374593 / 4503599627370496) = Fin (4503599627374593 / 4503599627370496)"
    by (simp add: double_arith) (rule fl_eqI [where m = "4503599627374593" and q = "- 52"]; simp add: pow2_def)
  show "Fin (4503599627374593 / 4503599627370496) + Fin (- (2049 / 2251799813685248)) = Fin (4503599627370495 / 4503599627370496)"
    by (simp add: double_arith) (rule fl_eqI [where m = "9007199254740990" and q = "- 53"]; simp add: pow2_def)
  show "Fin (7 / 36028797018963968) - Fin 0 = Fin (7 / 36028797018963968)"
    by (simp add: double_arith) (rule fl_eqI [where m = "7881299347898368" and q = "- 105"]; simp add: pow2_def)
  show "Fin (1 / 1099511627776) - Fin 0 = Fin (1 / 1099511627776)"
    by (simp add: double_arith) (rule fl_eqI [where m = "4503599627370496" and q = "- 92"]; simp add: pow2_def)
  show "Fin 1 * Fin 1 = Fin 1"
    by (simp add: double_arith) (rule fl_eqI [where m = "4503599627370496" and q = "- 52"]; simp add: pow2_def)
  show "Fin (7 / 36028797018963968) * Fin 1 = Fin (7 / 36028797018963968)"
    by (simp add: double_arith) (rule fl_eqI [where m = "7881299347898368" and q = "- 105"]; simp add: pow2_def)
  show "Fin (7 / 36028797018963968) + Fin 0 = Fin (7 / 36028797018963968)"
    by (simp add: double_arith) (rule fl_eqI [where m = "7881299347898368" and q = "- 105"]; simp add: pow2_def)
  show "Fin (1 / 1099511627776) * Fin 0 = Fin 0"
    by (simp add: double_arith fl_def signed_zero_def signed_inf_def)
  show "Fin 1 * Fin (7 / 36028797018963968) = Fin (7 / 36028797018963968)"
    by (simp add: double_arith) (rule fl_eqI [where m = "7881299347898368" and q = "- 105"]; simp add: pow2_def)
  show "Fin (7 / 36028797018963968) * Fin 0 = Fin 0"
    by (simp add: double_arith fl_def signed_zero_def signed_inf_def)
  show "Fin 0 + Fin 1 = Fin 1"
    by (simp add: double_arith) (rule fl_eqI [where m = "4503599627370496" and q = "- 52"]; simp add: pow2_def)
  show "Fin (1 / 1099511627776) * Fin 1 = Fin (1 / 1099511627776)"
    by (simp add: double_arith) (rule fl_eqI [where m = "4503599627370496" and q = "- 92"]; simp add: pow2_def)
  show "Fin 0 + Fin (1 / 1099511627776) = Fin (1 / 1099511627776)"
    by (simp add: double_arith) (rule fl_eqI [where m = "4503599627370496" and q = "- 92"]; simp add: pow2_def)
  show "Fin 1 * Fin (1 / 1099511627776) = Fin (1 / 1099511627776)"
    by (simp add: double_arith) (rule fl_eqI [where m = "4503599627370496" and q = "- 92"]; simp add: pow2_def)
  show "Fin (7 / 36028797018963968) + Fin 1 = Fin (4503599627370497 / 4503599627370496)"
    by (simp add: double_arith) (rule fl_eqI [where m = "4503599627370497" and q = "- 52"]; simp add: pow2_def)
  show "Fin (4503599627370497 / 4503599627370496) + Fin (1 / 1099511627776) = Fin (4503599627374593 / 4503599627370496)"
    by (simp add: double_arith) (rule fl_eqI [where m = "4503599627374593" and q = "- 52"]; simp add: pow2_def)
  show "Fin 1 - Fin (7 / 36028797018963968) = Fin (4503599627370495 / 4503599627370496)"
    by (simp add: double_arith) (rule fl_eqI [where m = "9007199254740990" and q = "- 53"]; simp add: pow2_def)
  show "Fin (4503599627370495 / 4503599627370496) - Fin 1 = Fin (- (1 / 4503599627370496))"
    by (simp add: double_arith) (rule fl_eqI [where m = "- 4503599627370496" and q = "- 104"]; simp add: pow2_def)
  show "Fin (- (1 / 4503599627370496)) - Fin (1 / 1099511627776) = Fin (- (4097 / 4503599627370496))"
    by (simp add: double_arith) (rule fl_eqI [where m = "- 4504699138998272" and q = "- 92"]; simp add: pow2_def)
  show "Fin 1 * Fin (- (4097 / 4503599627370496)) = Fin (- (4097 / 4503599627370496))"
    by (simp add: double_arith) (rule fl_eqI [where m = "- 4504699138998272" and q = "- 92"]; simp add: pow2_def)
  show "Fin 0 * Fin (- (4097 / 4503599627370496)) = NegZero"
    by (simp add: double_arith fl_def signed_zero_def signed_inf_def)
  show "Fin 0 * Fin (7 / 36028797018963968) = Fin 0"
    by (simp add: double_arith fl_def signed_zero_def signed_inf_def)
  show "Fin (- (4097 / 4503599627370496)) + Fin (7 / 36028797018963968) = Fin (- (32769 / 36028797018963968))"
    by (simp add: double_arith) (rule fl_eqI [where m = "- 4503737066323968" and q = "- 92"]; simp add: pow2_def)
  show "NegZero + Fin (7 / 36028797018963968) = Fin (7 / 36028797018963968)"
    by (simp add: double_arith) (rule fl_eqI [where m = "7881299347898368" and q = "- 105"]; simp add: pow2_def)
  show "Fin (- (4097 / 4503599627370496)) + Fin 0 = Fin (- (4097 / 4503599627370496))"
    by (simp add: double_arith) (rule fl_eqI [where m = "- 4504699138998272" and q = "- 92"]; simp add: pow2_def)
  show "Fin (- (32769 / 36028797018963968)) + Fin 0 = Fin (- (32769 / 36028797018963968))"
    by (simp add: double_arith) (rule fl_eqI [where m = "- 4503737066323968" and q = "- 92"]; simp add: pow2_def)
  show "Fin (- (4097 / 4503599627370496)) + Fin 1 = Fin (4503599627366399 / 4503599627370496)"
    by (simp add: double_arith) (rule fl_eqI [where m = "9007199254732798" and q = "- 53"]; simp add: pow2_def)
  show "Fin (- (32769 / 36028797018963968)) + Fin (1 / 1099511627776) = Fin (- (1 / 36028797018963968))"
    by (simp add: double_arith) (rule fl_eqI [where m = "- 4503599627370496" and q = "- 107"]; simp add: pow2_def)
  show "Fin (4503599627366399 / 4503599627370496) + Fin (1 / 1099511627776) = Fin (4503599627370495 / 4503599627370496)"
    by (simp add: double_arith) (rule fl_eqI [where m = "9007199254740990" and q = "- 53"]; simp add: pow2_def)
qed

lemma example_tet0:
  "pointSearchLinTet example_point (Vec3 (Fin 1) (Fin 1) (Fin (- 2))) (Vec3 (Fin 0) (Fin 0) (Fin 0)) (Vec3 (Fin 1) (Fin 0) (Fin 0)) (Vec3 (Fin 0) (Fin 1) (Fin 0))
     = Vec3 (Fin (- (2049 / 4503599627370496))) (Fin (2049 / 4503599627370496)) (Fin (2199023255553 / 2199023255552))"
  by (simp add: pointSearchLinTet_def example_point_def Let_def setMinVals_def setMaxVals_def
      min_T_def max_T_def inAABB_def vgreater_def vless_def less_double_def dEPSILON_val
      one_double_def example_cell_arith)

lemma example_tet1:
  "pointSearchLinTet example_point (Vec3 (Fin 1) (Fin 1) (Fin (- 2))) (Vec3 (Fin 1) (Fin 0) (Fin 0)) (Vec3 (Fin 2) (Fin 1) (Fin (- 2))) (Vec3 (Fin 0) (Fin 1) (Fin 0))
     = Vec3 (Fin 0) (Fin (2049 / 4503599627370496)) (Fin (2199023255553 / 2199023255552))"
  by (simp add: pointSearchLinTet_def example_point_def Let_def setMinVals_def setMaxVals_def
      min_T_def max_T_def inAABB_def vgreater_def vless_def less_double_def dEPSILON_val
      one_double_def example_cell_arith)

lemma example_tet2:
  "pointSearchLinTet example_point (Vec3 (Fin 1) (Fin 1) (Fin (- 2))) (Vec3 (Fin 0) (Fin 0) (Fin 0)) (Vec3 (Fin 0) (Fin 1) (Fin 0)) (Vec3 (Fin 0) (Fin 1) (Fin (- 1)))
     = Vec3 (Fin 0) (Fin (4503599627374593 / 4503599627370496)) (Fin (- (2049 / 2251799813685248)))"
  by (simp add: pointSearchLinTet_def example_point_def Let_def setMinVals_def setMaxVals_def
      min_T_def max_T_def inAABB_def vgreater_def vless_def less_double_def dEPSILON_val
      one_double_def example_cell_arith)

lemma example_tet3:
  "pointSearchLinTet example_point (Vec3 (Fin 0) (Fin 0) (Fin 0)) (Vec3 (Fin 1) (Fin 0) (Fin 0)) (Vec3 (Fin 0) (Fin 1) (Fin 0)) (Vec3 (Fin 0) (Fin 0) (Fin 1))
     = Vec3 (Fin (7 / 36028797018963968)) (Fin 1) (Fin (1 / 1099511627776))"
  by (simp add: pointSearchLinTet_def example_point_def Let_def setMinVals_def setMaxVals_def
      min_T_def max_T_def inAABB_def vgreater_def vless_def less_double_def dEPSILON_val
      one_double_def example_cell_arith)

lemma example_box:
  "inAABB example_point
     (setMinVals (setMinVals (setMinVals (setMinVals (setMinVals (setMinVals (setMinVals
        (Vec3 (Fin 1) (Fin 1) (Fin (- 2))) (Vec3 (Fin 1) (Fin 0) (Fin (- 1))))
        (Vec3 (Fin 2) (Fin 1) (Fin (- 2)))) (Vec3 (Fin 1) (Fin 0) (Fin 0)))
        (Vec3 (Fin 0) (Fin 1) (Fin (- 1)))) (Vec3 (Fin 0) (Fin 0) (Fin 0)))
        (Vec3 (Fin 0) (Fin 1) (Fin 0))) (Vec3 (Fin 0) (Fin 0) (Fin 1)))
     (setMaxVals (setMaxVals (setMaxVals (setMaxVals (setMaxVals (setMaxVals (setMaxVals
        (Vec3 (Fin 1) (Fin 1) (Fin (- 2))) (Vec3 (Fin 1) (Fin 0) (Fin (- 1))))
        (Vec3 (Fin 2) (Fin 1) (Fin (- 2)))) (Vec3 (Fin 1) (Fin 0) (Fin 0)))
        (Vec3 (Fin 0) (Fin 1) (Fin (- 1)))) (Vec3 (Fin 0) (Fin 0) (Fin 0)))
        (Vec3 (Fin 0) (Fin 1) (Fin 0))) (Vec3 (Fin 0) (Fin 0) (Fin 1)))"
  by (simp add: example_point_def setMinVals_def setMaxVals_def min_T_def max_T_def inAABB_def
      vgreater_def vless_def less_double_def dEPSILON_val example_cell_arith)

lemma example_accept:
  "\<not> inSimplexEps (Vec3 (Fin (- (2049 / 4503599627370496))) (Fin (2049 / 4503599627370496)) (Fin (2199023255553 / 2199023255552)))"
  "\<not> inSimplexEps (Vec3 (Fin 0) (Fin (2049 / 4503599627370496)) (Fin (2199023255553 / 2199023255552)))"
  "\<not> inSimplexEps (Vec3 (Fin 0) (Fin (4503599627374593 / 4503599627370496)) (Fin (- (2049 / 2251799813685248))))"
  "inSimplexEps (Vec3 (Fin (7 / 36028797018963968)) (Fin 1) (Fin (1 / 1099511627776)))"
  by (simp_all add: inSimplexEps_def isInUnitCube_def less_eq_double_def dEPSILON_val
      zero_double_def one_double_def double_arith(16) example_cell_arith)


lemma example_nodes_plain:
  "plainVec (Vec3 (Fin 1) (Fin 1) (Fin (- 2)))"
  "plainVec (Vec3 (Fin 1) (Fin 0) (Fin (- 1)))"
  "plainVec (Vec3 (Fin 2) (Fin 1) (Fin (- 2)))"
  "plainVec (Vec3 (Fin 1) (Fin 0) (Fin 0))"
  "plainVec (Vec3 (Fin 0) (Fin 1) (Fin (- 1)))"
  "plainVec (Vec3 (Fin 0) (Fin 0) (Fin 0))"
  "plainVec (Vec3 (Fin 0) (Fin 1) (Fin 0))"
  "plainVec (Vec3 (Fin 0) (Fin 0) (Fin 1))"
  by (simp_all add: plainVec_def plainDouble_def round_double_small_ints)

text \<open>
  The last sentence of the claim as first stated (any negative component means "not
  found") fails. In the cell with corners \<open>(1,1,-2)\<close>, \<open>(1,0,-1)\<close>, \<open>(2,1,-2)\<close>, \<open>(1,0,0)\<close>,
  \<open>(0,1,-1)\<close>, \<open>(0,0,0)\<close>, \<open>(0,1,0)\<close>, \<open>(0,0,1)\<close> and for the point
  \<open>(7 / 2 ^ 55, 1, 1 / 2 ^ 40)\<close> the first three rows of the table are rejected and the
  fourth is accepted with \<open>xi = (7 / 2 ^ 55, 1, 1 / 2 ^ 40)\<close>. The first Tet1NL coefficient
  \<^verbatim>\<open>1.0-xi0-xi1-xi2\<close> is computed as \<open>- 1 / 2 ^ 52 - 1 / 2 ^ 40\<close>, because \<^verbatim>\<open>1.0-xi0\<close> rounds
  to \<open>1 - 1 / 2 ^ 52\<close>, and the blend returned has the first component \<open>- 1 / 2 ^ 55\<close>.
\<close>

theorem pointSearchLinHex_negative_found:
  "pointSearchLinHex example_point
      (Vec3 (Fin 1) (Fin 1) (Fin (- 2)))
      (Vec3 (Fin 1) (Fin 0) (Fin (- 1)))
      (Vec3 (Fin 2) (Fin 1) (Fin (- 2)))
      (Vec3 (Fin 1) (Fin 0) (Fin 0))
      (Vec3 (Fin 0) (Fin 1) (Fin (- 1)))
      (Vec3 (Fin 0) (Fin 0) (Fin 0))
      (Vec3 (Fin 0) (Fin 1) (Fin 0))
      (Vec3 (Fin 0) (Fin 0) (Fin 1))
     = Vec3 (Fin (- (1 / 2 ^ 55))) (Fin (1 + 4097 / 2 ^ 52)) (Fin (1 - 1 / 2 ^ 52))
   \<and> pointSearchLinTet example_point (Vec3 (Fin 0) (Fin 0) (Fin 0)) (Vec3 (Fin 1) (Fin 0) (Fin 0))
        (Vec3 (Fin 0) (Fin 1) (Fin 0)) (Vec3 (Fin 0) (Fin 0) (Fin 1))
     = Vec3 (Fin (7 / 2 ^ 55)) (Fin 1) (Fin (1 / 2 ^ 40))
   \<and> inSimplexEps (Vec3 (Fin (7 / 2 ^ 55)) (Fin 1) (Fin (1 / 2 ^ 40)))
   \<and> tetBlend (divtets ! 3) (Vec3 (Fin (7 / 2 ^ 55)) (Fin 1) (Fin (1 / 2 ^ 40)))
     = Vec3 (Fin (- (1 / 2 ^ 55))) (Fin (1 + 4097 / 2 ^ 52)) (Fin (1 - 1 / 2 ^ 52))
   \<and> Fin (- (1 / 2 ^ 55)) < (0::double)"
proof -
  have blend: "tetBlend (divtets ! 3) (Vec3 (Fin (7 / 2 ^ 55)) (Fin 1) (Fin (1 / 2 ^ 40)))
     = Vec3 (Fin (- (1 / 2 ^ 55))) (Fin (1 + 4097 / 2 ^ 52)) (Fin (1 - 1 / 2 ^ 52))"
    by (simp add: divtets_def tetBlend_def basis_Tet1NL_def vadd_def vscale_def
        zero_double_def one_double_def example_cell_arith)
  have search: "searchTets example_point
      [Vec3 (Fin 1) (Fin 1) (Fin (- 2)), Vec3 (Fin 1) (Fin 0) (Fin (- 1)), Vec3 (Fin 2) (Fin 1) (Fin (- 2)), Vec3 (Fin 1) (Fin 0) (Fin 0), Vec3 (Fin 0) (Fin 1) (Fin (- 1)), Vec3 (Fin 0) (Fin 0) (Fin 0), Vec3 (Fin 0) (Fin 1) (Fin 0), Vec3 (Fin 0) (Fin 0) (Fin 1)]
      divtets = tetBlend (divtets ! 3) (Vec3 (Fin (7 / 2 ^ 55)) (Fin 1) (Fin (1 / 2 ^ 40)))"
    unfolding divtets_def zero_double_def one_double_def
    by (simp add: Let_def hexVertex_corners [OF example_nodes_plain] example_tet0 example_tet1
        example_tet2 example_tet3 example_accept)
  have hex: "pointSearchLinHex example_point
      (Vec3 (Fin 1) (Fin 1) (Fin (- 2)))
      (Vec3 (Fin 1) (Fin 0) (Fin (- 1)))
      (Vec3 (Fin 2) (Fin 1) (Fin (- 2)))
      (Vec3 (Fin 1) (Fin 0) (Fin 0))
      (Vec3 (Fin 0) (Fin 1) (Fin (- 1)))
      (Vec3 (Fin 0) (Fin 0) (Fin 0))
      (Vec3 (Fin 0) (Fin 1) (Fin 0))
      (Vec3 (Fin 0) (Fin 0) (Fin 1))
     = Vec3 (Fin (- (1 / 2 ^ 55))) (Fin (1 + 4097 / 2 ^ 52)) (Fin (1 - 1 / 2 ^ 52))"
    unfolding pointSearchLinHex_def
    by (simp only: Let_def example_box search blend simp_thms if_False)
  have acc: "inSimplexEps (Vec3 (Fin (7 / 2 ^ 55)) (Fin 1) (Fin (1 / 2 ^ 40)))"
    using example_accept(4) by simp
  have tet: "pointSearchLinTet example_point (Vec3 (Fin 0) (Fin 0) (Fin 0)) (Vec3 (Fin 1) (Fin 0) (Fin 0))
        (Vec3 (Fin 0) (Fin 1) (Fin 0)) (Vec3 (Fin 0) (Fin 0) (Fin 1))
     = Vec3 (Fin (7 / 2 ^ 55)) (Fin 1) (Fin (1 / 2 ^ 40))"
    using example_tet3 by simp
  have neg: "Fin (- (1 / 2 ^ 55)) < (0::double)"
    by (simp add: less_double_def zero_double_def)
  from hex tet acc blend neg show ?thesis by (intro conjI)
qed

subsection \<open>Hexahedron edge intersections\<close>








subsection \<open>Ray and triangle\<close>

lemma sqrt_d_one: "sqrt_d (Fin 1) = Fin 1"
  unfolding sqrt_d_def
  by simp (rule fl_eqI [where m = 4503599627370496 and q = "- 52"]; simp add: pow2_def)

lemma small_triangle_arith:
  "Fin 0 + Fin 0 = Fin 0"
  "Fin 0 + Fin (- 1) = Fin (- 1)"
  "Fin (- 1) - Fin 0 = Fin (- 1)"
  "Fin 0 * Fin 0 = Fin 0"
  "Fin (- 1) * Fin (- 1) = Fin 1"
  "Fin 0 + Fin 1 = Fin 1"
  "Fin 1 / Fin 1 = Fin 1"
  "Fin 0 * Fin 1 = Fin 0"
  "Fin (- 1) * Fin 1 = Fin (- 1)"
  "Fin 1 / Fin (- 1) = Fin (- 1)"
  "Fin (1 / 1048576) - Fin 0 = Fin (1 / 1048576)"
  "Fin 0 - Fin 0 = Fin 0"
  "Fin (- 1) * Fin (1 / 1048576) = Fin (- (1 / 1048576))"
  "Fin 0 - Fin (- (1 / 1048576)) = Fin (1 / 1048576)"
  "Fin (- 1) * Fin 0 = NegZero"
  "NegZero - Fin 0 = NegZero"
  "Fin 0 * Fin (1 / 1048576) = Fin 0"
  "Fin (1 / 1048576) * Fin (1 / 1048576) = Fin (1 / 1099511627776)"
  "Fin 0 * NegZero = NegZero"
  "Fin (1 / 1099511627776) + NegZero = Fin (1 / 1099511627776)"
  "Fin (1 / 1099511627776) + Fin 0 = Fin (1 / 1099511627776)"
  "Fin (1 / 1099511627776) - Fin 0 = Fin (1 / 1099511627776)"
proof -
  show "Fin 0 + Fin 0 = Fin 0"
    by (simp add: double_arith fl_def signed_zero_def signed_inf_def)
  show "Fin 0 + Fin (- 1) = Fin (- 1)"
    by (simp add: double_arith) (rule fl_eqI [where m = "- 4503599627370496" and q = "- 52"]; simp add: pow2_def)
  show "Fin (- 1) - Fin 0 = Fin (- 1)"
    by (simp add: double_arith) (rule fl_eqI [where m = "- 4503599627370496" and q = "- 52"]; simp add: pow2_def)
  show "Fin 0 * Fin 0 = Fin 0"
    by (simp add: double_arith fl_def signed_zero_def signed_inf_def)
  show "Fin (- 1) * Fin (- 1) = Fin 1"
    by (simp add: double_arith) (rule fl_eqI [where m = "4503599627370496" and q = "- 52"]; simp add: pow2_def)
  show "Fin 0 + Fin 1 = Fin 1"
    by (simp add: double_arith) (rule fl_eqI [where m = "4503599627370496" and q = "- 52"]; simp add: pow2_def)
  show "Fin 1 / Fin 1 = Fin 1"
    by (simp add: double_arith) (rule fl_eqI [where m = "4503599627370496" and q = "- 52"]; simp add: pow2_def)
  show "Fin 0 * Fin 1 = Fin 0"
    by (simp add: double_arith fl_def signed_zero_def signed_inf_def)
  show "Fin (- 1) * Fin 1 = Fin (- 1)"
    by (simp add: double_arith) (rule fl_eqI [where m = "- 4503599627370496" and q = "- 52"]; simp add: pow2_def)
  show "Fin 1 / Fin (- 1) = Fin (- 1)"
    by (simp add: double_arith) (rule fl_eqI [where m = "- 4503599627370496" and q = "- 52"]; simp add: pow2_def)
  show "Fin (1 / 1048576) - Fin 0 = Fin (1 / 1048576)"
    by (simp add: double_arith) (rule fl_eqI [where m = "4503599627370496" and q = "- 72"]; simp add: pow2_def)
  show "Fin 0 - Fin 0 = Fin 0"
    by (simp add: double_arith fl_def signed_zero_def signed_inf_def)
  show "Fin (- 1) * Fin (1 / 1048576) = Fin (- (1 / 1048576))"
    by (simp add: double_arith) (rule fl_eqI [where m = "- 4503599627370496" and q = "- 72"]; simp add: pow2_def)
  show "Fin 0 - Fin (- (1 / 1048576)) = Fin (1 / 1048576)"
    by (simp add: double_arith) (rule fl_eqI [where m = "4503599627370496" and q = "- 72"]; simp add: pow2_def)
  show "Fin (- 1) * Fin 0 = NegZero"
    by (simp add: double_arith fl_def signed_zero_def signed_inf_def)
  show "NegZero - Fin 0 = NegZero"
    by (simp add: double_arith fl_def signed_zero_def signed_inf_def)
  show "Fin 0 * Fin (1 / 1048576) = Fin 0"
    by (simp add: double_arith fl_def signed_zero_def signed_inf_def)
  show "Fin (1 / 1048576) * Fin (1 / 1048576) = Fin (1 / 1099511627776)"
    by (simp add: double_arith) (rule fl_eqI [where m = "4503599627370496" and q = "- 92"]; simp add: pow2_def)
  show "Fin 0 * NegZero = NegZero"
    by (simp add: double_arith fl_def signed_zero_def signed_inf_def)
  show "Fin (1 / 1099511627776) + NegZero = Fin (1 / 1099511627776)"
    by (simp add: double_arith) (rule fl_eqI [where m = "4503599627370496" and q = "- 92"]; simp add: pow2_def)
  show "Fin (1 / 1099511627776) + Fin 0 = Fin (1 / 1099511627776)"
    by (simp add: double_arith) (rule fl_eqI [where m = "4503599627370496" and q = "- 92"]; simp add: pow2_def)
  show "Fin (1 / 1099511627776) - Fin 0 = Fin (1 / 1099511627776)"
    by (simp add: double_arith) (rule fl_eqI [where m = "4503599627370496" and q = "- 92"]; simp add: pow2_def)
qed

text \<open>
  Claim C6 at a small triangle. The ray from \<open>(2 ^ - 22, 2 ^ - 22, 1)\<close> toward
  \<open>(0, 0, - 1)\<close> passes through the triangle \<open>(0,0,0), (2 ^ - 20, 0, 0), (0, 2 ^ - 20, 0)\<close> at
  distance 1, at its point \<open>(u, v) = (1/4, 1/4)\<close>. The determinant \<^verbatim>\<open>e1.dot(p)\<close> is \<open>2 ^ - 40\<close>,
  within \<^verbatim>\<open>dEPSILON\<close> of zero, so \<^verbatim>\<open>intersectsTri\<close> takes the ray for parallel to the triangle's
  plane and returns \<open>(-1,-1,-1)\<close>. All the arithmetic at this input is exact.
\<close>

theorem intersectsTri_small_triangle:
  "mkRay (Vec3 (Fin (1 / 2 ^ 22)) (Fin (1 / 2 ^ 22)) (Fin 1)) (Vec3 (Fin 0) (Fin 0) (Fin (- 1)))
     = Inr example_ray
   \<and> passesThrough example_ray (Vec3 (Fin 0) (Fin 0) (Fin 0)) (Vec3 (Fin (1 / 2 ^ 20)) (Fin 0) (Fin 0))
        (Vec3 (Fin 0) (Fin (1 / 2 ^ 20)) (Fin 0)) 1 (1 / 4) (1 / 4)
   \<and> intersectsTri example_ray (Vec3 (Fin 0) (Fin 0) (Fin 0)) (Vec3 (Fin (1 / 2 ^ 20)) (Fin 0) (Fin 0))
        (Vec3 (Fin 0) (Fin (1 / 2 ^ 20)) (Fin 0)) = (Fin (- 1), Fin (- 1), Fin (- 1))"
proof -
  have c: "mkRay (Vec3 (Fin (1 / 2 ^ 22)) (Fin (1 / 2 ^ 22)) (Fin 1)) (Vec3 (Fin 0) (Fin 0) (Fin (- 1)))
     = Inr example_ray"
    by (simp add: mkRay_def setDirection_def isZero_def equalsEpsilon_def fabs_def dEPSILON_val
        less_eq_double_def less_double_def deq_def norm_v_def len_def sqrt_d_one inv_v_def vscale_def
        Let_def example_ray_def zero_double_def one_double_def small_triangle_arith)
  have p: "passesThrough example_ray (Vec3 (Fin 0) (Fin 0) (Fin 0)) (Vec3 (Fin (1 / 2 ^ 20)) (Fin 0) (Fin 0))
        (Vec3 (Fin 0) (Fin (1 / 2 ^ 20)) (Fin 0)) 1 (1 / 4) (1 / 4)"
    by (simp add: passesThrough_def rayPoint_def triPoint_def example_ray_def)
  have i: "intersectsTri example_ray (Vec3 (Fin 0) (Fin 0) (Fin 0)) (Vec3 (Fin (1 / 2 ^ 20)) (Fin 0) (Fin 0))
        (Vec3 (Fin 0) (Fin (1 / 2 ^ 20)) (Fin 0)) = (Fin (- 1), Fin (- 1), Fin (- 1))"
    by (simp add: intersectsTri_def example_ray_def vsub_def cross_def dot_def equalsEpsilon_def
        fabs_def dEPSILON_val less_eq_double_def Let_def zero_double_def one_double_def
        double_arith(16) small_triangle_arith)
  from c p i show ?thesis by simp
qed

subsection \<open>Shared matrices\<close>

lemma memSize_zero: "mat_n M = 0 \<or> mat_m M = 0 \<Longrightarrow> memSize szT M = 0"
  by (auto simp: memSize_def)

lemma memSize_nonzero: "memSize szT M \<noteq> 0 \<Longrightarrow> mat_n M \<noteq> 0 \<and> mat_m M \<noteq> 0"
  using memSize_zero by blast

lemma openLoop_fields:
  "openLoop c isCreator fd s M = (fd', s', M') \<Longrightarrow>
     mat_n M' = mat_n M \<and> mat_m M' = mat_m M \<and> mat_isShared M' = mat_isShared M
     \<and> mat_data M' = mat_data M \<and> mat_n_actual M' = mat_n_actual M"
proof (induction c isCreator fd s M rule: openLoop.induct)
  case (1 c isCreator fd s M)
  show ?case
  proof (cases "c < 100000 \<and> isCreator \<and> fd = EEXIST")
    case True
    then show ?thesis
      using "1.IH" [OF True refl refl] "1.prems"
      by (subst (asm) openLoop.simps) (simp add: chooseSharedName_def Let_def)
  next
    case False
    then show ?thesis using "1.prems" by (subst (asm) openLoop.simps) auto
  qed
qed

lemma createShared_fields:
  assumes "createShared szT s M = (e, s', M')"
  shows "mat_n M' = mat_n M \<and> mat_m M' = mat_m M \<and> mat_isShared M' = mat_isShared M
     \<and> mat_data M' = mat_data M \<and> mat_n_actual M' = mat_n_actual M"
proof -
  let ?M1 = "if mat_sharedname M = [] then chooseSharedName s 0 M else M"
  let ?r = "shm_open s (c_str (mat_sharedname ?M1)) (mat_sharedname M = [])"
  let ?l = "openLoop 1 (mat_sharedname M = []) (fst ?r) (snd ?r) ?M1"
  have M': "M' = snd (snd ?l)"
    using assms by (auto simp: createShared_def Let_def split: if_splits)
  have "?l = (fst ?l, fst (snd ?l), snd (snd ?l))" by simp
  from openLoop_fields [OF this] show ?thesis
    unfolding M' by (simp add: chooseSharedName_def Let_def)
qed

lemma createShared_ok_size:
  "createShared szT s M = (None, s', M') \<Longrightarrow> memSize szT M \<noteq> 0"
  by (auto simp: createShared_def Let_def split: if_splits)

lemma resize_fields:
  "mat_n (resize r M) = mat_n M" "mat_m (resize r M) = mat_m M"
  "mat_isShared (resize r M) = mat_isShared M"
  "mat_name (resize r M) = mat_name M" "mat_sharedname (resize r M) = mat_sharedname M"
  by (simp_all add: resize_def Let_def)

lemma resize_data: "mat_data M \<noteq> None \<or> mat_isShared M \<Longrightarrow> mat_data (resize r M) \<noteq> None"
  by (auto simp: resize_def Let_def)

lemma shared_inv_resize: "shared_inv M \<Longrightarrow> shared_inv (resize r M)"
  using resize_data [of M r] by (auto simp: shared_inv_def resize_fields)

lemma setShared_inv:
  assumes "shared_inv M" and "setShared szT val s M = (e, s', M')"
  shows "shared_inv M'"
proof (cases "mat_data M \<noteq> None \<and> val = mat_isShared M")
  case True
  with assms show ?thesis by (simp add: setShared_def)
next
  case False
  show ?thesis
  proof (cases val)
    case True
    show ?thesis
    proof (cases "memSize szT M = 0")
      case True
      with \<open>val\<close> False assms show ?thesis by (auto simp: setShared_def)
    next
      case nz: False
      obtain e1 s1 M1 where c: "createShared szT s (M\<lparr>mat_n_actual := mat_n M\<rparr>) = (e1, s1, M1)"
        by (cases "createShared szT s (M\<lparr>mat_n_actual := mat_n M\<rparr>)") auto
      from createShared_fields [OF c]
      have f: "mat_n M1 = mat_n M" "mat_m M1 = mat_m M" "mat_isShared M1 = mat_isShared M"
        "mat_data M1 = mat_data M"
        by simp_all
      from nz have "mat_n M \<noteq> 0 \<and> mat_m M \<noteq> 0" by (rule memSize_nonzero)
      with assms False \<open>val\<close> nz c f show ?thesis
        by (cases e1) (auto simp: setShared_def Let_def shared_inv_def)
    qed
  next
    case nv: False
    have "shared_inv (resize 0 M)" using assms(1) by (rule shared_inv_resize)
    with assms False nv show ?thesis
      by (auto simp: setShared_def closeShared_def Let_def shared_inv_def split: if_splits)
  qed
qed

lemma newMatrix_inv: "newMatrix szT s name type n m sh = (e, s', M) \<Longrightarrow> shared_inv M"
  unfolding newMatrix_def by (erule setShared_inv [rotated]) (simp add: shared_inv_def)

lemma unpickleMatrix_inv:
  assumes "unpickleMatrix szT s name type sharedname contents n m = (None, s', M)"
  shows "shared_inv M"
proof -
  let ?M0 = "\<lparr>mat_name = name, mat_type = type, mat_sharedname = sharedname, mat_data = None,
              mat_n_actual = n, mat_n = n, mat_m = m, mat_isShared = True\<rparr> :: 'a Matrix"
  obtain e1 s1 M1 where c: "createShared szT s ?M0 = (e1, s1, M1)"
    by (cases "createShared szT s ?M0") auto
  with assms have e1: "e1 = None" and M: "M = M1\<lparr>mat_data := Some contents\<rparr>"
    by (auto simp: unpickleMatrix_def split: option.splits)
  from c e1 have "memSize szT ?M0 \<noteq> 0" by (auto dest: createShared_ok_size)
  then have "n \<noteq> 0 \<and> m \<noteq> 0" by (auto dest: memSize_nonzero)
  with createShared_fields [OF c] show ?thesis
    by (simp add: M shared_inv_def)
qed

lemma setN_inv: "shared_inv M \<Longrightarrow> setN k M = (e, M') \<Longrightarrow> shared_inv M'"
  by (auto simp: setN_def checkNotShared_def shared_inv_def resize_fields split: if_splits)

lemma removeRow_inv: "shared_inv M \<Longrightarrow> removeRow k M = (e, M') \<Longrightarrow> shared_inv M'"
  by (auto simp: removeRow_def setN_def checkNotShared_def shared_inv_def resize_fields Let_def
      split: if_splits option.splits)

lemma reachable_shared_inv: "reachable szT M \<Longrightarrow> shared_inv M"
proof (induction rule: reachable.induct)
  case (r_new s name type n m sh s' M)
  then show ?case by (rule newMatrix_inv)
next
  case (r_unpickle s name type sharedname contents n m s' M)
  then show ?case by (rule unpickleMatrix_inv)
next
  case (r_setShared M val s e s' M')
  then show ?case using setShared_inv by blast
next
  case (r_clear M s e s' M')
  then show ?case
    by (auto simp: clear_def closeShared_def Let_def shared_inv_def split: if_splits)
next
  case (r_setN M newn e M')
  then show ?case using setN_inv by blast
next
  case (r_setM M newm e M')
  then show ?case
    by (auto simp: setM_def checkNotShared_def shared_inv_def Let_def split: if_splits)
next
  case (r_addRows M num e M')
  then show ?case unfolding addRows_def using setN_inv by blast
next
  case (r_reserveRows M num e M')
  then show ?case
    by (auto simp: reserveRows_def checkNotShared_def shared_inv_def resize_fields split: if_splits)
next
  case (r_removeRow M k e M')
  then show ?case using removeRow_inv by blast
next
  case (r_append_value M t c e M')
  then show ?case
    by (auto simp: append_value_def addRows_def setN_def set_data_def checkNotShared_def
        shared_inv_def resize_fields split: if_splits)
next
  case (r_append_matrix M T e M')
  then show ?case
    by (auto simp: append_matrix_def addRows_def setN_def checkNotShared_def
        shared_inv_def resize_fields Let_def split: if_splits)
next
  case (r_swapEndian M swap)
  then show ?case by (auto simp: swapEndian_def shared_inv_def Let_def)
next
  case (r_reorderColumns M orderinds e M')
  then show ?case
    by (auto simp: reorderColumns_def shared_inv_def split: option.splits)
next
  case (r_set_data M i t)
  then show ?case by (auto simp: set_data_def shared_inv_def)
qed

text \<open>
  Claim C4. For every matrix in shared mode, appending a single value or another matrix
  throws a \<open>MemException\<close> instead of reallocating, and the matrix is left exactly as it
  was: same row count, same column count, same elements.
\<close>

theorem append_shared_throws:
  assumes "mat_isShared M"
  shows "append_value t c M
           = (Some (MemException ''Operation may only be performed on non-shared matrices''), M)
       \<and> (\<exists>msg. append_matrix szT T M = (Some (MemException msg), M))"
  using assms
  by (auto simp: append_value_def append_matrix_def addRows_def setN_def checkNotShared_def Let_def)

theorem append_shared_throws_witness:
  "append_value (7 :: 32 word) 0
     \<lparr>mat_name = ''a'', mat_type = [], mat_sharedname = ''__viz__1_2_a'', mat_data = Some [1, 2],
      mat_n_actual = 2, mat_n = 2, mat_m = 1, mat_isShared = True\<rparr>
   = (Some (MemException ''Operation may only be performed on non-shared matrices''),
      \<lparr>mat_name = ''a'', mat_type = [], mat_sharedname = ''__viz__1_2_a'', mat_data = Some [1, 2],
       mat_n_actual = 2, mat_n = 2, mat_m = 1, mat_isShared = True\<rparr>)"
  using append_shared_throws [of
     "\<lparr>mat_name = ''a'', mat_type = [], mat_sharedname = ''__viz__1_2_a'', mat_data = Some [1, 2 :: 32 word],
      mat_n_actual = 2, mat_n = 2, mat_m = 1, mat_isShared = True\<rparr>" 7 0]
  by simp

text \<open>
  Claim C8. For every matrix whose storage is allocated, \<open>setShared\<close> with the mode the
  matrix already holds does nothing: the matrix and the system state (the shared
  segments that exist) are returned unchanged. After a \<open>setShared(true)\<close> that succeeded
  the matrix is allocated and shared, so a second \<open>setShared(true)\<close> allocates nothing,
  copies nothing and leaves the segment name as it is.
\<close>

theorem setShared_same_mode_noop:
  "(mat_data M \<noteq> None \<longrightarrow> setShared szT (mat_isShared M) s M = (None, s, M))
   \<and> (setShared szT True s M = (None, s', M') \<longrightarrow>
        mat_data M' \<noteq> None \<and> mat_isShared M' \<and> setShared szT True s' M' = (None, s', M'))"
proof -
  have a: "mat_data M \<noteq> None \<longrightarrow> setShared szT (mat_isShared M) s M = (None, s, M)"
    by (simp add: setShared_def)
  have b: "mat_data M' \<noteq> None \<and> mat_isShared M'" if ok: "setShared szT True s M = (None, s', M')"
  proof (cases "mat_data M \<noteq> None \<and> mat_isShared M")
    case True
    with ok show ?thesis by (auto simp: setShared_def)
  next
    case False
    with ok show ?thesis
      by (auto simp: setShared_def Let_def split: if_splits prod.splits option.splits)
  qed
  have c: "setShared szT True s' M' = (None, s', M')" if "mat_data M' \<noteq> None \<and> mat_isShared M'"
    using that by (auto simp: setShared_def)
  from a b c show ?thesis by blast
qed

lemma example_setShared:
  "setShared 8 True example_os example_local
     = (None, example_os\<lparr>shm_objects := [''__viz__7_42_m_x'']\<rparr>,
        example_local\<lparr>mat_sharedname := ''__viz__7_42_m_x'', mat_isShared := True\<rparr>)"
  by (simp add: setShared_def example_os_def example_local_def memSize_def createShared_def
      chooseSharedName_def show_nat.simps digit_char_def MAXSHMNAMLEN_def shm_open_def c_str_def
      openLoop.simps Let_def memcpy_def)

theorem setShared_same_mode_noop_witness:
  "setShared 8 True example_os example_local
     = (None, example_os\<lparr>shm_objects := [''__viz__7_42_m_x'']\<rparr>,
        example_local\<lparr>mat_sharedname := ''__viz__7_42_m_x'', mat_isShared := True\<rparr>)
   \<and> setShared 8 True (example_os\<lparr>shm_objects := [''__viz__7_42_m_x'']\<rparr>)
        (example_local\<lparr>mat_sharedname := ''__viz__7_42_m_x'', mat_isShared := True\<rparr>)
     = (None, example_os\<lparr>shm_objects := [''__viz__7_42_m_x'']\<rparr>,
        example_local\<lparr>mat_sharedname := ''__viz__7_42_m_x'', mat_isShared := True\<rparr>)"
  using setShared_same_mode_noop [of example_local 8 example_os
      "example_os\<lparr>shm_objects := [''__viz__7_42_m_x'']\<rparr>"
      "example_local\<lparr>mat_sharedname := ''__viz__7_42_m_x'', mat_isShared := True\<rparr>"]
    example_setShared
  by blast

text \<open>
  Claim C10. A matrix may be created with zero rows (the constructor with
  \<open>isShared = false\<close> succeeds and allocates nothing). For every matrix that the
  operations can produce and that has zero rows or zero columns, \<open>memSize\<close> is 0, the
  matrix is not shared, and \<open>setShared(true)\<close> throws
  \<open>MemException("Cannot make empty matrix shared")\<close>, leaving the matrix and the set of
  shared segments unchanged; constructing such a matrix as shared throws the same
  exception. So an empty matrix is never in shared mode.
\<close>

theorem setShared_empty_throws:
  fixes M :: "'a::zero Matrix"
  assumes "reachable szT M" and "mat_n M = 0 \<or> mat_m M = 0"
  shows "memSize szT M = 0 \<and> \<not> mat_isShared M
       \<and> setShared szT True s M = (Some (MemException ''Cannot make empty matrix shared''), s, M)
       \<and> newMatrix szT s name type 0 m False
           = (None, s, \<lparr>mat_name = name, mat_type = type, mat_sharedname = [], mat_data = None,
                mat_n_actual = 0, mat_n = 0, mat_m = m, mat_isShared = False\<rparr> :: 'a::zero Matrix)
       \<and> fst (newMatrix szT s name type (mat_n M) (mat_m M) True :: exn option \<times> os \<times> 'a::zero Matrix)
           = Some (MemException ''Cannot make empty matrix shared'')"
proof -
  from assms(2) have z: "memSize szT M = 0" by (rule memSize_zero)
  from reachable_shared_inv [OF assms(1)] assms(2) have ns: "\<not> mat_isShared M"
    by (auto simp: shared_inv_def)
  from z ns have t: "setShared szT True s M = (Some (MemException ''Cannot make empty matrix shared''), s, M)"
    by (simp add: setShared_def)
  have n: "newMatrix szT s name type 0 m False
           = (None, s, \<lparr>mat_name = name, mat_type = type, mat_sharedname = [], mat_data = None,
                mat_n_actual = 0, mat_n = 0, mat_m = m, mat_isShared = False\<rparr> :: 'a::zero Matrix)"
    by (simp add: newMatrix_def setShared_def resize_def closeShared_def)
  have "memSize szT (\<lparr>mat_name = name, mat_type = type, mat_sharedname = [], mat_data = None,
        mat_n_actual = 0, mat_n = mat_n M, mat_m = mat_m M, mat_isShared = False\<rparr> :: 'a::zero Matrix) = 0"
    using assms(2) by (intro memSize_zero) simp
  then have c: "fst (newMatrix szT s name type (mat_n M) (mat_m M) True :: exn option \<times> os \<times> 'a::zero Matrix)
           = Some (MemException ''Cannot make empty matrix shared'')"
    by (simp add: newMatrix_def setShared_def)
  from z ns t n c show ?thesis by blast
qed

theorem setShared_empty_throws_witness:
  "newMatrix 8 example_os ''e'' [] 0 1 False = (None, example_os, example_empty)
   \<and> setShared 8 True example_os example_empty
       = (Some (MemException ''Cannot make empty matrix shared''), example_os, example_empty)"
proof -
  have n: "newMatrix 8 example_os ''e'' [] 0 1 False = (None, example_os, example_empty)"
    by (simp add: newMatrix_def setShared_def resize_def closeShared_def example_empty_def)
  then have r: "reachable 8 example_empty" by (rule r_new)
  have "mat_n example_empty = 0 \<or> mat_m example_empty = 0" by (simp add: example_empty_def)
  from setShared_empty_throws [OF r this, of example_os] n show ?thesis by blast
qed

subsection \<open>Endian swapping\<close>

lemma bit_byte_at: "bit (byte_at w k) n \<longleftrightarrow> n < 8 \<and> bit w (8 * k + n)"
  by (simp add: byte_at_def bit_simps ac_simps)

lemma bit_push_byte_at:
  "bit (push_bit j (byte_at w k)) n \<longleftrightarrow>
     j \<le> n \<and> n < j + 8 \<and> n < LENGTH('a) \<and> bit w (8 * k + (n - j))"
  for w :: "'a::len word"
  by (auto simp: bit_simps bit_byte_at)

lemma bit_swapEndian32:
  "bit (swapEndian32 t) n \<longleftrightarrow> n < 32 \<and> bit t (8 * (3 - n div 8) + n mod 8)"
proof -
  consider "n < 8" | "8 \<le> n" "n < 16" | "16 \<le> n" "n < 24" | "24 \<le> n" "n < 32" | "32 \<le> n"
    by linarith
  then show ?thesis
  proof cases
    case 1
    then have "n div 8 = 0" "n mod 8 = n" by simp_all
    with 1 show ?thesis
      using bit_push_byte_at [of 0 t 3 n]
      by (simp add: swapEndian32_def bit_or_iff bit_push_byte_at)
  next
    case 2
    then have "n div 8 = 1" "n mod 8 = n - 8" by (simp_all add: div_nat_eqI mod_if)
    with 2 show ?thesis
      using bit_push_byte_at [of 0 t 3 n]
      by (simp add: swapEndian32_def bit_or_iff bit_push_byte_at)
  next
    case 3
    then have "n div 8 = 2" "n mod 8 = n - 16" by (simp_all add: div_nat_eqI mod_nat_eqI)
    with 3 show ?thesis
      using bit_push_byte_at [of 0 t 3 n]
      by (simp add: swapEndian32_def bit_or_iff bit_push_byte_at)
  next
    case 4
    then have "n div 8 = 3" "n mod 8 = n - 24" by (simp_all add: div_nat_eqI mod_nat_eqI)
    with 4 show ?thesis
      using bit_push_byte_at [of 0 t 3 n]
      by (simp add: swapEndian32_def bit_or_iff bit_push_byte_at)
  next
    case 5
    then show ?thesis
      using bit_push_byte_at [of 0 t 3 n]
      by (simp add: swapEndian32_def bit_or_iff bit_push_byte_at)
  qed
qed

lemma bit_swapEndian64:
  "bit (swapEndian64 t) n \<longleftrightarrow> n < 64 \<and> bit t (8 * (7 - n div 8) + n mod 8)"
proof -
  consider "n < 8" | "8 \<le> n" "n < 16" | "16 \<le> n" "n < 24" | "24 \<le> n" "n < 32" | "32 \<le> n" "n < 40" | "40 \<le> n" "n < 48" | "48 \<le> n" "n < 56" | "56 \<le> n" "n < 64" | "64 \<le> n"
    by linarith
  then show ?thesis
  proof cases
    case 1
    then have "n div 8 = 0" "n mod 8 = n" by simp_all
    with 1 show ?thesis
      by (simp add: swapEndian64_def bit_or_iff bit_push_byte_at bit_byte_at)
  next
    case 2
    then have "n div 8 = 1" "n mod 8 = n - 8" by (simp_all add: div_nat_eqI mod_nat_eqI)
    with 2 show ?thesis
      by (simp add: swapEndian64_def bit_or_iff bit_push_byte_at bit_byte_at)
  next
    case 3
    then have "n div 8 = 2" "n mod 8 = n - 16" by (simp_all add: div_nat_eqI mod_nat_eqI)
    with 3 show ?thesis
      by (simp add: swapEndian64_def bit_or_iff bit_push_byte_at bit_byte_at)
  next
    case 4
    then have "n div 8 = 3" "n mod 8 = n - 24" by (simp_all add: div_nat_eqI mod_nat_eqI)
    with 4 show ?thesis
      by (simp add: swapEndian64_def bit_or_iff bit_push_byte_at bit_byte_at)
  next
    case 5
    then have "n div 8 = 4" "n mod 8 = n - 32" by (simp_all add: div_nat_eqI mod_nat_eqI)
    with 5 show ?thesis
      by (simp add: swapEndian64_def bit_or_iff bit_push_byte_at bit_byte_at)
  next
    case 6
    then have "n div 8 = 5" "n mod 8 = n - 40" by (simp_all add: div_nat_eqI mod_nat_eqI)
    with 6 show ?thesis
      by (simp add: swapEndian64_def bit_or_iff bit_push_byte_at bit_byte_at)
  next
    case 7
    then have "n div 8 = 6" "n mod 8 = n - 48" by (simp_all add: div_nat_eqI mod_nat_eqI)
    with 7 show ?thesis
      by (simp add: swapEndian64_def bit_or_iff bit_push_byte_at bit_byte_at)
  next
    case 8
    then have "n div 8 = 7" "n mod 8 = n - 56" by (simp_all add: div_nat_eqI mod_nat_eqI)
    with 8 show ?thesis
      by (simp add: swapEndian64_def bit_or_iff bit_push_byte_at bit_byte_at)
  next
    case 9
    then show ?thesis
      by (simp add: swapEndian64_def bit_or_iff bit_push_byte_at bit_byte_at)
  qed
qed

lemma byte_index_twice:
  fixes n b :: nat
  assumes "n < 8 * b"
  shows "8 * (b - 1 - n div 8) + n mod 8 < 8 * b"
    and "8 * (b - 1 - (8 * (b - 1 - n div 8) + n mod 8) div 8) + (8 * (b - 1 - n div 8) + n mod 8) mod 8 = n"
proof -
  from assms have q: "n div 8 < b" by (simp add: less_mult_imp_div_less mult.commute)
  then have "8 * (b - 1 - n div 8) \<le> 8 * (b - 1)" by simp
  moreover have "n mod 8 < 8" by simp
  ultimately show "8 * (b - 1 - n div 8) + n mod 8 < 8 * b" using q by linarith
  have d: "(8 * (b - 1 - n div 8) + n mod 8) div 8 = b - 1 - n div 8" by simp
  have m: "(8 * (b - 1 - n div 8) + n mod 8) mod 8 = n mod 8" by simp
  from q have "b - 1 - (b - 1 - n div 8) = n div 8" by simp
  then show "8 * (b - 1 - (8 * (b - 1 - n div 8) + n mod 8) div 8) + (8 * (b - 1 - n div 8) + n mod 8) mod 8 = n"
    unfolding d m by simp
qed

lemma swapEndian32_involution: "swapEndian32 (swapEndian32 t) = t"
proof (rule bit_word_eqI)
  fix n assume "n < LENGTH(32)"
  then have n: "n < 8 * 4" by simp
  from byte_index_twice [OF n] n show "bit (swapEndian32 (swapEndian32 t)) n \<longleftrightarrow> bit t n"
    by (simp add: bit_swapEndian32)
qed

lemma swapEndian64_involution: "swapEndian64 (swapEndian64 t) = t"
proof (rule bit_word_eqI)
  fix n assume "n < LENGTH(64)"
  then have n: "n < 8 * 8" by simp
  from byte_index_twice [OF n] n show "bit (swapEndian64 (swapEndian64 t)) n \<longleftrightarrow> bit t n"
    by (simp add: bit_swapEndian64)
qed

lemma swapEndian32_example: "swapEndian32 0x11223344 = 0x44332211"
  by (simp add: swapEndian32_def byte_at_def)

lemma swapEndian64_example: "swapEndian64 0x1122334455667788 = 0x8877665544332211"
  by (simp add: swapEndian64_def byte_at_def)

lemma swapEndian_twice:
  assumes "\<And>x. swap (swap x) = x"
  shows "swapEndian swap (swapEndian swap M) = M"
proof -
  have l: "map swap (take k (map swap (take k d) @ drop k d)) @ drop k (map swap (take k d) @ drop k d) = d"
    for k and d :: "'a list"
  proof (cases "k \<le> length d")
    case True
    then show ?thesis by (simp add: assms comp_def)
  next
    case False
    then show ?thesis by (simp add: assms comp_def)
  qed
  define k where "k = unat (mat_n M * mat_m M)"
  define f where "f = (\<lambda>d::'a list. map swap (take k d) @ drop k d)"
  have ff: "f (f d) = d" for d
    unfolding f_def by (rule l)
  have 1: "swapEndian swap M = M\<lparr>mat_data := map_option f (mat_data M)\<rparr>"
    by (simp add: swapEndian_def Let_def f_def k_def)
  have 2: "swapEndian swap (M\<lparr>mat_data := map_option f (mat_data M)\<rparr>)
         = M\<lparr>mat_data := map_option f (map_option f (mat_data M))\<rparr>"
    by (simp add: swapEndian_def Let_def f_def k_def)
  have 3: "map_option f (map_option f x) = x" for x
    by (cases x) (simp_all add: ff)
  show ?thesis
    unfolding 1 2 3 by simp
qed

text \<open>
  Claim C7. For every element of each supported element type (\<open>real\<close>: 64-bit swap,
  \<open>indexval\<close>: 32-bit swap, \<open>vec3\<close> and \<open>color\<close>: component-wise swap) the byte swap is an
  involution, and applying \<open>Matrix::swapEndian\<close> twice restores every cell of any matrix.
  Elements are taken as bit patterns.
\<close>

theorem swapEndian_involution:
  "SwapEndian_real (SwapEndian_real x) = x
   \<and> SwapEndian_indexval (SwapEndian_indexval i) = i
   \<and> SwapEndian_vec3 (SwapEndian_vec3 v) = v
   \<and> SwapEndian_color (SwapEndian_color c) = c
   \<and> swapEndian SwapEndian_real (swapEndian SwapEndian_real Mr) = Mr
   \<and> swapEndian SwapEndian_indexval (swapEndian SwapEndian_indexval Mi) = Mi
   \<and> swapEndian SwapEndian_vec3 (swapEndian SwapEndian_vec3 Mv) = Mv
   \<and> swapEndian SwapEndian_color (swapEndian SwapEndian_color Mc) = Mc"
proof -
  have r: "SwapEndian_real (SwapEndian_real x) = x" for x
    by (simp add: SwapEndian_real_def swapEndian64_involution)
  have i: "SwapEndian_indexval (SwapEndian_indexval x) = x" for x
    by (simp add: SwapEndian_indexval_def swapEndian32_involution)
  have v: "SwapEndian_vec3 (SwapEndian_vec3 x) = x" for x
    by (simp add: SwapEndian_vec3_def swapEndian64_involution)
  have c: "SwapEndian_color (SwapEndian_color x) = x" for x
    by (simp add: SwapEndian_color_def swapEndian32_involution)
  show ?thesis
    by (simp only: r i v c swapEndian_twice [of SwapEndian_real, OF r]
        swapEndian_twice [of SwapEndian_indexval, OF i] swapEndian_twice [of SwapEndian_vec3, OF v]
        swapEndian_twice [of SwapEndian_color, OF c] simp_thms)
qed

subsection \<open>Growth of the capacity\<close>

lemma resize_never_shrinks:
  "\<not> mat_isShared M \<Longrightarrow> mat_n_actual M \<le> mat_n_actual (resize req M)"
  by (auto simp: resize_def Let_def)

lemma unat_max_T: "unat (max_T a b) = max (unat a) (unat b)"
  for a b :: "'a::len word"
  by (auto simp: max_T_def max_def word_less_nat_alt)

lemma resize_grow_allocated:
  fixes M :: "'a::zero Matrix"
  assumes ns: "\<not> mat_isShared M" and al: "mat_data M \<noteq> None"
    and grow: "unat (mat_n_actual M) < unat (mat_n M) + unat req"
    and no3: "unat (mat_n M) * 3 < 2 ^ 32"
    and nos: "unat (mat_n M) * 3 div 2 + unat req < 2 ^ 32"
  shows "unat (mat_n_actual (resize req M)) = max 1000 (unat (mat_n M) * 3 div 2 + unat req)"
proof -
  let ?n = "mat_n M" and ?cap = "mat_n_actual M"
  have le: "unat ?n + unat req \<le> unat ?n * 3 div 2 + unat req" by simp
  have s: "unat (?n + req) = unat ?n + unat req"
    using le nos by (intro unat_add_lem [THEN iffD1]) simp
  have "unat ?n * unat (3 :: sval) < 2 ^ LENGTH(32)"
    using no3 by simp
  then have "unat (?n * 3) = unat ?n * unat (3 :: sval)"
    by (rule unat_mult_lem [THEN iffD1])
  then have m3: "unat (?n * 3) = unat ?n * 3" by simp
  have "unat ((?n * 3) div 2) = unat (?n * 3) div unat (2 :: sval)"
    by (rule unat_div)
  then have d: "unat ((?n * 3) div 2) = unat ?n * 3 div 2"
    by (simp only: m3) simp
  have "unat ((?n * 3) div 2) + unat req < 2 ^ LENGTH(32)"
    using nos by (simp only: d) simp
  then have "unat ((?n * 3) div 2 + req) = unat ((?n * 3) div 2) + unat req"
    by (rule unat_add_lem [THEN iffD1])
  then have e: "unat ((?n * 3) div 2 + req) = unat ?n * 3 div 2 + unat req"
    by (simp only: d)
  have new: "unat (max_T 1000 ((?n * 3) div 2 + req)) = max 1000 (unat ?n * 3 div 2 + unat req)"
    by (simp add: unat_max_T e)
  have c1: "\<not> ?n + req \<le> ?cap"
    using grow s by (simp add: word_le_nat_alt)
  have c2: "\<not> max_T 1000 ((?n * 3) div 2 + req) < ?cap"
    using grow le new by (simp add: word_less_nat_alt)
  show ?thesis
    using al c1 c2 new by (auto simp: resize_def Let_def)
qed

lemma resize_first_allocation:
  "mat_data M = None \<Longrightarrow> mat_n_actual M = 0 \<Longrightarrow> \<not> mat_isShared M
     \<Longrightarrow> mat_n_actual (resize 0 M) = mat_n M"
  by (auto simp: resize_def Let_def)

lemma growth_ops_resize:
  assumes "\<not> mat_isShared M"
  shows "setN newn M = (None, resize 0 (M\<lparr>mat_n := newn\<rparr>))"
    and "addRows num M = (None, resize 0 (M\<lparr>mat_n := mat_n M + num\<rparr>))"
    and "reserveRows num M = (None, resize num M)"
    and "fst (append_value t c M) = None"
    and "mat_n_actual (snd (append_value t c M)) = mat_n_actual (resize 0 (M\<lparr>mat_n := mat_n M + 1\<rparr>))"
    and "mat_m T = mat_m M \<Longrightarrow> fst (append_matrix szT T M) = None"
    and "mat_m T = mat_m M \<Longrightarrow> mat_n_actual (snd (append_matrix szT T M))
           = mat_n_actual (resize 0 (M\<lparr>mat_n := mat_n M + mat_n T\<rparr>))"
  using assms
  by (simp_all add: setN_def addRows_def reserveRows_def append_value_def append_matrix_def
      checkNotShared_def set_data_def Let_def)

lemma claimed_capacity_values: "claimed_capacity 1001 0 = 1502" "claimed_capacity 1 0 = 1000"
  by (simp_all add: claimed_capacity_def)

lemma claimed_capacity_nat: "claimed_capacity rows requested = max 1000 ((rows * 3 + 1) div 2 + requested)"
proof -
  have "real rows * 1.5 = real (rows * 3) / 2" by simp
  also have "\<lceil>\<dots>\<rceil> = - \<lfloor>real_of_int (- int (rows * 3)) / 2\<rfloor>"
    by (simp add: ceiling_def)
  also have "\<dots> = - ((- int (rows * 3)) div 2)"
    using floor_divide_of_int_eq [of "- int (rows * 3)" 2, where ?'a = real] by simp
  also have "\<dots> = int ((rows * 3 + 1) div 2)"
    by linarith
  finally show ?thesis
    by (simp add: claimed_capacity_def)
qed

lemma setN_grow_allocated:
  fixes M :: "'a::zero Matrix"
  assumes "\<not> mat_isShared M" "mat_data M \<noteq> None" "unat (mat_n_actual M) < unat newn"
    "unat newn * 3 < 2 ^ 32"
  shows "unat (mat_n_actual (snd (setN newn M))) = max 1000 (unat newn * 3 div 2)"
proof -
  have "unat (mat_n_actual (resize 0 (M\<lparr>mat_n := newn\<rparr>)))
      = max 1000 (unat (mat_n (M\<lparr>mat_n := newn\<rparr>)) * 3 div 2 + unat (0 :: sval))"
    using assms by (intro resize_grow_allocated) simp_all
  with assms(1) show ?thesis
    by (simp add: growth_ops_resize)
qed

lemma setN_never_shrinks:
  "\<not> mat_isShared M \<Longrightarrow> mat_n_actual M \<le> mat_n_actual (snd (setN newn M))"
  using resize_never_shrinks [of "M\<lparr>mat_n := newn\<rparr>" 0] by (simp add: growth_ops_resize)

lemma setN_first_allocation:
  "\<not> mat_isShared M \<Longrightarrow> mat_data M = None \<Longrightarrow> mat_n_actual M = 0
     \<Longrightarrow> mat_n_actual (snd (setN newn M)) = newn"
  using resize_first_allocation [of "M\<lparr>mat_n := newn\<rparr>"] by (simp add: growth_ops_resize)

lemma append_capacity:
  assumes "\<not> mat_isShared M"
  shows "mat_n_actual (snd (addRows num M)) = mat_n_actual (snd (setN (mat_n M + num) M))"
    and "mat_n_actual (snd (append_value t c M)) = mat_n_actual (snd (setN (mat_n M + 1) M))"
    and "mat_m T = mat_m M \<Longrightarrow>
           mat_n_actual (snd (append_matrix szT T M)) = mat_n_actual (snd (setN (mat_n M + mat_n T) M))"
    and "mat_m T \<noteq> mat_m M \<Longrightarrow> snd (append_matrix szT T M) = M"
  using assms
  by (simp_all add: growth_ops_resize) (simp add: append_matrix_def)

lemma unat_plus_rows:
  fixes a b :: sval
  assumes "(unat a + unat b) * 3 < 2 ^ 32"
  shows "unat (a + b) = unat a + unat b"
  using assms by (intro unat_add_lem [THEN iffD1]) simp

text \<open>
  Claim C3 (as amended). For a non-shared matrix that already has a buffer, when the row
  count after \<open>setN\<close>, \<open>addRows\<close> or \<open>append\<close> exceeds the capacity, the new capacity is
  \<open>max(1000, floor(rows * 3 / 2))\<close>, and when \<open>reserveRows(requested)\<close> finds
  \<open>rows + requested\<close> above the capacity it is
  \<open>max(1000, floor(rows * 3 / 2) + requested)\<close> (as long as the 32-bit arithmetic does
  not overflow). For a matrix with no buffer yet, \<open>setN\<close>, \<open>addRows\<close> and \<open>append\<close> allocate
  exactly the row count. None of \<open>setN\<close>, \<open>addRows\<close>, \<open>reserveRows\<close> and \<open>append\<close> reduces
  the capacity of a non-shared matrix.
\<close>

theorem growth_capacity:
  fixes M :: "'a::zero Matrix"
  assumes ns: "\<not> mat_isShared M"
  shows "(\<forall>rows. mat_data M \<noteq> None \<and> unat (mat_n_actual M) < rows \<and> rows * 3 < 2 ^ 32 \<longrightarrow>
            (unat newn = rows \<longrightarrow>
               unat (mat_n_actual (snd (setN newn M))) = max 1000 (rows * 3 div 2))
          \<and> (unat (mat_n M) + unat num = rows \<longrightarrow>
               unat (mat_n_actual (snd (addRows num M))) = max 1000 (rows * 3 div 2))
          \<and> (unat (mat_n M) + 1 = rows \<longrightarrow>
               unat (mat_n_actual (snd (append_value t c M))) = max 1000 (rows * 3 div 2))
          \<and> (unat (mat_n M) + unat (mat_n T) = rows \<and> mat_m T = mat_m M \<longrightarrow>
               unat (mat_n_actual (snd (append_matrix szT T M))) = max 1000 (rows * 3 div 2)))
       \<and> (mat_data M \<noteq> None \<and> unat (mat_n_actual M) < unat (mat_n M) + unat num
            \<and> unat (mat_n M) * 3 < 2 ^ 32 \<and> unat (mat_n M) * 3 div 2 + unat num < 2 ^ 32 \<longrightarrow>
            unat (mat_n_actual (snd (reserveRows num M)))
              = max 1000 (unat (mat_n M) * 3 div 2 + unat num))
       \<and> (mat_data M = None \<and> mat_n_actual M = 0 \<longrightarrow>
            mat_n_actual (snd (setN newn M)) = newn
          \<and> mat_n_actual (snd (addRows num M)) = mat_n M + num
          \<and> mat_n_actual (snd (append_value t c M)) = mat_n M + 1
          \<and> (mat_m T = mat_m M \<longrightarrow> mat_n_actual (snd (append_matrix szT T M)) = mat_n M + mat_n T))
       \<and> mat_n_actual M \<le> mat_n_actual (snd (setN newn M))
       \<and> mat_n_actual M \<le> mat_n_actual (snd (addRows num M))
       \<and> mat_n_actual M \<le> mat_n_actual (snd (reserveRows num M))
       \<and> mat_n_actual M \<le> mat_n_actual (snd (append_value t c M))
       \<and> mat_n_actual M \<le> mat_n_actual (snd (append_matrix szT T M))"
proof -
  have grow: "unat (mat_n_actual (snd (setN k M))) = max 1000 (rows * 3 div 2)"
    if "mat_data M \<noteq> None" "unat (mat_n_actual M) < rows" "rows * 3 < 2 ^ 32" "unat k = rows"
    for k rows
    using setN_grow_allocated [OF ns that(1), of k] that by simp
  have one: "unat (1 :: sval) = 1" by simp
  have A: "\<forall>rows. mat_data M \<noteq> None \<and> unat (mat_n_actual M) < rows \<and> rows * 3 < 2 ^ 32 \<longrightarrow>
            (unat newn = rows \<longrightarrow>
               unat (mat_n_actual (snd (setN newn M))) = max 1000 (rows * 3 div 2))
          \<and> (unat (mat_n M) + unat num = rows \<longrightarrow>
               unat (mat_n_actual (snd (addRows num M))) = max 1000 (rows * 3 div 2))
          \<and> (unat (mat_n M) + 1 = rows \<longrightarrow>
               unat (mat_n_actual (snd (append_value t c M))) = max 1000 (rows * 3 div 2))
          \<and> (unat (mat_n M) + unat (mat_n T) = rows \<and> mat_m T = mat_m M \<longrightarrow>
               unat (mat_n_actual (snd (append_matrix szT T M))) = max 1000 (rows * 3 div 2))"
  proof (intro allI impI conjI)
    fix rows
    assume h: "mat_data M \<noteq> None \<and> unat (mat_n_actual M) < rows \<and> rows * 3 < 2 ^ 32"
    {
      assume "unat newn = rows"
      with h show "unat (mat_n_actual (snd (setN newn M))) = max 1000 (rows * 3 div 2)"
        by (intro grow) simp_all
    next
      assume r: "unat (mat_n M) + unat num = rows"
      with h have "unat (mat_n M + num) = rows"
        using unat_plus_rows [of "mat_n M" num] by simp
      with h show "unat (mat_n_actual (snd (addRows num M))) = max 1000 (rows * 3 div 2)"
        unfolding append_capacity(1) [OF ns] by (intro grow) simp_all
    next
      assume r: "unat (mat_n M) + 1 = rows"
      with h have "unat (mat_n M + 1) = rows"
        using unat_plus_rows [of "mat_n M" 1] by simp
      with h show "unat (mat_n_actual (snd (append_value t c M))) = max 1000 (rows * 3 div 2)"
        unfolding append_capacity(2) [OF ns] by (intro grow) simp_all
    next
      assume r: "unat (mat_n M) + unat (mat_n T) = rows \<and> mat_m T = mat_m M"
      with h have "unat (mat_n M + mat_n T) = rows"
        using unat_plus_rows [of "mat_n M" "mat_n T"] by simp
      with h r show "unat (mat_n_actual (snd (append_matrix szT T M))) = max 1000 (rows * 3 div 2)"
        by (simp only: append_capacity(3) [OF ns]) (intro grow, simp_all)
    }
  qed
  have B: "mat_data M \<noteq> None \<and> unat (mat_n_actual M) < unat (mat_n M) + unat num
            \<and> unat (mat_n M) * 3 < 2 ^ 32 \<and> unat (mat_n M) * 3 div 2 + unat num < 2 ^ 32 \<longrightarrow>
            unat (mat_n_actual (snd (reserveRows num M)))
              = max 1000 (unat (mat_n M) * 3 div 2 + unat num)"
    using resize_grow_allocated [OF ns, of num] by (simp add: growth_ops_resize [OF ns])
  have C: "mat_data M = None \<and> mat_n_actual M = 0 \<longrightarrow>
            mat_n_actual (snd (setN newn M)) = newn
          \<and> mat_n_actual (snd (addRows num M)) = mat_n M + num
          \<and> mat_n_actual (snd (append_value t c M)) = mat_n M + 1
          \<and> (mat_m T = mat_m M \<longrightarrow> mat_n_actual (snd (append_matrix szT T M)) = mat_n M + mat_n T)"
    using setN_first_allocation [OF ns] by (simp add: append_capacity [OF ns])
  have D: "mat_n_actual M \<le> mat_n_actual (snd (setN k M))" for k
    using ns by (rule setN_never_shrinks)
  have E: "mat_n_actual M \<le> mat_n_actual (snd (reserveRows num M))"
    using resize_never_shrinks [OF ns, of num] by (simp add: growth_ops_resize [OF ns])
  have F: "mat_n_actual M \<le> mat_n_actual (snd (append_matrix szT T M))"
  proof (cases "mat_m T = mat_m M")
    case True
    then show ?thesis by (simp only: append_capacity(3) [OF ns True] D)
  next
    case False
    then show ?thesis by (simp add: append_capacity(4) [OF ns])
  qed
  from A B C D [of newn] D [of "mat_n M + num"] D [of "mat_n M + 1"] E F show ?thesis
    by (simp only: append_capacity(1,2) [OF ns] simp_thms)
qed

theorem growth_capacity_witness:
  "unat (mat_n_actual (snd (append_value 7 0 example_full))) = 1501
   \<and> mat_n_actual (snd (append_value 7 0 example_empty)) = 1"
proof -
  have ns: "\<not> mat_isShared example_full" "\<not> mat_isShared example_empty"
    by (simp_all add: example_full_def example_empty_def)
  have "mat_data example_full \<noteq> None \<and> unat (mat_n_actual example_full) < 1001
      \<and> (1001 :: nat) * 3 < 2 ^ 32"
    by (simp add: example_full_def)
  moreover have "unat (mat_n example_full) + 1 = 1001"
    by (simp add: example_full_def)
  ultimately have 1: "unat (mat_n_actual (snd (append_value 7 0 example_full))) = max 1000 (1001 * 3 div 2)"
    using growth_capacity [OF ns(1), of 0 0 7 0 example_full 8] by blast
  have "mat_data example_empty = None \<and> mat_n_actual example_empty = 0"
    by (simp add: example_empty_def)
  then have 2: "mat_n_actual (snd (append_value 7 0 example_empty)) = mat_n example_empty + 1"
    using growth_capacity [OF ns(2), of 0 0 7 0 example_empty 8] by blast
  from 1 2 show ?thesis by (simp add: example_empty_def)
qed

text \<open>
  The claim as first stated fails in two ways. Appending to a full matrix of 1000 rows
  makes 1001 rows and a capacity of \<open>floor(1001 * 3 / 2) = 1501\<close>, not
  \<open>ceil(1001 * 1.5) = 1502\<close>. Appending to a matrix created with zero rows, which has no
  buffer yet, allocates exactly 1 row, not 1000.
\<close>

theorem growth_capacity_counterexample:
  "unat (mat_n example_full) = unat (mat_n_actual example_full)
   \<and> unat (mat_n (snd (append_value 7 0 example_full))) = 1001
   \<and> unat (mat_n_actual (snd (append_value 7 0 example_full))) = 1501
   \<and> claimed_capacity 1001 0 = 1502
   \<and> unat (mat_n (snd (append_value 7 0 example_empty))) = 1
   \<and> unat (mat_n_actual (snd (append_value 7 0 example_empty))) = 1
   \<and> claimed_capacity 1 0 = 1000"
proof -
  have ns: "\<not> mat_isShared example_full" "\<not> mat_isShared example_empty"
    by (simp_all add: example_full_def example_empty_def)
  have al: "mat_data example_full \<noteq> None" by (simp add: example_full_def)
  have 1: "unat (mat_n_actual (snd (append_value 7 0 example_full))) = 1501"
    unfolding append_capacity(2) [OF ns(1)]
    using setN_grow_allocated [OF ns(1) al, of "mat_n example_full + 1"]
    by (simp add: example_full_def)
  have 2: "unat (mat_n_actual (snd (append_value 7 0 example_empty))) = 1"
    unfolding append_capacity(2) [OF ns(2)]
    using setN_first_allocation [OF ns(2), of "mat_n example_empty + 1"]
    by (simp add: example_empty_def)
  have 3: "mat_n (snd (append_value 7 0 M)) = mat_n M + 1" if "\<not> mat_isShared M"
    for M :: "real_bits Matrix"
    using that by (simp add: append_value_def addRows_def setN_def checkNotShared_def
        set_data_def resize_fields)
  have 4: "unat (mat_n example_full) = unat (mat_n_actual example_full)"
    by (simp add: example_full_def)
  have 5: "unat (mat_n (snd (append_value 7 0 example_full))) = 1001"
    by (simp add: 3 ns) (simp add: example_full_def)
  have 6: "unat (mat_n (snd (append_value 7 0 example_empty))) = 1"
    by (simp add: 3 ns) (simp add: example_empty_def)
  from 4 5 1 claimed_capacity_values(1) 6 2 claimed_capacity_values(2) show ?thesis
    by (intro conjI)
qed

subsection \<open>Reordering columns\<close>

lemma checkOrder_None:
  "checkOrder orderinds m js = None \<longleftrightarrow> (\<forall>j \<in> set js. orderinds ! j < m)"
  by (induction js) (auto simp: checkIndex_def split: option.splits)

lemma checkOrder_Some:
  "checkOrder orderinds m js = Some e \<Longrightarrow>
     \<exists>j \<in> set js. m \<le> orderinds ! j \<and> e = IndexException ''sortinds'' (unat (orderinds ! j)) (unat m)"
  by (induction js) (auto simp: checkIndex_def split: option.splits if_splits)

lemma fold_update_length:
  "length (fold (\<lambda>j d'. d'[g j := h j]) js d) = length d"
  by (induction js arbitrary: d) auto

lemma fold_update_nth_other:
  "k \<notin> g ` set js \<Longrightarrow> fold (\<lambda>j d'. d'[g j := h j]) js d ! k = d ! k"
  by (induction js arbitrary: d) auto

lemma fold_update_nth_hit:
  "distinct (map g js) \<Longrightarrow> j \<in> set js \<Longrightarrow> g j < length d
     \<Longrightarrow> fold (\<lambda>j d'. d'[g j := h j]) js d ! g j = h j"
proof (induction js arbitrary: d)
  case Nil
  then show ?case by simp
next
  case (Cons a js)
  show ?case
  proof (cases "a = j")
    case True
    with Cons.prems have "g j \<notin> g ` set js" by auto
    then have "fold (\<lambda>j d'. d'[g j := h j]) js (d[g j := h j]) ! g j = d[g j := h j] ! g j"
      by (rule fold_update_nth_other)
    with True Cons.prems(3) show ?thesis by simp
  next
    case False
    with Cons.prems have "j \<in> set js" "distinct (map g js)" by auto
    with Cons.prems(3) show ?thesis
      using Cons.IH [of "d[g a := h a]"] by simp
  qed
qed

lemma cell_index:
  fixes m n :: sval
  assumes "j < unat m" "i < unat n" "unat n * unat m < 2 ^ 32"
  shows "unat (of_nat j + m * of_nat i :: sval) = j + unat m * i"
proof -
  from assms(2) have "Suc i \<le> unat n" by simp
  then have "unat m * Suc i \<le> unat m * unat n" by (rule mult_le_mono2)
  then have "unat m * i + unat m \<le> unat m * unat n" by simp
  with assms have b: "j + unat m * i < 2 ^ 32"
    by (simp add: mult.commute)
  have "unat n < 2 ^ LENGTH(32)" by (rule unsigned_less)
  with assms(2) have ib: "i < 2 ^ 32" by simp
  from b have jb: "j < 2 ^ 32" by simp
  have j: "unat (of_nat j :: sval) = j" and i: "unat (of_nat i :: sval) = i"
    using ib jb by (simp_all add: unat_of_nat)
  have "unat m * unat (of_nat i :: sval) < 2 ^ LENGTH(32)"
    using b i by simp
  then have mi: "unat (m * of_nat i) = unat m * i"
    using i by (simp add: unat_mult_lem [THEN iffD1])
  have "unat (of_nat j :: sval) + unat (m * of_nat i) < 2 ^ LENGTH(32)"
    using b by (simp add: j mi)
  then show ?thesis
    by (simp add: unat_add_lem [THEN iffD1] j mi)
qed

lemma reorderRow_nth:
  fixes m n :: sval
  assumes i: "i < unat n" and nw: "unat n * unat m < 2 ^ 32" and len: "unat n * unat m \<le> length d"
    and ok: "\<forall>j < unat m. orderinds ! j < m"
  shows "length (reorderRow orderinds m d i) = length d"
    and "k < length d \<Longrightarrow> reorderRow orderinds m d i ! k =
          (if unat m * i \<le> k \<and> k < unat m * i + unat m
           then d ! (unat m * i + unat (orderinds ! (k - unat m * i))) else d ! k)"
proof -
  let ?M = "unat m"
  let ?g = "\<lambda>j. j + ?M * i"
  let ?h = "\<lambda>j. d ! (unat (orderinds ! j) + ?M * i)"
  have g: "unat (of_nat j + m * of_nat i :: sval) = ?g j" if "j < ?M" for j
    using that i nw by (rule cell_index)
  have buff: "map (\<lambda>j. d ! unat (of_nat j + m * of_nat i :: sval)) [0..<?M] ! unat (orderinds ! j) = ?h j"
    if "j < ?M" for j
  proof -
    from ok that have lt: "unat (orderinds ! j) < ?M" by (simp add: word_less_nat_alt)
    from g [OF lt] have "unat (orderinds ! j + m * of_nat i) = unat (orderinds ! j) + ?M * i"
      by simp
    with lt show ?thesis by simp
  qed
  have r: "reorderRow orderinds m d i = fold (\<lambda>j d'. d'[?g j := ?h j]) [0..<?M] d"
    unfolding reorderRow_def Let_def
    by (rule fold_cong) (simp_all add: g buff)
  show "length (reorderRow orderinds m d i) = length d"
    unfolding r by (rule fold_update_length)
  have dist: "distinct (map ?g [0..<?M])"
    by (simp add: distinct_map inj_on_def)
  from i have "Suc i \<le> unat n" by simp
  then have "?M * Suc i \<le> ?M * unat n" by (rule mult_le_mono2)
  with len have row: "?M * i + ?M \<le> length d" by (simp add: mult.commute)
  show "reorderRow orderinds m d i ! k =
          (if ?M * i \<le> k \<and> k < ?M * i + ?M
           then d ! (?M * i + unat (orderinds ! (k - ?M * i))) else d ! k)"
    if k: "k < length d"
  proof (cases "?M * i \<le> k \<and> k < ?M * i + ?M")
    case True
    define j where "j = k - ?M * i"
    with True have j: "j < ?M" and kj: "k = ?g j" by auto
    from j have "j \<in> set [0..<?M]" by simp
    from fold_update_nth_hit [of ?g "[0..<?M]" j d ?h, OF dist this] k
    have "fold (\<lambda>j d'. d'[?g j := ?h j]) [0..<?M] d ! k = ?h j"
      by (simp add: kj)
    with True show ?thesis
      unfolding r by (simp add: j_def add.commute)
  next
    case False
    then have "k \<notin> ?g ` set [0..<?M]" by auto
    then have "fold (\<lambda>j d'. d'[?g j := ?h j]) [0..<?M] d ! k = d ! k"
      by (rule fold_update_nth_other)
    with False show ?thesis unfolding r by auto
  qed
qed

lemma reorder_rows_nth:
  fixes m n :: sval
  assumes nw: "unat n * unat m < 2 ^ 32" and len: "unat n * unat m \<le> length d"
    and ok: "\<forall>j < unat m. orderinds ! j < m" and r: "r \<le> unat n"
  shows "length (fold (\<lambda>i d'. reorderRow orderinds m d' i) [0..<r] d) = length d
       \<and> (\<forall>k < length d. fold (\<lambda>i d'. reorderRow orderinds m d' i) [0..<r] d ! k =
            (if k < unat m * r then d ! (unat m * (k div unat m) + unat (orderinds ! (k mod unat m)))
             else d ! k))"
  using r
proof (induction r)
  case 0
  then show ?case by simp
next
  case (Suc r)
  let ?M = "unat m"
  let ?D = "fold (\<lambda>i d'. reorderRow orderinds m d' i) [0..<r] d"
  from Suc have IH: "length ?D = length d"
    "\<And>k. k < length d \<Longrightarrow> ?D ! k =
       (if k < ?M * r then d ! (?M * (k div ?M) + unat (orderinds ! (k mod ?M))) else d ! k)"
    by auto
  from Suc.prems have rn: "r < unat n" by simp
  have step: "fold (\<lambda>i d'. reorderRow orderinds m d' i) [0..<Suc r] d = reorderRow orderinds m ?D r"
    by simp
  from len IH(1) have lenD: "unat n * ?M \<le> length ?D" by simp
  note R = reorderRow_nth [OF rn nw lenD ok]
  have L: "length (reorderRow orderinds m ?D r) = length d"
    using R(1) IH(1) by simp
  have N: "reorderRow orderinds m ?D r ! k =
            (if k < ?M * Suc r then d ! (?M * (k div ?M) + unat (orderinds ! (k mod ?M)))
             else d ! k)" if k: "k < length d" for k
  proof (cases "?M * r \<le> k \<and> k < ?M * r + ?M")
    case True
    then have M0: "0 < ?M" by auto
    from True have kd: "k div ?M = r"
      by (intro div_nat_eqI) (simp_all add: mult.commute)
    then have km: "k mod ?M = k - ?M * r"
      by (metis minus_mult_div_eq_mod)
    from True have "k - ?M * r < ?M" by linarith
    with ok have "orderinds ! (k - ?M * r) < m" by blast
    then have "unat (orderinds ! (k - ?M * r)) < ?M"
      by (simp add: word_less_nat_alt)
    then have src: "?M * r + unat (orderinds ! (k - ?M * r)) < ?M * r + ?M" by simp
    from rn have "Suc r \<le> unat n" by simp
    then have "?M * Suc r \<le> ?M * unat n" by (rule mult_le_mono2)
    with len src have srclen: "?M * r + unat (orderinds ! (k - ?M * r)) < length d"
      by (simp add: mult.commute)
    have "reorderRow orderinds m ?D r ! k = ?D ! (?M * r + unat (orderinds ! (k - ?M * r)))"
      using R(2) [of k] k IH(1) True by simp
    also have "\<dots> = d ! (?M * r + unat (orderinds ! (k - ?M * r)))"
      using IH(2) [OF srclen] by simp
    finally show ?thesis
      using True by (simp add: kd km)
  next
    case False
    have "reorderRow orderinds m ?D r ! k = ?D ! k"
      using R(2) [of k] k IH(1) False by simp
    also have "\<dots> = (if k < ?M * r then d ! (?M * (k div ?M) + unat (orderinds ! (k mod ?M))) else d ! k)"
      using IH(2) [OF k] .
    finally show ?thesis
      using False by auto
  qed
  show ?case
    unfolding step using L N by blast
qed

lemma checkOrder_first:
  "checkOrder orderinds m js = Some e \<Longrightarrow>
     \<exists>k < length js. m \<le> orderinds ! (js ! k) \<and> (\<forall>k' < k. orderinds ! (js ! k') < m)
       \<and> e = IndexException ''sortinds'' (unat (orderinds ! (js ! k))) (unat m)"
proof (induction js)
  case Nil
  then show ?case by simp
next
  case (Cons a js)
  show ?case
  proof (cases "m \<le> orderinds ! a")
    case True
    with Cons.prems have "e = IndexException ''sortinds'' (unat (orderinds ! a)) (unat m)"
      by (simp add: checkIndex_def)
    with True show ?thesis by (intro exI [of _ 0]) simp
  next
    case False
    with Cons.prems have "checkOrder orderinds m js = Some e"
      by (simp add: checkIndex_def)
    from Cons.IH [OF this] obtain k where k: "k < length js" "m \<le> orderinds ! (js ! k)"
      "\<forall>k' < k. orderinds ! (js ! k') < m"
      "e = IndexException ''sortinds'' (unat (orderinds ! (js ! k))) (unat m)"
      by blast
    have "\<forall>k' < Suc k. orderinds ! ((a # js) ! k') < m"
    proof (intro allI impI)
      fix k' assume "k' < Suc k"
      then show "orderinds ! ((a # js) ! k') < m"
        using False k(3) by (cases k') auto
    qed
    with k show ?thesis by (intro exI [of _ "Suc k"]) simp
  qed
qed

lemma reorderColumns_throws:
  assumes "fst (reorderColumns orderinds M) = Some e"
  shows "snd (reorderColumns orderinds M) = M
       \<and> (\<exists>j < unat (mat_m M). mat_m M \<le> orderinds ! j \<and> (\<forall>j' < j. orderinds ! j' < mat_m M)
            \<and> e = IndexException ''sortinds'' (unat (orderinds ! j)) (unat (mat_m M)))"
proof -
  from assms have c: "checkOrder orderinds (mat_m M) [0..<unat (mat_m M)] = Some e"
    by (auto simp: reorderColumns_def split: option.splits)
  then have "snd (reorderColumns orderinds M) = M"
    by (simp add: reorderColumns_def)
  moreover from checkOrder_first [OF c]
  have "\<exists>j < unat (mat_m M). mat_m M \<le> orderinds ! j \<and> (\<forall>j' < j. orderinds ! j' < mat_m M)
            \<and> e = IndexException ''sortinds'' (unat (orderinds ! j)) (unat (mat_m M))"
    by auto
  ultimately show ?thesis by blast
qed

lemma reorderColumns_accepts:
  "fst (reorderColumns orderinds M) = None \<longleftrightarrow> (\<forall>j < unat (mat_m M). orderinds ! j < mat_m M)"
proof -
  have "fst (reorderColumns orderinds M) = None
      \<longleftrightarrow> checkOrder orderinds (mat_m M) [0..<unat (mat_m M)] = None"
    by (simp add: reorderColumns_def split: option.splits)
  then show ?thesis by (auto simp: checkOrder_None)
qed

lemma reorderColumns_cells:
  assumes acc: "fst (reorderColumns orderinds M) = None"
    and d: "mat_data M = Some d"
    and len: "unat (mat_n M) * unat (mat_m M) \<le> length d"
    and nw: "unat (mat_n M) * unat (mat_m M) < 2 ^ 32"
    and i: "i < mat_n M" and j: "j < mat_m M"
  shows "at_mat (snd (reorderColumns orderinds M)) i j = at_mat M i (orderinds ! unat j)"
proof -
  let ?M = "unat (mat_m M)" and ?N = "unat (mat_n M)"
  let ?D = "fold (\<lambda>i d'. reorderRow orderinds (mat_m M) d' i) [0..<?N] d"
  from acc have ok: "\<forall>j < ?M. orderinds ! j < mat_m M"
    by (simp add: reorderColumns_accepts)
  from acc d have res: "snd (reorderColumns orderinds M) = M\<lparr>mat_data := Some ?D\<rparr>"
    by (auto simp: reorderColumns_def split: option.splits)
  from i j have ui: "unat i < ?N" and uj: "unat j < ?M"
    by (simp_all add: word_less_nat_alt)
  from cell_index [OF uj ui nw] have k: "unat (j + mat_m M * i) = unat j + ?M * unat i"
    by simp
  from ui have "Suc (unat i) \<le> ?N" by simp
  then have "?M * Suc (unat i) \<le> ?M * ?N" by (rule mult_le_mono2)
  with uj have kr: "unat j + ?M * unat i < ?M * ?N" by simp
  with len have kl: "unat j + ?M * unat i < length d" by (simp add: mult.commute)
  from ok uj have oj: "unat (orderinds ! unat j) < ?M"
    by (simp add: word_less_nat_alt)
  from cell_index [OF oj ui nw]
  have s: "unat (orderinds ! unat j + mat_m M * i) = unat (orderinds ! unat j) + ?M * unat i"
    by simp
  from uj have dv: "(unat j + ?M * unat i) div ?M = unat i" and md: "(unat j + ?M * unat i) mod ?M = unat j"
    by simp_all
  from reorder_rows_nth [OF nw len ok order_refl] kl kr
  have "?D ! (unat j + ?M * unat i)
      = d ! (?M * ((unat j + ?M * unat i) div ?M) + unat (orderinds ! ((unat j + ?M * unat i) mod ?M)))"
    by simp
  then have "?D ! (unat j + ?M * unat i) = d ! (unat (orderinds ! unat j) + ?M * unat i)"
    by (simp only: dv md add.commute)
  then show ?thesis
    by (simp add: res at_mat_def at_index_def k s d)
qed

text \<open>
  Claim C9 (as amended). \<open>reorderColumns\<close> checks, before it changes any row, that each of
  the first \<open>cols\<close> entries of the index array is below \<open>cols\<close>; for the first entry that
  is not, it throws an \<open>IndexException\<close> naming that value and the bound, and the matrix
  is unchanged. Every array that passes this check is accepted, whether or not it
  repeats or omits a column index; then, in each row, column \<open>j\<close> receives the old value
  of column \<open>orderinds[j]\<close>, and the row and column counts stay the same.
\<close>

theorem reorderColumns_range_check:
  assumes "unat (mat_m M) \<le> length orderinds"
  shows "(fst (reorderColumns orderinds M) = None
            \<longleftrightarrow> (\<forall>j < unat (mat_m M). orderinds ! j < mat_m M))
       \<and> (\<forall>e. fst (reorderColumns orderinds M) = Some e \<longrightarrow>
            snd (reorderColumns orderinds M) = M
            \<and> (\<exists>j < unat (mat_m M). mat_m M \<le> orderinds ! j \<and> (\<forall>j' < j. orderinds ! j' < mat_m M)
                 \<and> e = IndexException ''sortinds'' (unat (orderinds ! j)) (unat (mat_m M))))
       \<and> mat_n (snd (reorderColumns orderinds M)) = mat_n M
       \<and> mat_m (snd (reorderColumns orderinds M)) = mat_m M
       \<and> (\<forall>d i j. fst (reorderColumns orderinds M) = None \<and> mat_data M = Some d
            \<and> unat (mat_n M) * unat (mat_m M) \<le> length d
            \<and> unat (mat_n M) * unat (mat_m M) < 2 ^ 32 \<and> i < mat_n M \<and> j < mat_m M \<longrightarrow>
            at_mat (snd (reorderColumns orderinds M)) i j = at_mat M i (orderinds ! unat j))"
proof -
  have f: "mat_n (snd (reorderColumns orderinds M)) = mat_n M"
    "mat_m (snd (reorderColumns orderinds M)) = mat_m M"
    by (simp_all add: reorderColumns_def split: option.splits)
  from reorderColumns_accepts reorderColumns_throws reorderColumns_cells f show ?thesis
    by blast
qed

theorem reorderColumns_range_check_witness:
  "reorderColumns [1, 0] example_row = (None, example_row\<lparr>mat_data := Some [20, 10]\<rparr>)
   \<and> reorderColumns [0, 2] example_row = (Some (IndexException ''sortinds'' 2 2), example_row)"
proof -
  have m: "mat_m example_row = 2" by (simp add: example_row_def)
  have l: "unat (mat_m example_row) \<le> length [1, 0 :: sval]"
    "unat (mat_m example_row) \<le> length [0, 2 :: sval]"
    by (simp_all add: m)
  have um: "unat (mat_m example_row) = 2" by (simp add: m)
  have "\<forall>j < unat (mat_m example_row). [1, 0 :: sval] ! j < mat_m example_row"
    unfolding um m by (auto simp: less_2_cases_iff)
  with reorderColumns_range_check [OF l(1)] have "fst (reorderColumns [1, 0] example_row) = None"
    by blast
  moreover have "snd (reorderColumns [1, 0] example_row) = example_row\<lparr>mat_data := Some [20, 10]\<rparr>"
    by code_simp
  ultimately have a: "reorderColumns [1, 0] example_row = (None, example_row\<lparr>mat_data := Some [20, 10]\<rparr>)"
    by (simp add: prod_eq_iff)
  have "\<not> (\<forall>j < unat (mat_m example_row). [0, 2 :: sval] ! j < mat_m example_row)"
    unfolding um m by (auto intro!: exI [of _ 1])
  with reorderColumns_range_check [OF l(2)] obtain e
    where e: "fst (reorderColumns [0, 2] example_row) = Some e"
    by (cases "fst (reorderColumns [0, 2] example_row)") blast+
  with reorderColumns_range_check [OF l(2)]
  have u: "snd (reorderColumns [0, 2] example_row) = example_row"
    by blast
  have "fst (reorderColumns [0, 2] example_row) = Some (IndexException ''sortinds'' 2 2)"
    by code_simp
  with u have "reorderColumns [0, 2] example_row = (Some (IndexException ''sortinds'' 2 2), example_row)"
    by (simp add: prod_eq_iff)
  with a show ?thesis by blast
qed

text \<open>
  The claim as first stated (arrays that repeat or omit a column index are rejected)
  fails: the array \<open>[0, 0]\<close> for a matrix of two columns repeats column 0 and omits
  column 1, and is accepted; both columns of the row then hold the old column 0.
\<close>

theorem reorderColumns_counterexample:
  "\<not> distinct [0, 0 :: sval] \<and> 1 \<notin> set [0, 0 :: sval]
   \<and> reorderColumns [0, 0] example_row = (None, example_row\<lparr>mat_data := Some [10, 10]\<rparr>)"
proof -
  have "reorderColumns [0, 0] example_row = (None, example_row\<lparr>mat_data := Some [10, 10]\<rparr>)"
    by code_simp
  then show ?thesis by simp
qed

end
